theory Spec2Isabelle
  imports Main "HOL-Library.Word"
begin

unbundle bit_operations_syntax

text \<open>
  The modules of the SDK and where their code is: \<open>utils.ts\<close> and \<open>types.ts\<close> in
  \<open>src/src\<close>; \<open>department.ts\<close> in \<open>src/src/department.ts\<close>, followed there, from
  line 184 on, by \<open>config.ts\<close>; \<open>dbtc.ts\<close> in \<open>src/unnamed/part_000\<close>, \<open>index.ts\<close> in
  \<open>src/unnamed/part_001\<close> and \<open>agency.ts\<close> in \<open>src/unnamed/part_002\<close>.
\<close>

section \<open>JavaScript values\<close>

text \<open>
  A JavaScript string is a sequence of UTF-16 code units and \<open>str.length\<close> counts
  code units, so a string is a list of 16-bit words. String literals of the source
  are written \<open>js ''...''\<close>.
\<close>

type_synonym jsstring = "16 word list"

type_synonym bytes = "8 word list"

definition js :: "string \<Rightarrow> jsstring" where
  "js s = map (\<lambda>c. of_nat (of_char c)) s"

text \<open>
  Everything the SDK or one of the libraries it calls can throw. The first seven are
  the \<open>throw new Error(...)\<close> statements of the source, named after their message;
  \<open>TypeError\<close> is a property read on \<open>undefined\<close>; \<open>External\<close> is an
  exception or promise rejection raised inside ethers or a JavaScript builtin.
\<close>

datatype error =
    ChainModeInvalid       \<comment> \<open>chainMode must be 'testnet' or 'mainnet'\<close>
  | ApiKeyRequired         \<comment> \<open>apiKey is required. Contact DBTC to obtain your API key.\<close>
  | NotConfigured          \<comment> \<open>SDK not configured. Call configure() first or set ...\<close>
  | NoPrivateKey           \<comment> \<open>No private key provided. Pass privateKey parameter or ...\<close>
  | NoDbtcAddress          \<comment> \<open>DBTC contract address not configured. Use ...\<close>
  | StringTooLong          \<comment> \<open>String too long for bytes32 (max 31 characters)\<close>
  | NoReceipt              \<comment> \<open>Transaction failed - no receipt\<close>
  | TypeError
  | External string

text \<open>
  A JavaScript number is kept exactly when it is integral; every other number
  (a fraction, NaN, an infinity) is \<open>NonIntegral\<close>.
\<close>

datatype js_number = Integral int | NonIntegral

text \<open>The values an ABI-decoded event argument or a contract read can be.\<close>

datatype js_value =
    Undefined
  | Null
  | Boolean bool
  | BigInt int
  | String jsstring
  | Object nat

fun truthy :: "js_value \<Rightarrow> bool" where
  "truthy Undefined = False"
| "truthy Null = False"
| "truthy (Boolean b) = b"
| "truthy (BigInt n) = (n \<noteq> 0)"
| "truthy (String s) = (s \<noteq> [])"
| "truthy (Object _) = True"

text \<open>\<open>s || t\<close> on optional strings, and \<open>!s\<close>: undefined and the empty string are falsy.\<close>

fun truthy_str :: "jsstring option \<Rightarrow> bool" where
  "truthy_str None = False"
| "truthy_str (Some s) = (s \<noteq> [])"

section \<open>Receipts, logs and the contract interface\<close>

text \<open>
  Of an \<open>ethers.Log\<close> the SDK reads \<open>topics\<close> and \<open>data\<close> only.
\<close>

record log =
  topics :: "jsstring list"
  data :: jsstring

text \<open>
  \<open>parsed.args\<close> is an ethers \<open>Result\<close>, read by name (\<open>args.tokenId\<close>) and by
  position (\<open>args[1]\<close>). A read can throw: a position past the end is a
  \<open>RangeError\<close>, and an argument whose decoding failed throws the error kept in its
  place when it is read. A name the event does not have reads as \<open>Undefined\<close>.
\<close>

record result_args =
  named :: "jsstring \<Rightarrow> error + js_value"
  positional :: "nat \<Rightarrow> error + js_value"

record log_description =
  name :: jsstring
  args :: result_args

text \<open>
  \<open>contract.interface\<close> comes from an ABI file that is not part of the sources, so
  it is a parameter: \<open>parseLog {topics, data}\<close> throws, returns null, or returns a
  description.
\<close>

record interface =
  parseLog :: "jsstring list \<Rightarrow> jsstring \<Rightarrow> error + log_description option"

record receipt =
  hash :: jsstring
  receipt_blockNumber :: nat
  receipt_gasUsed :: int
  status :: "int option"
  receipt_logs :: "log list"

text \<open>
  A \<open>ContractTransactionResponse\<close>: \<open>tx.wait()\<close> rejects, resolves to null, or
  resolves to a receipt.
\<close>

record tx =
  wait :: "error + receipt option"

record TransactionResult =
  txHash :: jsstring
  blockNumber :: nat
  gasUsed :: int
  success :: bool
  logs :: "log list"

record ProposalResult = TransactionResult +
  tokenId :: js_value

record RevisionResult = TransactionResult +
  newTokenId :: js_value

record DepartmentResult = TransactionResult +
  departmentAddress :: js_value

record AgencyResult = TransactionResult +
  agencyAddress :: js_value

section \<open>utils.ts\<close>

text \<open>
  \<open>ethers.encodeBytes32String\<close>, \<open>ethers.decodeBytes32String\<close> and the JavaScript
  builtins \<open>BigInt(string)\<close> and \<open>Number(value)\<close> are parameters of the model,
  as are the private-key check of \<open>new ethers.Wallet\<close> and the three ABI files.
\<close>

datatype abi = AgencyABI | DepartmentABI | DBTCABI

record library =
  encodeBytes32String :: "jsstring \<Rightarrow> error + bytes"
  decodeBytes32String :: "bytes \<Rightarrow> error + jsstring"
  BigInt_of_string :: "jsstring \<Rightarrow> error + int"
  Number_of :: "js_value \<Rightarrow> js_number"
  Wallet_check :: "jsstring \<Rightarrow> error option"
  interface_of :: "abi \<Rightarrow> interface"

definition stringToBytes32 :: "library \<Rightarrow> jsstring \<Rightarrow> error + bytes" where
  "stringToBytes32 lib str =
     (if length str > 31 then Inl StringTooLong
      else encodeBytes32String lib str)"

definition bytes32ToString :: "library \<Rightarrow> bytes \<Rightarrow> error + jsstring" where
  "bytes32ToString lib bytes32 = decodeBytes32String lib bytes32"

text \<open>\<open>amount: bigint | string | number\<close> and the builtin \<open>BigInt(amount)\<close>.\<close>

datatype amount = AmountBigInt int | AmountString jsstring | AmountNumber js_number

fun BigInt_of :: "library \<Rightarrow> amount \<Rightarrow> error + int" where
  "BigInt_of lib (AmountBigInt n) = Inr n"
| "BigInt_of lib (AmountString s) = BigInt_of_string lib s"
| "BigInt_of lib (AmountNumber (Integral n)) = Inr n"
| "BigInt_of lib (AmountNumber NonIntegral) = Inl (External ''RangeError'')"

record ProposalData =
  prexcFpapId :: jsstring
  uacsObjCode :: jsstring
  amount :: amount

text \<open>The object \<open>prepareProposalData\<close> returns; its last three fields are encoded.\<close>

record PreparedProposalData =
  fiscalYear :: nat
  departmentCode :: bytes
  agencyCode :: bytes
  prexcFpapId32 :: bytes
  uacsObjCode32 :: bytes
  amountBigInt :: int

definition ZeroHash :: bytes where
  "ZeroHash = replicate 32 0"

text \<open>
  The fields of the object literal are evaluated in order, so the first conversion
  that throws decides the error.
\<close>

definition prepareProposalData :: "library \<Rightarrow> ProposalData \<Rightarrow> error + PreparedProposalData" where
  "prepareProposalData lib d =
     (case stringToBytes32 lib (prexcFpapId d) of
        Inl e \<Rightarrow> Inl e
      | Inr p \<Rightarrow>
          (case stringToBytes32 lib (uacsObjCode d) of
             Inl e \<Rightarrow> Inl e
           | Inr u \<Rightarrow>
               (case BigInt_of lib (amount d) of
                  Inl e \<Rightarrow> Inl e
                | Inr a \<Rightarrow>
                    Inr \<lparr>fiscalYear = 0, departmentCode = ZeroHash, agencyCode = ZeroHash,
                         prexcFpapId32 = p, uacsObjCode32 = u, amountBigInt = a\<rparr>)))"

section \<open>config.ts\<close>

record NetworkConfig =
  rpcUrl :: jsstring
  chainId :: nat
  chainName :: jsstring

text \<open>\<open>NETWORKS[mode]\<close>: undefined for any other key.\<close>

definition NETWORKS :: "jsstring \<Rightarrow> NetworkConfig option" where
  "NETWORKS mode =
     (if mode = js ''testnet'' then
        Some \<lparr>rpcUrl = js ''https://amoy.dbtc.bayanichain.io'', chainId = 80002,
              chainName = js ''Polygon Amoy''\<rparr>
      else if mode = js ''mainnet'' then
        Some \<lparr>rpcUrl = js ''https://polygon.dbtc.bayanichain.io'', chainId = 137,
              chainName = js ''Polygon''\<rparr>
      else None)"

record ContractAddresses =
  dbtc :: jsstring
  budgetProposal :: jsstring

text \<open>The bundled \<open>CONTRACT_ADDRESSES\<close>, as the module initialises it.\<close>

definition CONTRACT_ADDRESSES :: "jsstring \<Rightarrow> ContractAddresses option" where
  "CONTRACT_ADDRESSES mode =
     (if mode = js ''testnet'' then
        Some \<lparr>dbtc = js ''0x8972bc4dea1d2760E3f5b0a90675Dde15506aA8E'',
              budgetProposal = js ''0xf73aB0E2069029c881EFB825f74aC602472d3ace''\<rparr>
      else if mode = js ''mainnet'' then
        Some \<lparr>dbtc = [], budgetProposal = []\<rparr>
      else None)"

record SDKConfig =
  chainMode :: jsstring
  apiKey :: jsstring
  privateKey :: "jsstring option"

datatype provider = JsonRpcProvider jsstring nat

datatype wallet = Wallet jsstring provider

text \<open>A contract handle: its address, its ABI and the runner it was built with.\<close>

datatype runner = Signer wallet | Reader provider

datatype contract = Contract jsstring abi runner

text \<open>What is passed to a contract method.\<close>

datatype arg =
    Str jsstring
  | Flag bool
  | Big int
  | Num js_number
  | Proposal PreparedProposalData

text \<open>
  What the SDK does to a contract, in program order: \<open>Sent\<close> is a method call on a
  signer-bound contract whose result is a transaction, \<open>Waited\<close> is
  \<open>await tx.wait()\<close>, \<open>Queried\<close> is a method call on a provider-bound contract
  whose result is a value.
\<close>

datatype interaction =
    Sent contract string "arg list"
  | Waited
  | Queried contract string "arg list"

text \<open>
  The module state: \<open>_config\<close>, \<open>_provider\<close>, the mutable \<open>CONTRACT_ADDRESSES\<close>
  table, and the record of contract interactions so far.
\<close>

record sdk_state =
  stored_config :: "SDKConfig option"
  cached_provider :: "provider option"
  addresses :: "jsstring \<Rightarrow> ContractAddresses option"
  trace :: "interaction list"

text \<open>
  The world outside the process: \<open>process.env\<close>, the libraries, and the chain,
  which answers a transaction submission with a transaction (or a rejection) and a
  read with a value (or a rejection).
\<close>

record world =
  DBTC_CHAIN_MODE :: "jsstring option"
  DBTC_API_KEY :: "jsstring option"
  PRIVATE_KEY :: "jsstring option"
  lib :: library
  submit :: "contract \<Rightarrow> string \<Rightarrow> arg list \<Rightarrow> error + tx"
  query :: "contract \<Rightarrow> string \<Rightarrow> arg list \<Rightarrow> error + js_value"

text \<open>A function of the SDK: it reads and updates the module state and may throw.\<close>

type_synonym 'a sdk = "sdk_state \<Rightarrow> (error + 'a) \<times> sdk_state"

definition return_sdk :: "'a \<Rightarrow> 'a sdk" where
  "return_sdk x = (\<lambda>s. (Inr x, s))"

definition throw_sdk :: "error \<Rightarrow> 'a sdk" where
  "throw_sdk e = (\<lambda>s. (Inl e, s))"

definition lift_sdk :: "error + 'a \<Rightarrow> 'a sdk" where
  "lift_sdk r = (\<lambda>s. (r, s))"

definition bind_sdk :: "'a sdk \<Rightarrow> ('a \<Rightarrow> 'b sdk) \<Rightarrow> 'b sdk" where
  "bind_sdk m f = (\<lambda>s. case m s of (Inl e, s') \<Rightarrow> (Inl e, s') | (Inr x, s') \<Rightarrow> f x s')"

definition record_sdk :: "interaction \<Rightarrow> unit sdk" where
  "record_sdk i = (\<lambda>s. (Inr (), s\<lparr>trace := trace s @ [i]\<rparr>))"

definition configure :: "SDKConfig \<Rightarrow> unit sdk" where
  "configure config = (\<lambda>s.
     if chainMode config = [] \<or> chainMode config \<notin> set [js ''testnet'', js ''mainnet'']
     then (Inl ChainModeInvalid, s)
     else if apiKey config = [] then (Inl ApiKeyRequired, s)
     else (Inr (),
           s\<lparr>stored_config := Some \<lparr>chainMode = chainMode config, apiKey = apiKey config,
                                     privateKey = privateKey config\<rparr>,
             cached_provider := None\<rparr>))"

text \<open>
  \<open>getConfig\<close> configures from the environment when nothing is stored; its final
  \<open>return _config!\<close> hands back whatever is stored then.
\<close>

definition getConfig :: "world \<Rightarrow> SDKConfig sdk" where
  "getConfig w = (\<lambda>s.
     case stored_config s of
       Some c \<Rightarrow> (Inr c, s)
     | None \<Rightarrow>
         (case (DBTC_CHAIN_MODE w, DBTC_API_KEY w) of
            (Some m, Some k) \<Rightarrow>
              if m \<noteq> [] \<and> k \<noteq> [] then
                bind_sdk (configure \<lparr>chainMode = m, apiKey = k, privateKey = PRIVATE_KEY w\<rparr>)
                  (\<lambda>_ s'. case stored_config s' of
                             Some c \<Rightarrow> (Inr c, s')
                           | None \<Rightarrow> (Inl TypeError, s')) s
              else (Inl NotConfigured, s)
          | _ \<Rightarrow> (Inl NotConfigured, s)))"

definition getNetworkConfig :: "world \<Rightarrow> NetworkConfig option sdk" where
  "getNetworkConfig w =
     bind_sdk (getConfig w) (\<lambda>config. return_sdk (NETWORKS (chainMode config)))"

definition getRpcUrl :: "world \<Rightarrow> jsstring sdk" where
  "getRpcUrl w =
     bind_sdk (getConfig w) (\<lambda>config.
       case NETWORKS (chainMode config) of
         None \<Rightarrow> throw_sdk TypeError
       | Some network \<Rightarrow> return_sdk (rpcUrl network @ js ''?apiKey='' @ apiKey config))"

definition getProvider :: "world \<Rightarrow> provider sdk" where
  "getProvider w = (\<lambda>s.
     case cached_provider s of
       Some p \<Rightarrow> (Inr p, s)
     | None \<Rightarrow>
         bind_sdk (getNetworkConfig w) (\<lambda>network.
           bind_sdk (getRpcUrl w) (\<lambda>url.
             case network of
               None \<Rightarrow> throw_sdk TypeError
             | Some n \<Rightarrow>
                 (\<lambda>s'. (Inr (JsonRpcProvider url (chainId n)),
                        s'\<lparr>cached_provider := Some (JsonRpcProvider url (chainId n))\<rparr>)))) s)"

text \<open>\<open>a || b\<close> on optional strings: \<open>b\<close> is evaluated only when \<open>a\<close> is falsy.\<close>

definition or_str :: "jsstring option \<Rightarrow> jsstring option sdk \<Rightarrow> jsstring option sdk" where
  "or_str a b = (if truthy_str a then return_sdk a else b)"

text \<open>
  \<open>privateKey || getConfig().privateKey\<close>, then \<open>new ethers.Wallet(key, getProvider())\<close>:
  the provider is built before the library checks the key.
\<close>

definition getSigner :: "world \<Rightarrow> jsstring option \<Rightarrow> wallet sdk" where
  "getSigner w pk =
     bind_sdk (or_str pk (bind_sdk (getConfig w) (\<lambda>config. return_sdk (privateKey config))))
       (\<lambda>key.
          case key of
            None \<Rightarrow> throw_sdk NoPrivateKey
          | Some k \<Rightarrow>
              if k = [] then throw_sdk NoPrivateKey
              else bind_sdk (getProvider w) (\<lambda>p.
                     case Wallet_check (lib w) k of
                       Some e \<Rightarrow> throw_sdk e
                     | None \<Rightarrow> return_sdk (Wallet k p)))"

definition getContractAddresses :: "world \<Rightarrow> ContractAddresses option sdk" where
  "getContractAddresses w =
     bind_sdk (getConfig w) (\<lambda>config s. (Inr (addresses s (chainMode config)), s))"

record AddressUpdate =
  new_dbtc :: "jsstring option"
  new_budgetProposal :: "jsstring option"

definition set_dbtc :: "jsstring \<Rightarrow> jsstring option \<Rightarrow> unit sdk" where
  "set_dbtc mode a = (\<lambda>s.
     case a of
       None \<Rightarrow> (Inr (), s)
     | Some v \<Rightarrow>
         if v = [] then (Inr (), s)
         else (case addresses s mode of
                 None \<Rightarrow> (Inl TypeError, s)
               | Some entry \<Rightarrow>
                   (Inr (), s\<lparr>addresses := (addresses s)(mode := Some (entry\<lparr>dbtc := v\<rparr>))\<rparr>)))"

definition set_budgetProposal :: "jsstring \<Rightarrow> jsstring option \<Rightarrow> unit sdk" where
  "set_budgetProposal mode a = (\<lambda>s.
     case a of
       None \<Rightarrow> (Inr (), s)
     | Some v \<Rightarrow>
         if v = [] then (Inr (), s)
         else (case addresses s mode of
                 None \<Rightarrow> (Inl TypeError, s)
               | Some entry \<Rightarrow>
                   (Inr (), s\<lparr>addresses := (addresses s)(mode := Some (entry\<lparr>budgetProposal := v\<rparr>))\<rparr>)))"

definition setContractAddresses :: "world \<Rightarrow> AddressUpdate \<Rightarrow> jsstring option \<Rightarrow> unit sdk" where
  "setContractAddresses w upd mode_opt =
     bind_sdk (or_str mode_opt
                 (bind_sdk (getConfig w) (\<lambda>config. return_sdk (Some (chainMode config)))))
       (\<lambda>mode.
          case mode of
            None \<Rightarrow> throw_sdk TypeError
          | Some m \<Rightarrow>
              bind_sdk (set_dbtc m (new_dbtc upd))
                (\<lambda>_. set_budgetProposal m (new_budgetProposal upd)))"

definition getChainMode :: "world \<Rightarrow> jsstring sdk" where
  "getChainMode w = bind_sdk (getConfig w) (\<lambda>config. return_sdk (chainMode config))"

definition isTestnet :: "world \<Rightarrow> bool sdk" where
  "isTestnet w = bind_sdk (getConfig w) (\<lambda>config. return_sdk (chainMode config = js ''testnet''))"

definition isMainnet :: "world \<Rightarrow> bool sdk" where
  "isMainnet w = bind_sdk (getConfig w) (\<lambda>config. return_sdk (chainMode config = js ''mainnet''))"

section \<open>types.ts\<close>

text \<open>A numeric enum is a number at run time.\<close>

type_synonym BudgetPhase = js_number

type_synonym ProposalStatus = js_number

definition PRE_BUDGET :: BudgetPhase where "PRE_BUDGET = Integral 0"
definition BUDGET_CALL :: BudgetPhase where "BUDGET_CALL = Integral 1"
definition TECHNICAL_REVIEW :: BudgetPhase where "TECHNICAL_REVIEW = Integral 2"
definition NEP_CONSOLIDATION :: BudgetPhase where "NEP_CONSOLIDATION = Integral 3"
definition GAB_SEPARATE :: BudgetPhase where "GAB_SEPARATE = Integral 4"
definition GAB_BICAM :: BudgetPhase where "GAB_BICAM = Integral 5"
definition GAA_ENACTMENT :: BudgetPhase where "GAA_ENACTMENT = Integral 6"

text \<open>\<open>names[phase] ?? 'Unknown'\<close>: a key the table does not have reads as undefined.\<close>

fun getPhaseName :: "BudgetPhase \<Rightarrow> jsstring" where
  "getPhaseName (Integral n) =
     (if n = 0 then js ''Pre-Budget''
      else if n = 1 then js ''Budget Call''
      else if n = 2 then js ''Technical Review''
      else if n = 3 then js ''NEP Consolidation''
      else if n = 4 then js ''GAB Separate (House & Senate)''
      else if n = 5 then js ''GAB Bicameral''
      else if n = 6 then js ''GAA Enactment''
      else js ''Unknown'')"
| "getPhaseName NonIntegral = js ''Unknown''"

fun getStatusName :: "ProposalStatus \<Rightarrow> jsstring" where
  "getStatusName (Integral n) =
     (if n = 0 then js ''Draft''
      else if n = 1 then js ''Submitted''
      else if n = 2 then js ''Under Review''
      else if n = 3 then js ''Approved''
      else if n = 4 then js ''Revised''
      else if n = 5 then js ''Amended''
      else if n = 6 then js ''Rejected''
      else if n = 7 then js ''Enacted''
      else js ''Unknown'')"
| "getStatusName NonIntegral = js ''Unknown''"

section \<open>Calling a contract\<close>

text \<open>
  \<open>await contract.method(args)\<close>: on a signer-bound contract whose result goes to
  \<open>waitForTransaction\<close> it submits a transaction; on a provider-bound contract whose
  result is used as a value it is a read.
\<close>

definition send_sdk :: "world \<Rightarrow> contract \<Rightarrow> string \<Rightarrow> arg list \<Rightarrow> tx sdk" where
  "send_sdk w c m as = bind_sdk (record_sdk (Sent c m as)) (\<lambda>_. lift_sdk (submit w c m as))"

definition query_sdk :: "world \<Rightarrow> contract \<Rightarrow> string \<Rightarrow> arg list \<Rightarrow> js_value sdk" where
  "query_sdk w c m as = bind_sdk (record_sdk (Queried c m as)) (\<lambda>_. lift_sdk (query w c m as))"

text \<open>
  \<open>Promise.all([contract.a(), contract.b(), ...])\<close>: every call is issued before any
  is awaited; the whole rejects when one of them does (here: the first in the list).
\<close>

fun first_error :: "(error + js_value) list \<Rightarrow> error + js_value list" where
  "first_error [] = Inr []"
| "first_error (Inl e # rs) = Inl e"
| "first_error (Inr v # rs) = (case first_error rs of Inl e \<Rightarrow> Inl e | Inr vs \<Rightarrow> Inr (v # vs))"

definition query_all :: "world \<Rightarrow> contract \<Rightarrow> string list \<Rightarrow> js_value list sdk" where
  "query_all w c ms = (\<lambda>s.
     (first_error (map (\<lambda>m. query w c m []) ms),
      s\<lparr>trace := trace s @ map (\<lambda>m. Queried c m []) ms\<rparr>))"

text \<open>\<open>signer || getProvider()\<close>\<close>

definition runner_for :: "world \<Rightarrow> wallet option \<Rightarrow> runner sdk" where
  "runner_for w signer =
     (case signer of
        Some sg \<Rightarrow> return_sdk (Signer sg)
      | None \<Rightarrow> bind_sdk (getProvider w) (\<lambda>p. return_sdk (Reader p)))"

definition waitForTransaction :: "tx \<Rightarrow> TransactionResult sdk" where
  "waitForTransaction t =
     bind_sdk (record_sdk Waited) (\<lambda>_.
       case wait t of
         Inl e \<Rightarrow> throw_sdk e
       | Inr None \<Rightarrow> throw_sdk NoReceipt
       | Inr (Some receipt) \<Rightarrow>
           return_sdk \<lparr>txHash = hash receipt,
                       blockNumber = receipt_blockNumber receipt,
                       gasUsed = receipt_gasUsed receipt,
                       success = (status receipt = Some 1),
                       logs = receipt_logs receipt\<rparr>)"

text \<open>
  \<open>a || b\<close> on two reads: \<open>b\<close> is read only when \<open>a\<close> is falsy, and an exception of
  the read that is made is an exception of the expression.
\<close>

definition or_read :: "error + js_value \<Rightarrow> error + js_value \<Rightarrow> error + js_value" where
  "or_read a b = (case a of Inl e \<Rightarrow> Inl e | Inr v \<Rightarrow> if truthy v then Inr v else b)"

section \<open>agency.ts\<close>

definition getAgencyContract :: "world \<Rightarrow> jsstring \<Rightarrow> wallet option \<Rightarrow> contract sdk" where
  "getAgencyContract w agencyAddr signer =
     bind_sdk (runner_for w signer) (\<lambda>r. return_sdk (Contract agencyAddr AgencyABI r))"

text \<open>
  The loop over \<open>result.logs\<close>: an exception of \<open>parseLog\<close> goes to the empty
  \<open>catch\<close> and the loop moves on, as it does when the parse is null
  (\<open>parsed?.name\<close> is then undefined) or has another name. The read of the argument
  and the \<open>break\<close> are inside the \<open>try\<close> as well: when the read throws, nothing is
  assigned, the \<open>break\<close> is not reached and the loop moves on; otherwise the value
  is assigned and the loop ends.
\<close>

fun submitProposal_extract :: "interface \<Rightarrow> js_value \<Rightarrow> log list \<Rightarrow> js_value" where
  "submitProposal_extract iface tokenId0 [] = tokenId0"
| "submitProposal_extract iface tokenId0 (l # rest) =
     (case parseLog iface (topics l) (data l) of
        Inl _ \<Rightarrow> submitProposal_extract iface tokenId0 rest
      | Inr None \<Rightarrow> submitProposal_extract iface tokenId0 rest
      | Inr (Some parsed) \<Rightarrow>
          if name parsed = js ''ProposalSubmitted'' then
            (case named (args parsed) (js ''tokenId'') of
               Inl _ \<Rightarrow> submitProposal_extract iface tokenId0 rest
             | Inr v \<Rightarrow> v)
          else submitProposal_extract iface tokenId0 rest)"

fun reviseProposal_extract :: "interface \<Rightarrow> js_value \<Rightarrow> log list \<Rightarrow> js_value" where
  "reviseProposal_extract iface newTokenId0 [] = newTokenId0"
| "reviseProposal_extract iface newTokenId0 (l # rest) =
     (case parseLog iface (topics l) (data l) of
        Inl _ \<Rightarrow> reviseProposal_extract iface newTokenId0 rest
      | Inr None \<Rightarrow> reviseProposal_extract iface newTokenId0 rest
      | Inr (Some parsed) \<Rightarrow>
          if name parsed = js ''ProposalRevised'' then
            (case named (args parsed) (js ''newTokenId'') of
               Inl _ \<Rightarrow> reviseProposal_extract iface newTokenId0 rest
             | Inr v \<Rightarrow> v)
          else reviseProposal_extract iface newTokenId0 rest)"

fun amendProposal_extract :: "interface \<Rightarrow> js_value \<Rightarrow> log list \<Rightarrow> js_value" where
  "amendProposal_extract iface newTokenId0 [] = newTokenId0"
| "amendProposal_extract iface newTokenId0 (l # rest) =
     (case parseLog iface (topics l) (data l) of
        Inl _ \<Rightarrow> amendProposal_extract iface newTokenId0 rest
      | Inr None \<Rightarrow> amendProposal_extract iface newTokenId0 rest
      | Inr (Some parsed) \<Rightarrow>
          if name parsed = js ''ProposalAmended'' then
            (case named (args parsed) (js ''newTokenId'') of
               Inl _ \<Rightarrow> amendProposal_extract iface newTokenId0 rest
             | Inr v \<Rightarrow> v)
          else amendProposal_extract iface newTokenId0 rest)"

fun submitSeparateGAB_extract :: "interface \<Rightarrow> js_value \<Rightarrow> log list \<Rightarrow> js_value" where
  "submitSeparateGAB_extract iface tokenId0 [] = tokenId0"
| "submitSeparateGAB_extract iface tokenId0 (l # rest) =
     (case parseLog iface (topics l) (data l) of
        Inl _ \<Rightarrow> submitSeparateGAB_extract iface tokenId0 rest
      | Inr None \<Rightarrow> submitSeparateGAB_extract iface tokenId0 rest
      | Inr (Some parsed) \<Rightarrow>
          if name parsed = js ''ProposalSubmitted'' then
            (case named (args parsed) (js ''tokenId'') of
               Inl _ \<Rightarrow> submitSeparateGAB_extract iface tokenId0 rest
             | Inr v \<Rightarrow> v)
          else submitSeparateGAB_extract iface tokenId0 rest)"

fun submitJointGAB_extract :: "interface \<Rightarrow> js_value \<Rightarrow> log list \<Rightarrow> js_value" where
  "submitJointGAB_extract iface tokenId0 [] = tokenId0"
| "submitJointGAB_extract iface tokenId0 (l # rest) =
     (case parseLog iface (topics l) (data l) of
        Inl _ \<Rightarrow> submitJointGAB_extract iface tokenId0 rest
      | Inr None \<Rightarrow> submitJointGAB_extract iface tokenId0 rest
      | Inr (Some parsed) \<Rightarrow>
          if name parsed = js ''ProposalSubmitted'' then
            (case named (args parsed) (js ''tokenId'') of
               Inl _ \<Rightarrow> submitJointGAB_extract iface tokenId0 rest
             | Inr v \<Rightarrow> v)
          else submitJointGAB_extract iface tokenId0 rest)"

text \<open>\<open>{ ...result, tokenId }\<close> and \<open>{ ...result, newTokenId }\<close>\<close>

definition with_tokenId :: "TransactionResult \<Rightarrow> js_value \<Rightarrow> ProposalResult" where
  "with_tokenId r v =
     \<lparr>txHash = txHash r, blockNumber = blockNumber r, gasUsed = gasUsed r,
      success = success r, logs = logs r, tokenId = v\<rparr>"

definition with_newTokenId :: "TransactionResult \<Rightarrow> js_value \<Rightarrow> RevisionResult" where
  "with_newTokenId r v =
     \<lparr>txHash = txHash r, blockNumber = blockNumber r, gasUsed = gasUsed r,
      success = success r, logs = logs r, newTokenId = v\<rparr>"

definition submitProposal ::
  "world \<Rightarrow> jsstring \<Rightarrow> jsstring \<Rightarrow> ProposalData \<Rightarrow> jsstring option \<Rightarrow> ProposalResult sdk" where
  "submitProposal w agencyAddr uri d pk =
     bind_sdk (getSigner w pk) (\<lambda>signer.
     bind_sdk (getAgencyContract w agencyAddr (Some signer)) (\<lambda>c.
     bind_sdk (lift_sdk (prepareProposalData (lib w) d)) (\<lambda>proposalData.
     bind_sdk (send_sdk w c ''submitProposal'' [Str uri, Proposal proposalData]) (\<lambda>t.
     bind_sdk (waitForTransaction t) (\<lambda>result.
     return_sdk (with_tokenId result
       (submitProposal_extract (interface_of (lib w) AgencyABI) (BigInt 0) (logs result))))))))"

definition reviseProposal ::
  "world \<Rightarrow> jsstring \<Rightarrow> arg \<Rightarrow> jsstring \<Rightarrow> ProposalData \<Rightarrow> jsstring \<Rightarrow> jsstring option
     \<Rightarrow> RevisionResult sdk" where
  "reviseProposal w agencyAddr originalTokenId newUri newData reason pk =
     bind_sdk (getSigner w pk) (\<lambda>signer.
     bind_sdk (getAgencyContract w agencyAddr (Some signer)) (\<lambda>c.
     bind_sdk (lift_sdk (prepareProposalData (lib w) newData)) (\<lambda>proposalData.
     bind_sdk (send_sdk w c ''reviseProposal''
                 [originalTokenId, Str newUri, Proposal proposalData, Str reason]) (\<lambda>t.
     bind_sdk (waitForTransaction t) (\<lambda>result.
     return_sdk (with_newTokenId result
       (reviseProposal_extract (interface_of (lib w) AgencyABI) (BigInt 0) (logs result))))))))"

definition amendProposal ::
  "world \<Rightarrow> jsstring \<Rightarrow> arg \<Rightarrow> jsstring \<Rightarrow> ProposalData \<Rightarrow> jsstring \<Rightarrow> jsstring option
     \<Rightarrow> RevisionResult sdk" where
  "amendProposal w agencyAddr originalTokenId newUri newData reason pk =
     bind_sdk (getSigner w pk) (\<lambda>signer.
     bind_sdk (getAgencyContract w agencyAddr (Some signer)) (\<lambda>c.
     bind_sdk (lift_sdk (prepareProposalData (lib w) newData)) (\<lambda>proposalData.
     bind_sdk (send_sdk w c ''amendProposal''
                 [originalTokenId, Str newUri, Proposal proposalData, Str reason]) (\<lambda>t.
     bind_sdk (waitForTransaction t) (\<lambda>result.
     return_sdk (with_newTokenId result
       (amendProposal_extract (interface_of (lib w) AgencyABI) (BigInt 0) (logs result))))))))"

definition submitSeparateGAB ::
  "world \<Rightarrow> jsstring \<Rightarrow> jsstring \<Rightarrow> ProposalData \<Rightarrow> jsstring option \<Rightarrow> ProposalResult sdk" where
  "submitSeparateGAB w agencyAddr uri d pk =
     bind_sdk (getSigner w pk) (\<lambda>signer.
     bind_sdk (getAgencyContract w agencyAddr (Some signer)) (\<lambda>c.
     bind_sdk (lift_sdk (prepareProposalData (lib w) d)) (\<lambda>proposalData.
     bind_sdk (send_sdk w c ''submitSeparateGAB'' [Str uri, Proposal proposalData]) (\<lambda>t.
     bind_sdk (waitForTransaction t) (\<lambda>result.
     return_sdk (with_tokenId result
       (submitSeparateGAB_extract (interface_of (lib w) AgencyABI) (BigInt 0) (logs result))))))))"

definition submitJointGAB ::
  "world \<Rightarrow> jsstring \<Rightarrow> arg \<Rightarrow> arg \<Rightarrow> jsstring \<Rightarrow> ProposalData \<Rightarrow> jsstring option
     \<Rightarrow> ProposalResult sdk" where
  "submitJointGAB w agencyAddr houseProposalId senateProposalId uri d pk =
     bind_sdk (getSigner w pk) (\<lambda>signer.
     bind_sdk (getAgencyContract w agencyAddr (Some signer)) (\<lambda>c.
     bind_sdk (lift_sdk (prepareProposalData (lib w) d)) (\<lambda>proposalData.
     bind_sdk (send_sdk w c ''submitJointGAB''
                 [houseProposalId, senateProposalId, Str uri, Proposal proposalData]) (\<lambda>t.
     bind_sdk (waitForTransaction t) (\<lambda>result.
     return_sdk (with_tokenId result
       (submitJointGAB_extract (interface_of (lib w) AgencyABI) (BigInt 0) (logs result))))))))"

definition addDocumentManager ::
  "world \<Rightarrow> jsstring \<Rightarrow> jsstring \<Rightarrow> jsstring option \<Rightarrow> TransactionResult sdk" where
  "addDocumentManager w agencyAddr managerAddress pk =
     bind_sdk (getSigner w pk) (\<lambda>signer.
     bind_sdk (getAgencyContract w agencyAddr (Some signer)) (\<lambda>c.
     bind_sdk (send_sdk w c ''addDocumentManager'' [Str managerAddress]) (\<lambda>t.
     waitForTransaction t)))"

definition removeDocumentManager ::
  "world \<Rightarrow> jsstring \<Rightarrow> jsstring \<Rightarrow> jsstring option \<Rightarrow> TransactionResult sdk" where
  "removeDocumentManager w agencyAddr managerAddress pk =
     bind_sdk (getSigner w pk) (\<lambda>signer.
     bind_sdk (getAgencyContract w agencyAddr (Some signer)) (\<lambda>c.
     bind_sdk (send_sdk w c ''removeDocumentManager'' [Str managerAddress]) (\<lambda>t.
     waitForTransaction t)))"

definition transferAgencyOwnership ::
  "world \<Rightarrow> jsstring \<Rightarrow> jsstring \<Rightarrow> jsstring option \<Rightarrow> TransactionResult sdk" where
  "transferAgencyOwnership w agencyAddr newOwner pk =
     bind_sdk (getSigner w pk) (\<lambda>signer.
     bind_sdk (getAgencyContract w agencyAddr (Some signer)) (\<lambda>c.
     bind_sdk (send_sdk w c ''transferOwnership'' [Str newOwner]) (\<lambda>t.
     waitForTransaction t)))"

record AgencyInfo =
  agency_address :: jsstring
  agency_code :: js_value
  agency_name :: js_value
  agency_department :: js_value
  agency_owner :: js_value

definition getAgencyInfo :: "world \<Rightarrow> jsstring \<Rightarrow> AgencyInfo sdk" where
  "getAgencyInfo w agencyAddr =
     bind_sdk (getAgencyContract w agencyAddr None) (\<lambda>c.
     bind_sdk (query_all w c [''getCode'', ''getName'', ''getDepartment'', ''getOwner'']) (\<lambda>vs.
       case vs of
         [code, nm, department, owner] \<Rightarrow>
           return_sdk \<lparr>agency_address = agencyAddr, agency_code = code, agency_name = nm,
                       agency_department = department, agency_owner = owner\<rparr>
       | _ \<Rightarrow> throw_sdk TypeError))"

definition isDocumentManager :: "world \<Rightarrow> jsstring \<Rightarrow> jsstring \<Rightarrow> js_value sdk" where
  "isDocumentManager w agencyAddr address =
     bind_sdk (getAgencyContract w agencyAddr None) (\<lambda>c.
     query_sdk w c ''isDocumentManager'' [Str address])"

definition getDocumentManagers :: "world \<Rightarrow> jsstring \<Rightarrow> js_value sdk" where
  "getDocumentManagers w agencyAddr =
     bind_sdk (getAgencyContract w agencyAddr None) (\<lambda>c.
     query_sdk w c ''getDocumentManagers'' [])"

section \<open>department.ts\<close>

definition getDepartmentContract :: "world \<Rightarrow> jsstring \<Rightarrow> wallet option \<Rightarrow> contract sdk" where
  "getDepartmentContract w departmentAddr signer =
     bind_sdk (runner_for w signer) (\<lambda>r. return_sdk (Contract departmentAddr DepartmentABI r))"

fun addAgency_extract :: "interface \<Rightarrow> js_value \<Rightarrow> log list \<Rightarrow> js_value" where
  "addAgency_extract iface agencyAddress0 [] = agencyAddress0"
| "addAgency_extract iface agencyAddress0 (l # rest) =
     (case parseLog iface (topics l) (data l) of
        Inl _ \<Rightarrow> addAgency_extract iface agencyAddress0 rest
      | Inr None \<Rightarrow> addAgency_extract iface agencyAddress0 rest
      | Inr (Some parsed) \<Rightarrow>
          if name parsed = js ''AgencyAdded'' then
            (case or_read (named (args parsed) (js ''agencyContract'')) (positional (args parsed) 1) of
               Inl _ \<Rightarrow> addAgency_extract iface agencyAddress0 rest
             | Inr v \<Rightarrow> v)
          else addAgency_extract iface agencyAddress0 rest)"

definition with_agencyAddress :: "TransactionResult \<Rightarrow> js_value \<Rightarrow> AgencyResult" where
  "with_agencyAddress r v =
     \<lparr>txHash = txHash r, blockNumber = blockNumber r, gasUsed = gasUsed r,
      success = success r, logs = logs r, agencyAddress = v\<rparr>"

definition addAgency ::
  "world \<Rightarrow> jsstring \<Rightarrow> jsstring \<Rightarrow> jsstring \<Rightarrow> jsstring \<Rightarrow> jsstring option
     \<Rightarrow> AgencyResult sdk" where
  "addAgency w departmentAddr agencyCd agencyName ownerAddress pk =
     bind_sdk (getSigner w pk) (\<lambda>signer.
     bind_sdk (getDepartmentContract w departmentAddr (Some signer)) (\<lambda>c.
     bind_sdk (send_sdk w c ''addAgency'' [Str agencyCd, Str agencyName, Str ownerAddress]) (\<lambda>t.
     bind_sdk (waitForTransaction t) (\<lambda>result.
     return_sdk (with_agencyAddress result
       (addAgency_extract (interface_of (lib w) DepartmentABI) (String []) (logs result)))))))"

definition setHouseAndSenate :: "world \<Rightarrow> jsstring \<Rightarrow> jsstring \<Rightarrow> jsstring \<Rightarrow> jsstring option \<Rightarrow> TransactionResult sdk" where
  "setHouseAndSenate w departmentAddr houseAddress senateAddress pk =
     bind_sdk (getSigner w pk) (\<lambda>signer.
     bind_sdk (getDepartmentContract w departmentAddr (Some signer)) (\<lambda>c.
     bind_sdk (send_sdk w c ''setHouseAndSenate'' [Str houseAddress, Str senateAddress]) (\<lambda>t.
     waitForTransaction t)))"

record DepartmentInfo =
  department_address :: jsstring
  department_code :: js_value
  department_name :: js_value
  department_dbtc :: js_value
  department_mainAgency :: js_value
  department_isStandalone :: js_value
  department_isActualDepartment :: js_value
  department_agencyCount :: js_number

definition getDepartmentInfo :: "world \<Rightarrow> jsstring \<Rightarrow> DepartmentInfo sdk" where
  "getDepartmentInfo w departmentAddr =
     bind_sdk (getDepartmentContract w departmentAddr None) (\<lambda>c.
     bind_sdk (query_all w c [''getCode'', ''getName'', ''getDBTC'', ''getMainAgency'',
                              ''isStandalone'', ''getIsActualDepartment'', ''getAgencyCount''])
       (\<lambda>vs.
          case vs of
            [code, nm, d, mainAgency, standalone, actual, agencyCount] \<Rightarrow>
              return_sdk \<lparr>department_address = departmentAddr, department_code = code,
                          department_name = nm, department_dbtc = d,
                          department_mainAgency = mainAgency,
                          department_isStandalone = standalone,
                          department_isActualDepartment = actual,
                          department_agencyCount = Number_of (lib w) agencyCount\<rparr>
          | _ \<Rightarrow> throw_sdk TypeError))"

definition getAgency :: "world \<Rightarrow> jsstring \<Rightarrow> jsstring \<Rightarrow> js_value sdk" where
  "getAgency w departmentAddr agencyCd =
     bind_sdk (getDepartmentContract w departmentAddr None) (\<lambda>c.
     query_sdk w c ''getAgency'' [Str agencyCd])"

definition isAgencyRegistered :: "world \<Rightarrow> jsstring \<Rightarrow> jsstring \<Rightarrow> js_value sdk" where
  "isAgencyRegistered w departmentAddr agencyCd =
     bind_sdk (getDepartmentContract w departmentAddr None) (\<lambda>c.
     query_sdk w c ''isAgencyRegistered'' [Str agencyCd])"

definition getAgencyCodes :: "world \<Rightarrow> jsstring \<Rightarrow> js_value sdk" where
  "getAgencyCodes w departmentAddr =
     bind_sdk (getDepartmentContract w departmentAddr None) (\<lambda>c.
     query_sdk w c ''getAgencyCodes'' [])"

definition getMainAgency :: "world \<Rightarrow> jsstring \<Rightarrow> js_value sdk" where
  "getMainAgency w departmentAddr =
     bind_sdk (getDepartmentContract w departmentAddr None) (\<lambda>c.
     query_sdk w c ''getMainAgency'' [])"

definition getHouseAgency :: "world \<Rightarrow> jsstring \<Rightarrow> js_value sdk" where
  "getHouseAgency w departmentAddr =
     bind_sdk (getDepartmentContract w departmentAddr None) (\<lambda>c.
     query_sdk w c ''getHouseAgency'' [])"

definition getSenateAgency :: "world \<Rightarrow> jsstring \<Rightarrow> js_value sdk" where
  "getSenateAgency w departmentAddr =
     bind_sdk (getDepartmentContract w departmentAddr None) (\<lambda>c.
     query_sdk w c ''getSenateAgency'' [])"

definition getDepartmentOwner :: "world \<Rightarrow> jsstring \<Rightarrow> js_value sdk" where
  "getDepartmentOwner w departmentAddr =
     bind_sdk (getDepartmentContract w departmentAddr None) (\<lambda>c.
     query_sdk w c ''getDepartmentOwner'' [])"

section \<open>dbtc.ts\<close>

text \<open>
  \<open>dbtcAddress || getContractAddresses().dbtc\<close>, the check of the address, then
  \<open>signer || getProvider()\<close>.
\<close>

definition getDBTCContract :: "world \<Rightarrow> jsstring option \<Rightarrow> wallet option \<Rightarrow> contract sdk" where
  "getDBTCContract w dbtcAddress signer =
     bind_sdk (or_str dbtcAddress
                 (bind_sdk (getContractAddresses w) (\<lambda>entry.
                    case entry of
                      None \<Rightarrow> throw_sdk TypeError
                    | Some a \<Rightarrow> return_sdk (Some (dbtc a)))))
       (\<lambda>address.
          case address of
            None \<Rightarrow> throw_sdk NoDbtcAddress
          | Some a \<Rightarrow>
              if a = [] then throw_sdk NoDbtcAddress
              else bind_sdk (runner_for w signer) (\<lambda>r. return_sdk (Contract a DBTCABI r)))"

fun addDepartment_extract :: "interface \<Rightarrow> js_value \<Rightarrow> log list \<Rightarrow> js_value" where
  "addDepartment_extract iface departmentAddress0 [] = departmentAddress0"
| "addDepartment_extract iface departmentAddress0 (l # rest) =
     (case parseLog iface (topics l) (data l) of
        Inl _ \<Rightarrow> addDepartment_extract iface departmentAddress0 rest
      | Inr None \<Rightarrow> addDepartment_extract iface departmentAddress0 rest
      | Inr (Some parsed) \<Rightarrow>
          if name parsed = js ''DepartmentAdded'' then
            (case or_read (named (args parsed) (js ''deptContract'')) (positional (args parsed) 1) of
               Inl _ \<Rightarrow> addDepartment_extract iface departmentAddress0 rest
             | Inr v \<Rightarrow> v)
          else addDepartment_extract iface departmentAddress0 rest)"

fun addRegularDepartment_extract :: "interface \<Rightarrow> js_value \<Rightarrow> log list \<Rightarrow> js_value" where
  "addRegularDepartment_extract iface departmentAddress0 [] = departmentAddress0"
| "addRegularDepartment_extract iface departmentAddress0 (l # rest) =
     (case parseLog iface (topics l) (data l) of
        Inl _ \<Rightarrow> addRegularDepartment_extract iface departmentAddress0 rest
      | Inr None \<Rightarrow> addRegularDepartment_extract iface departmentAddress0 rest
      | Inr (Some parsed) \<Rightarrow>
          if name parsed = js ''DepartmentAdded'' then
            (case or_read (named (args parsed) (js ''deptContract'')) (positional (args parsed) 1) of
               Inl _ \<Rightarrow> addRegularDepartment_extract iface departmentAddress0 rest
             | Inr v \<Rightarrow> v)
          else addRegularDepartment_extract iface departmentAddress0 rest)"

definition with_departmentAddress :: "TransactionResult \<Rightarrow> js_value \<Rightarrow> DepartmentResult" where
  "with_departmentAddress r v =
     \<lparr>txHash = txHash r, blockNumber = blockNumber r, gasUsed = gasUsed r,
      success = success r, logs = logs r, departmentAddress = v\<rparr>"

definition addDepartment ::
  "world \<Rightarrow> jsstring \<Rightarrow> jsstring \<Rightarrow> jsstring \<Rightarrow> jsstring \<Rightarrow> bool \<Rightarrow> bool
     \<Rightarrow> jsstring option \<Rightarrow> jsstring option \<Rightarrow> DepartmentResult sdk" where
  "addDepartment w deptCode deptName mainAgencyName mainAgencyOwner isStandalone isActualDept
       pk dbtcAddress =
     bind_sdk (getSigner w pk) (\<lambda>signer.
     bind_sdk (getDBTCContract w dbtcAddress (Some signer)) (\<lambda>c.
     bind_sdk (send_sdk w c ''addDepartment''
                 [Str deptCode, Str deptName, Str mainAgencyName, Str mainAgencyOwner,
                  Flag isStandalone, Flag isActualDept]) (\<lambda>t.
     bind_sdk (waitForTransaction t) (\<lambda>result.
     return_sdk (with_departmentAddress result
       (addDepartment_extract (interface_of (lib w) DBTCABI) (String []) (logs result)))))))"

definition addRegularDepartment ::
  "world \<Rightarrow> jsstring \<Rightarrow> jsstring \<Rightarrow> jsstring \<Rightarrow> jsstring
     \<Rightarrow> jsstring option \<Rightarrow> jsstring option \<Rightarrow> DepartmentResult sdk" where
  "addRegularDepartment w deptCode deptName mainAgencyName mainAgencyOwner pk dbtcAddress =
     bind_sdk (getSigner w pk) (\<lambda>signer.
     bind_sdk (getDBTCContract w dbtcAddress (Some signer)) (\<lambda>c.
     bind_sdk (send_sdk w c ''addRegularDepartment''
                 [Str deptCode, Str deptName, Str mainAgencyName, Str mainAgencyOwner]) (\<lambda>t.
     bind_sdk (waitForTransaction t) (\<lambda>result.
     return_sdk (with_departmentAddress result
       (addRegularDepartment_extract (interface_of (lib w) DBTCABI) (String []) (logs result)))))))"

definition assignPhaseResponsibility :: "world \<Rightarrow> BudgetPhase \<Rightarrow> jsstring \<Rightarrow> jsstring option \<Rightarrow> jsstring option \<Rightarrow> TransactionResult sdk" where
  "assignPhaseResponsibility w phase deptCode pk dbtcAddress =
     bind_sdk (getSigner w pk) (\<lambda>signer.
     bind_sdk (getDBTCContract w dbtcAddress (Some signer)) (\<lambda>c.
     bind_sdk (send_sdk w c ''assignPhaseResponsibility'' [Num phase, Str deptCode]) (\<lambda>t.
     waitForTransaction t)))"

definition startBudgetCall :: "world \<Rightarrow> jsstring option \<Rightarrow> jsstring option \<Rightarrow> TransactionResult sdk" where
  "startBudgetCall w pk dbtcAddress =
     bind_sdk (getSigner w pk) (\<lambda>signer.
     bind_sdk (getDBTCContract w dbtcAddress (Some signer)) (\<lambda>c.
     bind_sdk (send_sdk w c ''startBudgetCall'' []) (\<lambda>t.
     waitForTransaction t)))"

definition advancePhase :: "world \<Rightarrow> jsstring option \<Rightarrow> jsstring option \<Rightarrow> TransactionResult sdk" where
  "advancePhase w pk dbtcAddress =
     bind_sdk (getSigner w pk) (\<lambda>signer.
     bind_sdk (getDBTCContract w dbtcAddress (Some signer)) (\<lambda>c.
     bind_sdk (send_sdk w c ''advancePhase'' []) (\<lambda>t.
     waitForTransaction t)))"

definition getCurrentPhase :: "world \<Rightarrow> jsstring option \<Rightarrow> js_number sdk" where
  "getCurrentPhase w dbtcAddress =
     bind_sdk (getDBTCContract w dbtcAddress None) (\<lambda>c.
     bind_sdk (query_sdk w c ''getCurrentPhase'' []) (\<lambda>v.
     return_sdk (Number_of (lib w) v)))"

definition getCurrentFiscalYear :: "world \<Rightarrow> jsstring option \<Rightarrow> js_number sdk" where
  "getCurrentFiscalYear w dbtcAddress =
     bind_sdk (getDBTCContract w dbtcAddress None) (\<lambda>c.
     bind_sdk (query_sdk w c ''getCurrentFiscalYear'' []) (\<lambda>v.
     return_sdk (Number_of (lib w) v)))"

definition getDepartment :: "world \<Rightarrow> jsstring \<Rightarrow> jsstring option \<Rightarrow> js_value sdk" where
  "getDepartment w deptCode dbtcAddress =
     bind_sdk (getDBTCContract w dbtcAddress None) (\<lambda>c.
     query_sdk w c ''getDepartment'' [Str deptCode])"

definition isDepartmentRegistered :: "world \<Rightarrow> jsstring \<Rightarrow> jsstring option \<Rightarrow> js_value sdk" where
  "isDepartmentRegistered w deptCode dbtcAddress =
     bind_sdk (getDBTCContract w dbtcAddress None) (\<lambda>c.
     query_sdk w c ''isDepartmentRegistered'' [Str deptCode])"

definition getDepartmentCodes :: "world \<Rightarrow> jsstring option \<Rightarrow> js_value sdk" where
  "getDepartmentCodes w dbtcAddress =
     bind_sdk (getDBTCContract w dbtcAddress None) (\<lambda>c.
     query_sdk w c ''getDepartmentCodes'' [])"

definition getDepartmentCount :: "world \<Rightarrow> jsstring option \<Rightarrow> js_number sdk" where
  "getDepartmentCount w dbtcAddress =
     bind_sdk (getDBTCContract w dbtcAddress None) (\<lambda>c.
     bind_sdk (query_sdk w c ''getDepartmentCount'' []) (\<lambda>v.
     return_sdk (Number_of (lib w) v)))"

definition getPhaseResponsibleDepartment :: "world \<Rightarrow> BudgetPhase \<Rightarrow> jsstring option \<Rightarrow> js_value sdk" where
  "getPhaseResponsibleDepartment w phase dbtcAddress =
     bind_sdk (getDBTCContract w dbtcAddress None) (\<lambda>c.
     query_sdk w c ''getPhaseResponsibleDepartment'' [Num phase])"

definition getBudgetProposalContract :: "world \<Rightarrow> jsstring option \<Rightarrow> js_value sdk" where
  "getBudgetProposalContract w dbtcAddress =
     bind_sdk (getDBTCContract w dbtcAddress None) (\<lambda>c.
     query_sdk w c ''getBudgetProposalContract'' [])"

definition getDBTCOwner :: "world \<Rightarrow> jsstring option \<Rightarrow> js_value sdk" where
  "getDBTCOwner w dbtcAddress =
     bind_sdk (getDBTCContract w dbtcAddress None) (\<lambda>c.
     query_sdk w c ''owner'' [])"

section \<open>index.ts\<close>

text \<open>
  A call of an exported function: one datatype for each \<open>export\<close> statement of the
  index module, one constructor for each function it exports.
\<close>

datatype config_call =
    Configure SDKConfig
  | GetConfig
  | GetChainMode
  | IsTestnet
  | IsMainnet
  | SetContractAddresses AddressUpdate "jsstring option"

datatype types_call =
    GetPhaseName BudgetPhase
  | GetStatusName ProposalStatus

datatype utils_call =
    StringToBytes32 jsstring
  | Bytes32ToString bytes

datatype agency_call =
    SubmitProposal jsstring jsstring ProposalData "jsstring option"
  | ReviseProposal jsstring arg jsstring ProposalData jsstring "jsstring option"
  | AmendProposal jsstring arg jsstring ProposalData jsstring "jsstring option"
  | SubmitSeparateGAB jsstring jsstring ProposalData "jsstring option"
  | SubmitJointGAB jsstring arg arg jsstring ProposalData "jsstring option"
  | AddDocumentManager jsstring jsstring "jsstring option"
  | RemoveDocumentManager jsstring jsstring "jsstring option"
  | TransferAgencyOwnership jsstring jsstring "jsstring option"
  | GetAgencyInfo jsstring
  | IsDocumentManager jsstring jsstring
  | GetDocumentManagers jsstring

datatype department_call =
    AddAgency jsstring jsstring jsstring jsstring "jsstring option"
  | SetHouseAndSenate jsstring jsstring jsstring "jsstring option"
  | GetDepartmentInfo jsstring
  | GetAgency jsstring jsstring
  | IsAgencyRegistered jsstring jsstring
  | GetAgencyCodes jsstring
  | GetMainAgency jsstring
  | GetHouseAgency jsstring
  | GetSenateAgency jsstring
  | GetDepartmentOwner jsstring

datatype dbtc_call =
    AddDepartment jsstring jsstring jsstring jsstring bool bool "jsstring option" "jsstring option"
  | AddRegularDepartment jsstring jsstring jsstring jsstring "jsstring option" "jsstring option"
  | AssignPhaseResponsibility BudgetPhase jsstring "jsstring option" "jsstring option"
  | StartBudgetCall "jsstring option" "jsstring option"
  | AdvancePhase "jsstring option" "jsstring option"
  | GetCurrentPhase "jsstring option"
  | GetCurrentFiscalYear "jsstring option"
  | GetDepartment jsstring "jsstring option"
  | IsDepartmentRegistered jsstring "jsstring option"
  | GetDepartmentCodes "jsstring option"
  | GetDepartmentCount "jsstring option"
  | GetPhaseResponsibleDepartment BudgetPhase "jsstring option"
  | GetBudgetProposalContract "jsstring option"
  | GetDBTCOwner "jsstring option"

datatype export_call =
    Config config_call
  | Types types_call
  | Agency agency_call
  | Department department_call
  | DBTC dbtc_call
  | Utils utils_call

text \<open>Running a call for its effect; the value it returns is dropped.\<close>

definition discard :: "'a sdk \<Rightarrow> unit sdk" where
  "discard m = bind_sdk m (\<lambda>_. return_sdk ())"

primrec run_config :: "world \<Rightarrow> config_call \<Rightarrow> unit sdk" where
  "run_config w (Configure c) = configure c"
| "run_config w GetConfig = discard (getConfig w)"
| "run_config w GetChainMode = discard (getChainMode w)"
| "run_config w IsTestnet = discard (isTestnet w)"
| "run_config w IsMainnet = discard (isMainnet w)"
| "run_config w (SetContractAddresses upd m) = setContractAddresses w upd m"

primrec run_types :: "types_call \<Rightarrow> unit sdk" where
  "run_types (GetPhaseName p) = discard (return_sdk (getPhaseName p))"
| "run_types (GetStatusName st) = discard (return_sdk (getStatusName st))"

primrec run_utils :: "world \<Rightarrow> utils_call \<Rightarrow> unit sdk" where
  "run_utils w (StringToBytes32 str) = discard (lift_sdk (stringToBytes32 (lib w) str))"
| "run_utils w (Bytes32ToString b) = discard (lift_sdk (bytes32ToString (lib w) b))"

primrec run_agency :: "world \<Rightarrow> agency_call \<Rightarrow> unit sdk" where
  "run_agency w (SubmitProposal a uri d pk) = discard (submitProposal w a uri d pk)"
| "run_agency w (ReviseProposal a t uri d reason pk) = discard (reviseProposal w a t uri d reason pk)"
| "run_agency w (AmendProposal a t uri d reason pk) = discard (amendProposal w a t uri d reason pk)"
| "run_agency w (SubmitSeparateGAB a uri d pk) = discard (submitSeparateGAB w a uri d pk)"
| "run_agency w (SubmitJointGAB a h sn uri d pk) = discard (submitJointGAB w a h sn uri d pk)"
| "run_agency w (AddDocumentManager a m pk) = discard (addDocumentManager w a m pk)"
| "run_agency w (RemoveDocumentManager a m pk) = discard (removeDocumentManager w a m pk)"
| "run_agency w (TransferAgencyOwnership a n pk) = discard (transferAgencyOwnership w a n pk)"
| "run_agency w (GetAgencyInfo a) = discard (getAgencyInfo w a)"
| "run_agency w (IsDocumentManager a m) = discard (isDocumentManager w a m)"
| "run_agency w (GetDocumentManagers a) = discard (getDocumentManagers w a)"

primrec run_department :: "world \<Rightarrow> department_call \<Rightarrow> unit sdk" where
  "run_department w (AddAgency d c n ow pk) = discard (addAgency w d c n ow pk)"
| "run_department w (SetHouseAndSenate d h sn pk) = discard (setHouseAndSenate w d h sn pk)"
| "run_department w (GetDepartmentInfo d) = discard (getDepartmentInfo w d)"
| "run_department w (GetAgency d c) = discard (getAgency w d c)"
| "run_department w (IsAgencyRegistered d c) = discard (isAgencyRegistered w d c)"
| "run_department w (GetAgencyCodes d) = discard (getAgencyCodes w d)"
| "run_department w (GetMainAgency d) = discard (getMainAgency w d)"
| "run_department w (GetHouseAgency d) = discard (getHouseAgency w d)"
| "run_department w (GetSenateAgency d) = discard (getSenateAgency w d)"
| "run_department w (GetDepartmentOwner d) = discard (getDepartmentOwner w d)"

primrec run_dbtc :: "world \<Rightarrow> dbtc_call \<Rightarrow> unit sdk" where
  "run_dbtc w (AddDepartment c n an ao sa ad pk da) = discard (addDepartment w c n an ao sa ad pk da)"
| "run_dbtc w (AddRegularDepartment c n an ao pk da) = discard (addRegularDepartment w c n an ao pk da)"
| "run_dbtc w (AssignPhaseResponsibility p c pk da) = discard (assignPhaseResponsibility w p c pk da)"
| "run_dbtc w (StartBudgetCall pk da) = discard (startBudgetCall w pk da)"
| "run_dbtc w (AdvancePhase pk da) = discard (advancePhase w pk da)"
| "run_dbtc w (GetCurrentPhase da) = discard (getCurrentPhase w da)"
| "run_dbtc w (GetCurrentFiscalYear da) = discard (getCurrentFiscalYear w da)"
| "run_dbtc w (GetDepartment c da) = discard (getDepartment w c da)"
| "run_dbtc w (IsDepartmentRegistered c da) = discard (isDepartmentRegistered w c da)"
| "run_dbtc w (GetDepartmentCodes da) = discard (getDepartmentCodes w da)"
| "run_dbtc w (GetDepartmentCount da) = discard (getDepartmentCount w da)"
| "run_dbtc w (GetPhaseResponsibleDepartment p da) = discard (getPhaseResponsibleDepartment w p da)"
| "run_dbtc w (GetBudgetProposalContract da) = discard (getBudgetProposalContract w da)"
| "run_dbtc w (GetDBTCOwner da) = discard (getDBTCOwner w da)"

primrec run :: "world \<Rightarrow> export_call \<Rightarrow> unit sdk" where
  "run w (Config c) = run_config w c"
| "run w (Types c) = run_types c"
| "run w (Agency c) = run_agency w c"
| "run w (Department c) = run_department w c"
| "run w (DBTC c) = run_dbtc w c"
| "run w (Utils c) = run_utils w c"

text \<open>
  What a run did to contracts: the interactions recorded between its start and its
  end. (a) is one submitted transaction followed by the wait for its receipt; (b) is
  one or more reads and nothing else.
\<close>

definition interactions :: "sdk_state \<Rightarrow> sdk_state \<Rightarrow> interaction list" where
  "interactions s s' = drop (length (trace s)) (trace s')"

fun is_query :: "interaction \<Rightarrow> bool" where
  "is_query (Queried c m as) = True"
| "is_query (Sent c m as) = False"
| "is_query Waited = False"

fun submits_and_waits :: "interaction list \<Rightarrow> bool" where
  "submits_and_waits [Sent c m as, Waited] = True"
| "submits_and_waits tr = False"

definition queries_only :: "interaction list \<Rightarrow> bool" where
  "queries_only tr = (tr \<noteq> [] \<and> list_all is_query tr)"

section \<open>The bytes32 strings of ethers\<close>

text \<open>
  \<open>encodeBytes32String\<close> and \<open>decodeBytes32String\<close> belong to ethers (version 6),
  not to this repository. This is what the library does: the text is encoded as
  UTF-8 (\<open>toUtf8Bytes\<close>), at most 31 bytes are accepted, and the bytes are padded
  with zeros to 32; decoding wants 32 bytes ending in a zero, drops the trailing
  zeros and decodes the rest as UTF-8 (\<open>toUtf8String\<close>).
\<close>

definition surrogate_pair :: "16 word \<Rightarrow> 16 word \<Rightarrow> 32 word" where
  "surrogate_pair c c2 = 0x10000 + push_bit 10 (ucast (c AND 0x3ff)) + ucast (c2 AND 0x3ff)"

fun toUtf8Bytes :: "jsstring \<Rightarrow> error + bytes" where
  "toUtf8Bytes [] = Inr []"
| "toUtf8Bytes (c # cs) =
     (if c < 0x80 then
        (case toUtf8Bytes cs of Inl e \<Rightarrow> Inl e | Inr bs \<Rightarrow> Inr (ucast c # bs))
      else if c < 0x800 then
        (case toUtf8Bytes cs of
           Inl e \<Rightarrow> Inl e
         | Inr bs \<Rightarrow> Inr (ucast (drop_bit 6 c OR 0xc0) # ucast ((c AND 0x3f) OR 0x80) # bs))
      else if c AND 0xfc00 = 0xd800 then
        (case cs of
           [] \<Rightarrow> Inl (External ''invalid surrogate pair'')
         | c2 # cs' \<Rightarrow>
             if c2 AND 0xfc00 = 0xdc00 then
               (case toUtf8Bytes cs' of
                  Inl e \<Rightarrow> Inl e
                | Inr bs \<Rightarrow>
                    Inr (ucast (drop_bit 18 (surrogate_pair c c2) OR 0xf0)
                         # ucast ((drop_bit 12 (surrogate_pair c c2) AND 0x3f) OR 0x80)
                         # ucast ((drop_bit 6 (surrogate_pair c c2) AND 0x3f) OR 0x80)
                         # ucast ((surrogate_pair c c2 AND 0x3f) OR 0x80) # bs))
             else Inl (External ''invalid surrogate pair''))
      else
        (case toUtf8Bytes cs of
           Inl e \<Rightarrow> Inl e
         | Inr bs \<Rightarrow>
             Inr (ucast (drop_bit 12 c OR 0xe0) # ucast ((drop_bit 6 c AND 0x3f) OR 0x80)
                  # ucast ((c AND 0x3f) OR 0x80) # bs)))"

definition ethers_encodeBytes32String :: "jsstring \<Rightarrow> error + bytes" where
  "ethers_encodeBytes32String text =
     (case toUtf8Bytes text of
        Inl e \<Rightarrow> Inl e
      | Inr bs \<Rightarrow>
          if length bs > 31 then Inl (External ''bytes32 string must be less than 32 bytes'')
          else Inr (bs @ replicate (32 - length bs) 0))"

text \<open>
  \<open>toUtf8String\<close>: the number of continuation bytes and the overlong mask of a lead
  byte, the continuation bytes, the checks of the code point; every error throws.
\<close>

definition lead_byte :: "8 word \<Rightarrow> (nat \<times> 32 word) option" where
  "lead_byte c =
     (if c AND 0xe0 = 0xc0 then Some (1, 0x7f)
      else if c AND 0xf0 = 0xe0 then Some (2, 0x7ff)
      else if c AND 0xf8 = 0xf0 then Some (3, 0xffff)
      else None)"

fun continuation :: "32 word \<Rightarrow> bytes \<Rightarrow> 32 word option" where
  "continuation res [] = Some res"
| "continuation res (b # bs) =
     (if b AND 0xc0 \<noteq> 0x80 then None
      else continuation (push_bit 6 res OR ucast (b AND 0x3f)) bs)"

function getUtf8CodePoints :: "bytes \<Rightarrow> error + 32 word list" where
  "getUtf8CodePoints [] = Inr []"
| "getUtf8CodePoints (c # bs) =
     (if drop_bit 7 c = 0 then
        (case getUtf8CodePoints bs of Inl e \<Rightarrow> Inl e | Inr ps \<Rightarrow> Inr (ucast c # ps))
      else
        (case lead_byte c of
           None \<Rightarrow>
             if c AND 0xc0 = 0x80 then Inl (External ''UNEXPECTED_CONTINUE'')
             else Inl (External ''BAD_PREFIX'')
         | Some (extraLength, overlongMask) \<Rightarrow>
             if length bs < extraLength then Inl (External ''OVERRUN'')
             else
               (case continuation (ucast c AND (push_bit (8 - extraLength - 1) 1 - 1))
                       (take extraLength bs) of
                  None \<Rightarrow> Inl (External ''MISSING_CONTINUE'')
                | Some res \<Rightarrow>
                    if res > 0x10ffff then Inl (External ''OUT_OF_RANGE'')
                    else if 0xd800 \<le> res \<and> res \<le> 0xdfff then Inl (External ''UTF16_SURROGATE'')
                    else if res \<le> overlongMask then Inl (External ''OVERLONG'')
                    else (case getUtf8CodePoints (drop extraLength bs) of
                            Inl e \<Rightarrow> Inl e
                          | Inr ps \<Rightarrow> Inr (res # ps)))))"
  by pat_completeness auto
termination
  by (relation "measure length") auto

text \<open>A code point above 0xffff becomes a surrogate pair.\<close>

fun fromCodePoints :: "32 word list \<Rightarrow> jsstring" where
  "fromCodePoints [] = []"
| "fromCodePoints (p # ps) =
     (if p \<le> 0xffff then ucast p # fromCodePoints ps
      else ucast ((drop_bit 10 (p - 0x10000) AND 0x3ff) + 0xd800)
           # ucast (((p - 0x10000) AND 0x3ff) + 0xdc00) # fromCodePoints ps)"

definition toUtf8String :: "bytes \<Rightarrow> error + jsstring" where
  "toUtf8String bs =
     (case getUtf8CodePoints bs of Inl e \<Rightarrow> Inl e | Inr ps \<Rightarrow> Inr (fromCodePoints ps))"

text \<open>
  \<open>let length = 31; while (data[length - 1] === 0) { length--; }\<close>, which stops at
  0 because \<open>data[-1]\<close> is undefined.
\<close>

fun null_terminator :: "bytes \<Rightarrow> nat \<Rightarrow> nat" where
  "null_terminator d 0 = 0"
| "null_terminator d (Suc n) = (if d ! n = 0 then null_terminator d n else Suc n)"

definition ethers_decodeBytes32String :: "bytes \<Rightarrow> error + jsstring" where
  "ethers_decodeBytes32String d =
     (if length d \<noteq> 32 then Inl (External ''invalid bytes32 - not 32 bytes long'')
      else if d ! 31 \<noteq> 0 then Inl (External ''invalid bytes32 string - no null terminator'')
      else toUtf8String (take (null_terminator d 31) d))"

section \<open>Properties of the event scan\<close>

text \<open>
  The interface decodes a log entry to an event name; it fails to decode it when
  \<open>parseLog\<close> throws.
\<close>

definition decodes_to :: "interface \<Rightarrow> jsstring \<Rightarrow> log \<Rightarrow> bool" where
  "decodes_to iface event l =
     (case parseLog iface (topics l) (data l) of
        Inr (Some parsed) \<Rightarrow> name parsed = event
      | _ \<Rightarrow> False)"

definition undecodable :: "interface \<Rightarrow> log \<Rightarrow> bool" where
  "undecodable iface l =
     (case parseLog iface (topics l) (data l) of Inl _ \<Rightarrow> True | Inr _ \<Rightarrow> False)"

text \<open>The scan with the event name and the argument read as parameters.\<close>

fun first_event ::
  "interface \<Rightarrow> jsstring \<Rightarrow> (result_args \<Rightarrow> error + js_value) \<Rightarrow> js_value \<Rightarrow> log list
   \<Rightarrow> js_value" where
  "first_event iface event rd d [] = d"
| "first_event iface event rd d (l # rest) =
     (case parseLog iface (topics l) (data l) of
        Inl _ \<Rightarrow> first_event iface event rd d rest
      | Inr None \<Rightarrow> first_event iface event rd d rest
      | Inr (Some parsed) \<Rightarrow>
          if name parsed = event then
            (case rd (args parsed) of
               Inl _ \<Rightarrow> first_event iface event rd d rest
             | Inr v \<Rightarrow> v)
          else first_event iface event rd d rest)"

definition read_or :: "jsstring \<Rightarrow> result_args \<Rightarrow> error + js_value" where
  "read_or n a = or_read (named a n) (positional a 1)"

text \<open>
  An entry gives the scan a value when the interface decodes it to the event and the
  read of the argument does not throw.
\<close>

definition yields :: "interface \<Rightarrow> jsstring \<Rightarrow> (result_args \<Rightarrow> error + js_value) \<Rightarrow> log \<Rightarrow> bool" where
  "yields iface event rd l =
     (case parseLog iface (topics l) (data l) of
        Inr (Some parsed) \<Rightarrow>
          name parsed = event \<and> (case rd (args parsed) of Inl _ \<Rightarrow> False | Inr _ \<Rightarrow> True)
      | _ \<Rightarrow> False)"

text \<open>What \<open>waitForTransaction\<close> makes of a receipt.\<close>

definition result_of :: "receipt \<Rightarrow> TransactionResult" where
  "result_of rc =
     \<lparr>txHash = hash rc, blockNumber = receipt_blockNumber rc, gasUsed = receipt_gasUsed rc,
      success = (status rc = Some 1), logs = receipt_logs rc\<rparr>"

text \<open>A string of 7-bit characters, none of them null.\<close>

definition ascii :: "jsstring \<Rightarrow> bool" where
  "ascii str = list_all (\<lambda>c. c < 0x80) str"

definition no_null :: "jsstring \<Rightarrow> bool" where
  "no_null str = list_all (\<lambda>c. c \<noteq> 0) str"

text \<open>
  A string without unpaired surrogates: a code unit in 0xd800..0xdbff is followed by
  one in 0xdc00..0xdfff, and the latter occur nowhere else.
\<close>

fun well_formed :: "jsstring \<Rightarrow> bool" where
  "well_formed [] = True"
| "well_formed (c # cs) =
     (if c AND 0xfc00 = 0xd800 then
        (case cs of [] \<Rightarrow> False | c2 # cs' \<Rightarrow> c2 AND 0xfc00 = 0xdc00 \<and> well_formed cs')
      else c AND 0xfc00 \<noteq> 0xdc00 \<and> well_formed cs)"

section \<open>A concrete world\<close>

text \<open>
  An interface that knows four events and tells them apart by the first topic; an
  entry without topics parses to null, any other entry makes \<open>parseLog\<close> throw.
  The arguments of an event are two, the second of them named. The interface also
  knows a form of \<open>DepartmentAdded\<close> with a single, unnamed argument.
\<close>

definition example_args :: "jsstring \<Rightarrow> js_value \<Rightarrow> result_args" where
  "example_args n v =
     \<lparr>named = (\<lambda>k. if k = n then Inr v else Inr Undefined),
      positional = (\<lambda>i. if i = 1 then Inr v
                         else if i = 0 then Inr Undefined
                         else Inl (External ''out of result range''))\<rparr>"

definition short_args :: "js_value \<Rightarrow> result_args" where
  "short_args v =
     \<lparr>named = (\<lambda>k. Inr Undefined),
      positional = (\<lambda>i. if i = 0 then Inr v else Inl (External ''out of result range''))\<rparr>"

definition example_interface :: interface where
  "example_interface =
     \<lparr>parseLog = (\<lambda>ts d.
        if ts = [js ''ProposalSubmitted''] then
          Inr (Some \<lparr>name = js ''ProposalSubmitted'',
                     args = example_args (js ''tokenId'') (BigInt (int (length d)))\<rparr>)
        else if ts = [js ''DepartmentAdded''] then
          Inr (Some \<lparr>name = js ''DepartmentAdded'',
                     args = example_args (js ''deptContract'') (String d)\<rparr>)
        else if ts = [js ''DepartmentAdded/1''] then
          Inr (Some \<lparr>name = js ''DepartmentAdded'', args = short_args (String d)\<rparr>)
        else if ts = [js ''AgencyAdded''] then
          Inr (Some \<lparr>name = js ''AgencyAdded'',
                     args = example_args (js ''agency'') (String d)\<rparr>)
        else if ts = [js ''Transfer''] then
          Inr (Some \<lparr>name = js ''Transfer'', args = example_args (js ''to'') (String d)\<rparr>)
        else if ts = [] then Inr None
        else Inl (External ''no matching event''))\<rparr>"

definition example_library :: library where
  "example_library =
     \<lparr>encodeBytes32String = ethers_encodeBytes32String,
      decodeBytes32String = ethers_decodeBytes32String,
      BigInt_of_string = (\<lambda>str. if str = js ''0'' then Inr 0 else Inl (External ''SyntaxError'')),
      Number_of = (\<lambda>v. case v of BigInt n \<Rightarrow> Integral n | _ \<Rightarrow> NonIntegral),
      Wallet_check = (\<lambda>k. None),
      interface_of = (\<lambda>a. example_interface)\<rparr>"

definition example_receipt :: "log list \<Rightarrow> receipt" where
  "example_receipt ls =
     \<lparr>hash = js ''0xabc'', receipt_blockNumber = 12, receipt_gasUsed = 21000,
      status = Some 1, receipt_logs = ls\<rparr>"

text \<open>A chain that mines every transaction into a receipt with the given logs.\<close>

definition example_world :: "log list \<Rightarrow> world" where
  "example_world ls =
     \<lparr>DBTC_CHAIN_MODE = None, DBTC_API_KEY = None, PRIVATE_KEY = None,
      lib = example_library,
      submit = (\<lambda>c m as. Inr \<lparr>wait = Inr (Some (example_receipt ls))\<rparr>),
      query = (\<lambda>c m as. Inr (BigInt 1))\<rparr>"

definition example_state :: sdk_state where
  "example_state =
     \<lparr>stored_config = Some \<lparr>chainMode = js ''testnet'', apiKey = js ''key'',
                             privateKey = Some (js ''0x01'')\<rparr>,
      cached_provider = None,
      addresses = CONTRACT_ADDRESSES,
      trace = []\<rparr>"

definition example_proposal :: ProposalData where
  "example_proposal =
     \<lparr>prexcFpapId = js ''PREXC-001'', uacsObjCode = js ''PS-001'', amount = AmountBigInt 1000000\<rparr>"

definition log_entry :: "string \<Rightarrow> string \<Rightarrow> log" where
  "log_entry t d = \<lparr>topics = [js t], data = js d\<rparr>"

definition example_provider :: provider where
  "example_provider = JsonRpcProvider (js ''https://amoy.dbtc.bayanichain.io?apiKey=key'') 80002"

definition example_signer :: wallet where
  "example_signer = Wallet (js ''0x01'') example_provider"

definition proposal_logs :: "log list" where
  "proposal_logs =
     [log_entry ''Transfer'' ''a'', log_entry ''junk'' ''b'',
      log_entry ''ProposalSubmitted'' ''1234567'', log_entry ''ProposalSubmitted'' ''12'']"

definition department_logs :: "log list" where
  "department_logs =
     [log_entry ''junk'' ''b'', log_entry ''DepartmentAdded'' ''0xD1'',
      log_entry ''DepartmentAdded'' ''0xD2'']"

definition agency_logs :: "log list" where
  "agency_logs =
     [log_entry ''Transfer'' ''a'', log_entry ''AgencyAdded'' ''0xA1'', log_entry ''junk'' ''c'']"

text \<open>A receipt whose first \<open>DepartmentAdded\<close> entry has the single argument.\<close>

definition short_logs :: "string \<Rightarrow> log list" where
  "short_logs d =
     [log_entry ''junk'' ''b'', log_entry ''DepartmentAdded/1'' ''DPWH'',
      log_entry ''DepartmentAdded'' d, log_entry ''DepartmentAdded'' ''0xD9'']"

definition quiet_logs :: "log list" where
  "quiet_logs = [log_entry ''Transfer'' ''a'', log_entry ''junk'' ''b'']"

text \<open>A proposal whose first field has 32 characters.\<close>

definition long_proposal :: ProposalData where
  "long_proposal =
     \<lparr>prexcFpapId = replicate 32 0x41, uacsObjCode = js ''PS-001'', amount = AmountBigInt 1000000\<rparr>"

section \<open>Contract interactions of a run\<close>

text \<open>
  A function is silent when no run of it adds to the trace; it records \<open>P\<close> when
  every run that returns has added exactly a list of interactions satisfying \<open>P\<close>.
\<close>

definition silent :: "'a sdk \<Rightarrow> bool" where
  "silent m = (\<forall>s. trace (snd (m s)) = trace s)"

definition records :: "'a sdk \<Rightarrow> (interaction list \<Rightarrow> bool) \<Rightarrow> bool" where
  "records m P = (\<forall>s r s'. m s = (Inr r, s') \<longrightarrow> (\<exists>tr. trace s' = trace s @ tr \<and> P tr))"

section \<open>String literals\<close>

lemma of_char_less: "(of_char c :: nat) < 256"
proof -
  have "(of_char c :: nat) mod 256 < 256" by (rule mod_less_divisor) simp
  then show ?thesis by (simp only: of_char_mod_256)
qed

lemma unat_code_unit: "unat (of_nat (of_char c) :: 16 word) = of_char c"
proof -
  have "(of_char c :: nat) < 2 ^ LENGTH(16)" by (rule less_trans [OF of_char_less]) simp
  then show ?thesis by (rule of_nat_inverse [OF refl])
qed

lemma js_inject [simp]: "(js a = js b) = (a = b)"
proof -
  have "inj (\<lambda>c :: char. (of_nat (of_char c) :: 16 word))"
  proof (rule injI)
    fix x y :: char
    assume "(of_nat (of_char x) :: 16 word) = of_nat (of_char y)"
    then have "unat (of_nat (of_char x) :: 16 word) = unat (of_nat (of_char y) :: 16 word)"
      by (rule arg_cong)
    then have "(of_char x :: nat) = of_char y"
      by (simp only: unat_code_unit)
    then show "x = y" by simp
  qed
  then show ?thesis unfolding js_def by (rule inj_map_eq_map)
qed

lemma js_Nil [simp]: "(js a = []) = (a = [])" "([] = js a) = (a = [])"
  by (auto simp: js_def)

lemma js_empty [simp]: "js [] = []"
  by (simp add: js_def)

lemma js_length [simp]: "length (js a) = length a"
  by (simp add: js_def)

section \<open>The event scan\<close>

text \<open>Every copy of the loop is the scan \<open>first_event\<close> at its event name and read.\<close>

lemma submitProposal_extract_first:
  "submitProposal_extract iface d ls =
     first_event iface (js ''ProposalSubmitted'') (\<lambda>a. named a (js ''tokenId'')) d ls"
  by (induction ls) (simp_all split: sum.splits option.splits)

lemma reviseProposal_extract_first:
  "reviseProposal_extract iface d ls =
     first_event iface (js ''ProposalRevised'') (\<lambda>a. named a (js ''newTokenId'')) d ls"
  by (induction ls) (simp_all split: sum.splits option.splits)

lemma amendProposal_extract_first:
  "amendProposal_extract iface d ls =
     first_event iface (js ''ProposalAmended'') (\<lambda>a. named a (js ''newTokenId'')) d ls"
  by (induction ls) (simp_all split: sum.splits option.splits)

lemma submitSeparateGAB_extract_first:
  "submitSeparateGAB_extract iface d ls =
     first_event iface (js ''ProposalSubmitted'') (\<lambda>a. named a (js ''tokenId'')) d ls"
  by (induction ls) (simp_all split: sum.splits option.splits)

lemma submitJointGAB_extract_first:
  "submitJointGAB_extract iface d ls =
     first_event iface (js ''ProposalSubmitted'') (\<lambda>a. named a (js ''tokenId'')) d ls"
  by (induction ls) (simp_all split: sum.splits option.splits)

lemma addDepartment_extract_first:
  "addDepartment_extract iface d ls =
     first_event iface (js ''DepartmentAdded'') (read_or (js ''deptContract'')) d ls"
  by (induction ls) (simp_all add: read_or_def split: sum.splits option.splits)

lemma addRegularDepartment_extract_first:
  "addRegularDepartment_extract iface d ls =
     first_event iface (js ''DepartmentAdded'') (read_or (js ''deptContract'')) d ls"
  by (induction ls) (simp_all add: read_or_def split: sum.splits option.splits)

lemma addAgency_extract_first:
  "addAgency_extract iface d ls =
     first_event iface (js ''AgencyAdded'') (read_or (js ''agencyContract'')) d ls"
  by (induction ls) (simp_all add: read_or_def split: sum.splits option.splits)

lemmas extract_first =
  submitProposal_extract_first reviseProposal_extract_first amendProposal_extract_first
  submitSeparateGAB_extract_first submitJointGAB_extract_first addDepartment_extract_first
  addRegularDepartment_extract_first addAgency_extract_first

lemma yields_iff:
  "yields iface event rd l \<longleftrightarrow>
     (\<exists>parsed v. parseLog iface (topics l) (data l) = Inr (Some parsed)
                 \<and> name parsed = event \<and> rd (args parsed) = Inr v)"
proof (cases "parseLog iface (topics l) (data l)")
  case (Inl e)
  then show ?thesis by (simp add: yields_def)
next
  case (Inr p)
  show ?thesis
  proof (cases p)
    case None
    with Inr show ?thesis by (simp add: yields_def)
  next
    case (Some parsed)
    with Inr show ?thesis by (cases "rd (args parsed)") (simp_all add: yields_def)
  qed
qed

lemma yields_decodes: "yields iface event rd l \<Longrightarrow> decodes_to iface event l"
  by (auto simp: yields_iff decodes_to_def)

lemma first_event_skip:
  "\<forall>x\<in>set pre. \<not> yields iface event rd x \<Longrightarrow>
   first_event iface event rd d (pre @ rest) = first_event iface event rd d rest"
  by (induction pre) (auto simp: yields_iff split: sum.splits option.splits)

lemma first_event_first_match:
  assumes "\<forall>x\<in>set pre. \<not> yields iface event rd x"
    and "parseLog iface (topics l) (data l) = Inr (Some parsed)"
    and "name parsed = event"
    and "rd (args parsed) = Inr v"
  shows "first_event iface event rd d (pre @ l # post) = v"
  using assms by (simp add: first_event_skip)

lemma first_event_first_decoded:
  assumes "\<forall>x\<in>set pre. \<not> decodes_to iface event x"
    and "parseLog iface (topics l) (data l) = Inr (Some parsed)"
    and "name parsed = event"
    and "rd (args parsed) = Inr v"
  shows "first_event iface event rd d (pre @ l # post) = v"
proof -
  from assms(1) have "\<forall>x\<in>set pre. \<not> yields iface event rd x"
    using yields_decodes by blast
  from first_event_first_match [OF this assms(2,3,4)] show ?thesis .
qed

lemma first_event_none:
  assumes "\<forall>x\<in>set ls. \<not> decodes_to iface event x"
  shows "first_event iface event rd d ls = d"
proof -
  from assms have "\<forall>x\<in>set ls. \<not> yields iface event rd x"
    using yields_decodes by blast
  from first_event_skip [OF this, of d "[]"] show ?thesis by simp
qed

lemma first_event_drop_undecodable:
  "\<forall>x\<in>set junk. undecodable iface x \<Longrightarrow>
   first_event iface event rd d (junk @ rest) = first_event iface event rd d rest"
  by (induction junk) (auto simp: undecodable_def split: sum.splits option.splits)

lemma first_event_prefix_cong:
  "first_event iface event rd d rest = first_event iface event rd d rest' \<Longrightarrow>
   first_event iface event rd d (pre @ rest) = first_event iface event rd d (pre @ rest')"
  by (induction pre) (auto split: sum.splits option.splits)

lemma first_event_insert_undecodable:
  "\<forall>x\<in>set junk. undecodable iface x \<Longrightarrow>
   first_event iface event rd d (pre @ junk @ rest) = first_event iface event rd d (pre @ rest)"
  by (rule first_event_prefix_cong) (simp add: first_event_drop_undecodable)

section \<open>Running the wrappers\<close>

lemma bind_sdk_Inr:
  "bind_sdk m f s = (Inr r, s') \<Longrightarrow> \<exists>x s1. m s = (Inr x, s1) \<and> f x s1 = (Inr r, s')"
  by (auto simp: bind_sdk_def split: prod.splits sum.splits)

lemma bind_sdk_InrE:
  assumes "bind_sdk m f s = (Inr r, s')"
  obtains x s1 where "m s = (Inr x, s1)" and "f x s1 = (Inr r, s')"
  using bind_sdk_Inr [OF assms] by blast

lemma waitForTransaction_receipt:
  "wait t = Inr (Some rc) \<Longrightarrow>
   waitForTransaction t s = (Inr (result_of rc), s\<lparr>trace := trace s @ [Waited]\<rparr>)"
  by (simp add: waitForTransaction_def bind_sdk_def record_sdk_def return_sdk_def result_of_def)

lemma send_sdk_run:
  "send_sdk w c m as s = (submit w c m as, s\<lparr>trace := trace s @ [Sent c m as]\<rparr>)"
  by (simp add: send_sdk_def bind_sdk_def record_sdk_def lift_sdk_def)

lemma getAgencyContract_signer:
  "getAgencyContract w a (Some sg) s = (Inr (Contract a AgencyABI (Signer sg)), s)"
  by (simp add: getAgencyContract_def runner_for_def bind_sdk_def return_sdk_def)

lemma getDepartmentContract_signer:
  "getDepartmentContract w a (Some sg) s = (Inr (Contract a DepartmentABI (Signer sg)), s)"
  by (simp add: getDepartmentContract_def runner_for_def bind_sdk_def return_sdk_def)

text \<open>The extra field of a wrapper's result is the scan of the result's logs.\<close>

lemma submitProposal_tokenId:
  assumes "submitProposal w a uri d pk s = (Inr r, s')"
  shows "tokenId r = submitProposal_extract (interface_of (lib w) AgencyABI) (BigInt 0) (logs r)"
proof -
  from assms obtain result s1 where
    "return_sdk (with_tokenId result
       (submitProposal_extract (interface_of (lib w) AgencyABI) (BigInt 0) (logs result))) s1
     = (Inr r, s')"
    unfolding submitProposal_def by (blast dest: bind_sdk_Inr)
  then show ?thesis by (auto simp: return_sdk_def with_tokenId_def)
qed

lemma addDepartment_departmentAddress:
  assumes "addDepartment w c n an ao sa ad pk da s = (Inr r, s')"
  shows "departmentAddress r =
         addDepartment_extract (interface_of (lib w) DBTCABI) (String []) (logs r)"
proof -
  from assms obtain result s1 where
    "return_sdk (with_departmentAddress result
       (addDepartment_extract (interface_of (lib w) DBTCABI) (String []) (logs result))) s1
     = (Inr r, s')"
    unfolding addDepartment_def by (blast dest: bind_sdk_Inr)
  then show ?thesis by (auto simp: return_sdk_def with_departmentAddress_def)
qed

lemma addAgency_agencyAddress:
  assumes "addAgency w dp c n ow pk s = (Inr r, s')"
  shows "agencyAddress r =
         addAgency_extract (interface_of (lib w) DepartmentABI) (String []) (logs r)"
proof -
  from assms obtain result s1 where
    "return_sdk (with_agencyAddress result
       (addAgency_extract (interface_of (lib w) DepartmentABI) (String []) (logs result))) s1
     = (Inr r, s')"
    unfolding addAgency_def by (blast dest: bind_sdk_Inr)
  then show ?thesis by (auto simp: return_sdk_def with_agencyAddress_def)
qed

text \<open>A run in which the signer, the submission and the wait succeed.\<close>

lemma submitProposal_run:
  assumes "getSigner w pk s = (Inr sg, s1)"
    and "prepareProposalData (lib w) d = Inr pd"
    and "submit w (Contract a AgencyABI (Signer sg)) ''submitProposal'' [Str uri, Proposal pd] = Inr t"
    and "wait t = Inr (Some rc)"
  shows "submitProposal w a uri d pk s =
     (Inr (with_tokenId (result_of rc)
        (submitProposal_extract (interface_of (lib w) AgencyABI) (BigInt 0) (receipt_logs rc))),
      s1\<lparr>trace := trace s1 @
        [Sent (Contract a AgencyABI (Signer sg)) ''submitProposal'' [Str uri, Proposal pd], Waited]\<rparr>)"
  unfolding submitProposal_def
  by (simp add: bind_sdk_def assms getAgencyContract_signer lift_sdk_def send_sdk_run
                waitForTransaction_receipt return_sdk_def result_of_def)

lemma addDepartment_run:
  assumes "getSigner w pk s = (Inr sg, s1)"
    and "getDBTCContract w da (Some sg) s1 = (Inr c, s2)"
    and "submit w c ''addDepartment''
           [Str dc, Str dn, Str an, Str ao, Flag sa, Flag ad] = Inr t"
    and "wait t = Inr (Some rc)"
  shows "addDepartment w dc dn an ao sa ad pk da s =
     (Inr (with_departmentAddress (result_of rc)
        (addDepartment_extract (interface_of (lib w) DBTCABI) (String []) (receipt_logs rc))),
      s2\<lparr>trace := trace s2 @
        [Sent c ''addDepartment'' [Str dc, Str dn, Str an, Str ao, Flag sa, Flag ad], Waited]\<rparr>)"
  unfolding addDepartment_def
  by (simp add: bind_sdk_def assms send_sdk_run
                waitForTransaction_receipt return_sdk_def result_of_def)

lemma addAgency_run:
  assumes "getSigner w pk s = (Inr sg, s1)"
    and "submit w (Contract dp DepartmentABI (Signer sg)) ''addAgency''
           [Str ac, Str an, Str ow] = Inr t"
    and "wait t = Inr (Some rc)"
  shows "addAgency w dp ac an ow pk s =
     (Inr (with_agencyAddress (result_of rc)
        (addAgency_extract (interface_of (lib w) DepartmentABI) (String []) (receipt_logs rc))),
      s1\<lparr>trace := trace s1 @
        [Sent (Contract dp DepartmentABI (Signer sg)) ''addAgency'' [Str ac, Str an, Str ow],
         Waited]\<rparr>)"
  unfolding addAgency_def
  by (simp add: bind_sdk_def assms getDepartmentContract_signer send_sdk_run
                waitForTransaction_receipt return_sdk_def result_of_def)

lemma submitProposal_not_prepared:
  assumes "getSigner w pk s = (Inr sg, s1)" and "prepareProposalData (lib w) d = Inl e"
  shows "submitProposal w a uri d pk s = (Inl e, s1)"
  unfolding submitProposal_def
  by (simp add: bind_sdk_def assms getAgencyContract_signer lift_sdk_def)

lemma submitProposal_prepared:
  assumes "getSigner w pk s = (Inr sg, s1)" and "prepareProposalData (lib w) d = Inr pd"
  shows "\<exists>rest. trace (snd (submitProposal w a uri d pk s)) =
           trace s1 @ Sent (Contract a AgencyABI (Signer sg)) ''submitProposal''
                        [Str uri, Proposal pd] # rest"
  unfolding submitProposal_def
  by (auto simp: bind_sdk_def assms getAgencyContract_signer lift_sdk_def send_sdk_run
                 waitForTransaction_def record_sdk_def throw_sdk_def return_sdk_def
           split: sum.splits option.splits prod.splits)

lemma prepareProposalData_Inr:
  "prepareProposalData l d = Inr pd \<longleftrightarrow>
     (\<exists>p u n. stringToBytes32 l (prexcFpapId d) = Inr p
            \<and> stringToBytes32 l (uacsObjCode d) = Inr u
            \<and> BigInt_of l (amount d) = Inr n
            \<and> pd = \<lparr>fiscalYear = 0, departmentCode = ZeroHash, agencyCode = ZeroHash,
                     prexcFpapId32 = p, uacsObjCode32 = u, amountBigInt = n\<rparr>)"
  by (auto simp: prepareProposalData_def split: sum.splits)

lemma stringToBytes32_Inr:
  "stringToBytes32 l str = Inr b \<longleftrightarrow> length str \<le> 31 \<and> encodeBytes32String l str = Inr b"
  by (auto simp: stringToBytes32_def)

section \<open>The concrete world, evaluated\<close>

lemma example_getSigner:
  "getSigner (example_world ls) None example_state =
     (Inr example_signer, example_state\<lparr>cached_provider := Some example_provider\<rparr>)"
  by (simp add: getSigner_def or_str_def bind_sdk_def getConfig_def example_state_def
                return_sdk_def getProvider_def getNetworkConfig_def getRpcUrl_def NETWORKS_def
                example_world_def example_library_def example_signer_def example_provider_def
                js_def throw_sdk_def)

lemma example_getDBTCContract:
  "getDBTCContract (example_world ls) (Some (js ''0xDB'')) (Some sg) s =
     (Inr (Contract (js ''0xDB'') DBTCABI (Signer sg)), s)"
  by (simp add: getDBTCContract_def or_str_def bind_sdk_def return_sdk_def runner_for_def js_def)

lemma example_prepare:
  "prepareProposalData example_library example_proposal =
     Inr \<lparr>fiscalYear = 0, departmentCode = ZeroHash, agencyCode = ZeroHash,
          prexcFpapId32 = map (\<lambda>c. of_nat (of_char c)) ''PREXC-001'' @ replicate 23 0,
          uacsObjCode32 = map (\<lambda>c. of_nat (of_char c)) ''PS-001'' @ replicate 26 0,
          amountBigInt = 1000000\<rparr>"
  by (simp add: prepareProposalData_def example_library_def example_proposal_def
                stringToBytes32_def ethers_encodeBytes32String_def js_def)

lemma example_lib: "lib (example_world ls) = example_library"
  "interface_of example_library a = example_interface"
  by (simp_all add: example_world_def example_library_def)

lemma example_world_fields:
  "submit (example_world ls) c m as = Inr \<lparr>wait = Inr (Some (example_receipt ls))\<rparr>"
  "query (example_world ls) c m as = Inr (BigInt 1)"
  by (simp_all add: example_world_def)

lemma example_prepare_world:
  "prepareProposalData (lib (example_world ls)) example_proposal =
     Inr \<lparr>fiscalYear = 0, departmentCode = ZeroHash, agencyCode = ZeroHash,
          prexcFpapId32 = map (\<lambda>c. of_nat (of_char c)) ''PREXC-001'' @ replicate 23 0,
          uacsObjCode32 = map (\<lambda>c. of_nat (of_char c)) ''PS-001'' @ replicate 26 0,
          amountBigInt = 1000000\<rparr>"
  by (simp add: example_lib example_prepare)

lemma example_submitProposal:
  "fst (submitProposal (example_world ls) a uri example_proposal None example_state) =
     Inr (with_tokenId (result_of (example_receipt ls))
            (submitProposal_extract example_interface (BigInt 0) ls))"
proof -
  have p: "prepareProposalData (lib (example_world ls)) example_proposal =
     Inr \<lparr>fiscalYear = 0, departmentCode = ZeroHash, agencyCode = ZeroHash,
          prexcFpapId32 = map (\<lambda>c. of_nat (of_char c)) ''PREXC-001'' @ replicate 23 0,
          uacsObjCode32 = map (\<lambda>c. of_nat (of_char c)) ''PS-001'' @ replicate 26 0,
          amountBigInt = 1000000\<rparr>"
    by (simp add: example_world_def example_prepare)
  have s: "\<And>c m as. submit (example_world ls) c m as = Inr \<lparr>wait = Inr (Some (example_receipt ls))\<rparr>"
    by (simp add: example_world_def)
  have "wait \<lparr>wait = Inr (Some (example_receipt ls))\<rparr> = Inr (Some (example_receipt ls))"
    by simp
  from submitProposal_run [OF example_getSigner p s this]
  show ?thesis
    by (simp add: example_world_def example_library_def example_receipt_def)
qed

lemma example_addDepartment:
  "fst (addDepartment (example_world ls) dc dn an ao sa ad None (Some (js ''0xDB'')) example_state) =
     Inr (with_departmentAddress (result_of (example_receipt ls))
            (addDepartment_extract example_interface (String []) ls))"
proof -
  have s: "\<And>c m as. submit (example_world ls) c m as = Inr \<lparr>wait = Inr (Some (example_receipt ls))\<rparr>"
    by (simp add: example_world_def)
  have "wait \<lparr>wait = Inr (Some (example_receipt ls))\<rparr> = Inr (Some (example_receipt ls))"
    by simp
  from addDepartment_run [OF example_getSigner example_getDBTCContract s this]
  show ?thesis
    by (simp add: example_world_def example_library_def example_receipt_def)
qed

lemma example_addAgency:
  "fst (addAgency (example_world ls) dp ac an ow None example_state) =
     Inr (with_agencyAddress (result_of (example_receipt ls))
            (addAgency_extract example_interface (String []) ls))"
proof -
  have s: "\<And>c m as. submit (example_world ls) c m as = Inr \<lparr>wait = Inr (Some (example_receipt ls))\<rparr>"
    by (simp add: example_world_def)
  have "wait \<lparr>wait = Inr (Some (example_receipt ls))\<rparr> = Inr (Some (example_receipt ls))"
    by simp
  from addAgency_run [OF example_getSigner s this]
  show ?thesis
    by (simp add: example_world_def example_library_def example_receipt_def)
qed

lemma example_parse:
  "parseLog example_interface (topics (log_entry ''ProposalSubmitted'' d)) (data (log_entry ''ProposalSubmitted'' d))
     = Inr (Some \<lparr>name = js ''ProposalSubmitted'',
                  args = example_args (js ''tokenId'') (BigInt (int (length d)))\<rparr>)"
  "parseLog example_interface (topics (log_entry ''DepartmentAdded'' d)) (data (log_entry ''DepartmentAdded'' d))
     = Inr (Some \<lparr>name = js ''DepartmentAdded'',
                  args = example_args (js ''deptContract'') (String (js d))\<rparr>)"
  "parseLog example_interface (topics (log_entry ''AgencyAdded'' d)) (data (log_entry ''AgencyAdded'' d))
     = Inr (Some \<lparr>name = js ''AgencyAdded'',
                  args = example_args (js ''agency'') (String (js d))\<rparr>)"
  "parseLog example_interface (topics (log_entry ''Transfer'' d)) (data (log_entry ''Transfer'' d))
     = Inr (Some \<lparr>name = js ''Transfer'', args = example_args (js ''to'') (String (js d))\<rparr>)"
  "parseLog example_interface (topics (log_entry ''junk'' d)) (data (log_entry ''junk'' d))
     = Inl (External ''no matching event'')"
  "parseLog example_interface (topics (log_entry ''DepartmentAdded/1'' d))
       (data (log_entry ''DepartmentAdded/1'' d))
     = Inr (Some \<lparr>name = js ''DepartmentAdded'', args = short_args (String (js d))\<rparr>)"
  by (simp_all add: example_interface_def log_entry_def js_def)

lemma example_decodes:
  "decodes_to example_interface ev (log_entry ''Transfer'' d) = (ev = js ''Transfer'')"
  "decodes_to example_interface ev (log_entry ''junk'' d) = False"
  "decodes_to example_interface ev (log_entry ''ProposalSubmitted'' d) = (ev = js ''ProposalSubmitted'')"
  "decodes_to example_interface ev (log_entry ''DepartmentAdded'' d) = (ev = js ''DepartmentAdded'')"
  "decodes_to example_interface ev (log_entry ''AgencyAdded'' d) = (ev = js ''AgencyAdded'')"
  "decodes_to example_interface ev (log_entry ''DepartmentAdded/1'' d) = (ev = js ''DepartmentAdded'')"
  by (auto simp: decodes_to_def example_parse)

lemma example_undecodable:
  "undecodable example_interface (log_entry ''junk'' d)"
  by (simp add: undecodable_def example_parse)

lemma example_logs:
  "logs (with_tokenId (result_of (example_receipt ls)) v) = ls"
  "logs (with_departmentAddress (result_of (example_receipt ls)) v) = ls"
  "logs (with_agencyAddress (result_of (example_receipt ls)) v) = ls"
  by (simp_all add: with_tokenId_def with_departmentAddress_def with_agencyAddress_def
                    result_of_def example_receipt_def)

lemma example_fields:
  "tokenId (with_tokenId r v) = v"
  "departmentAddress (with_departmentAddress r v) = v"
  "agencyAddress (with_agencyAddress r v) = v"
  by (simp_all add: with_tokenId_def with_departmentAddress_def with_agencyAddress_def)

lemma example_reads:
  "named (example_args n v) k = (if k = n then Inr v else Inr Undefined)"
  "positional (example_args n v) (Suc 0) = Inr v"
  "named (short_args v) k = Inr Undefined"
  "positional (short_args v) (Suc 0) = Inl (External ''out of result range'')"
  by (simp_all add: example_args_def short_args_def)

lemma example_yields:
  "\<not> yields example_interface ev rd (log_entry ''junk'' d)"
  "ev \<noteq> js ''Transfer'' \<Longrightarrow> \<not> yields example_interface ev rd (log_entry ''Transfer'' d)"
  "\<not> yields example_interface ev (read_or n) (log_entry ''DepartmentAdded/1'' d)"
  by (simp_all add: yields_def example_parse example_reads read_or_def or_read_def)

section \<open>Functions that touch no contract\<close>

lemma silentD: "silent m \<Longrightarrow> m s = (r, s') \<Longrightarrow> trace s' = trace s"
  by (metis silent_def snd_conv)

lemma silent_return [simp]: "silent (return_sdk x)"
  by (simp add: silent_def return_sdk_def)

lemma silent_throw [simp]: "silent (throw_sdk e)"
  by (simp add: silent_def throw_sdk_def)

lemma silent_lift [simp]: "silent (lift_sdk r)"
  by (simp add: silent_def lift_sdk_def)

lemma silent_bind: "silent m \<Longrightarrow> (\<And>x. silent (f x)) \<Longrightarrow> silent (bind_sdk m f)"
  by (auto simp: silent_def bind_sdk_def split: prod.splits sum.splits) (metis snd_conv)+

lemma silent_configure [simp]: "silent (configure c)"
  by (simp add: silent_def configure_def)

lemma silent_getConfig [simp]: "silent (getConfig w)"
proof -
  have "trace (snd (getConfig w s)) = trace s" for s
    using silent_configure [unfolded silent_def]
    by (auto simp: getConfig_def bind_sdk_def split: option.splits prod.splits sum.splits)
       (metis snd_conv)+
  then show ?thesis by (simp add: silent_def)
qed

lemma silent_getNetworkConfig [simp]: "silent (getNetworkConfig w)"
  by (simp add: getNetworkConfig_def silent_bind)

lemma silent_getRpcUrl [simp]: "silent (getRpcUrl w)"
  by (auto simp: getRpcUrl_def intro!: silent_bind split: option.splits)

lemma silent_update_provider: "silent (\<lambda>s. (Inr x, s\<lparr>cached_provider := p\<rparr>))"
  by (simp add: silent_def)

lemma silent_getProvider [simp]: "silent (getProvider w)"
proof -
  have a: "silent (bind_sdk (getNetworkConfig w) (\<lambda>network.
           bind_sdk (getRpcUrl w) (\<lambda>url.
             case network of
               None \<Rightarrow> throw_sdk TypeError
             | Some n \<Rightarrow>
                 (\<lambda>s'. (Inr (JsonRpcProvider url (chainId n)),
                        s'\<lparr>cached_provider := Some (JsonRpcProvider url (chainId n))\<rparr>)))))"
    by (intro silent_bind silent_getNetworkConfig silent_getRpcUrl)
       (simp add: silent_update_provider split: option.splits)
  show ?thesis
    unfolding silent_def getProvider_def
    using a [unfolded silent_def] by (auto split: option.splits)
qed

lemma silent_or_str: "silent b \<Longrightarrow> silent (or_str a b)"
  by (simp add: or_str_def)

lemma silent_getSigner [simp]: "silent (getSigner w pk)"
  unfolding getSigner_def
  by (auto intro!: silent_bind silent_or_str split: option.splits)

lemma silent_read_state: "silent (\<lambda>s. (Inr (g s), s))"
  by (simp add: silent_def)

lemma silent_getContractAddresses [simp]: "silent (getContractAddresses w)"
  unfolding getContractAddresses_def
  by (intro silent_bind silent_getConfig silent_read_state)

lemma silent_set_dbtc [simp]: "silent (set_dbtc m a)"
  by (auto simp: silent_def set_dbtc_def split: option.splits)

lemma silent_set_budgetProposal [simp]: "silent (set_budgetProposal m a)"
  by (auto simp: silent_def set_budgetProposal_def split: option.splits)

lemma silent_setContractAddresses [simp]: "silent (setContractAddresses w u m)"
  unfolding setContractAddresses_def
  by (auto intro!: silent_bind silent_or_str split: option.splits)

lemma silent_getChainMode [simp]: "silent (getChainMode w)"
  by (simp add: getChainMode_def silent_bind)

lemma silent_isTestnet [simp]: "silent (isTestnet w)"
  by (simp add: isTestnet_def silent_bind)

lemma silent_isMainnet [simp]: "silent (isMainnet w)"
  by (simp add: isMainnet_def silent_bind)

lemma silent_runner_for [simp]: "silent (runner_for w sg)"
  unfolding runner_for_def by (auto intro!: silent_bind split: option.splits)

lemma silent_getAgencyContract [simp]: "silent (getAgencyContract w a sg)"
  by (simp add: getAgencyContract_def silent_bind)

lemma silent_getDepartmentContract [simp]: "silent (getDepartmentContract w a sg)"
  by (simp add: getDepartmentContract_def silent_bind)

lemma silent_getDBTCContract [simp]: "silent (getDBTCContract w a sg)"
  unfolding getDBTCContract_def
  by (auto intro!: silent_bind silent_or_str split: option.splits)

lemma silent_discard: "silent m \<Longrightarrow> silent (discard m)"
  by (simp add: discard_def silent_bind)

lemma silent_run_config: "silent (run_config w c)"
  by (cases c) (simp_all add: silent_discard)

lemma silent_run_types: "silent (run_types c)"
  by (cases c) (simp_all add: silent_discard)

lemma silent_run_utils: "silent (run_utils w c)"
  by (cases c) (simp_all add: silent_discard)

lemma silent_interactions: "silent m \<Longrightarrow> interactions s (snd (m s)) = []"
  by (simp add: silent_def interactions_def)

section \<open>What the contract functions record\<close>

lemma records_silent_bind:
  assumes "silent m" and "\<And>x. records (f x) P"
  shows "records (bind_sdk m f) P"
  unfolding records_def
proof (intro allI impI)
  fix s r s'
  assume "bind_sdk m f s = (Inr r, s')"
  then obtain x s1 where 1: "m s = (Inr x, s1)" and 2: "f x s1 = (Inr r, s')"
    by (rule bind_sdk_InrE)
  from assms(1) 1 have "trace s1 = trace s" by (rule silentD)
  moreover from assms(2) 2 obtain tr where "trace s' = trace s1 @ tr" and "P tr"
    unfolding records_def by blast
  ultimately show "\<exists>tr. trace s' = trace s @ tr \<and> P tr" by simp
qed

lemma records_bind_silent:
  assumes "records m P" and "\<And>x. silent (f x)"
  shows "records (bind_sdk m f) P"
  unfolding records_def
proof (intro allI impI)
  fix s r s'
  assume "bind_sdk m f s = (Inr r, s')"
  then obtain x s1 where 1: "m s = (Inr x, s1)" and 2: "f x s1 = (Inr r, s')"
    by (rule bind_sdk_InrE)
  from assms(2) 2 have "trace s' = trace s1" by (rule silentD)
  moreover from assms(1) 1 obtain tr where "trace s1 = trace s @ tr" and "P tr"
    unfolding records_def by blast
  ultimately show "\<exists>tr. trace s' = trace s @ tr \<and> P tr" by simp
qed

lemma records_discard: "records m P \<Longrightarrow> records (discard m) P"
  by (simp add: discard_def records_bind_silent)

lemma records_send_wait:
  "(\<And>r. silent (k r)) \<Longrightarrow>
   records (bind_sdk (send_sdk w c m as) (\<lambda>t. bind_sdk (waitForTransaction t) k))
     submits_and_waits"
  unfolding records_def
proof (intro allI impI)
  fix s r s'
  assume k: "\<And>r. silent (k r)"
  assume "bind_sdk (send_sdk w c m as) (\<lambda>t. bind_sdk (waitForTransaction t) k) s = (Inr r, s')"
  then obtain t s1 where
    1: "send_sdk w c m as s = (Inr t, s1)" and
    b: "bind_sdk (waitForTransaction t) k s1 = (Inr r, s')"
    by (rule bind_sdk_InrE)
  from b obtain res s2 where
    2: "waitForTransaction t s1 = (Inr res, s2)" and
    3: "k res s2 = (Inr r, s')"
    by (rule bind_sdk_InrE)
  from 1 have "trace s1 = trace s @ [Sent c m as]"
    by (auto simp: send_sdk_def bind_sdk_def record_sdk_def lift_sdk_def)
  moreover from 2 have "trace s2 = trace s1 @ [Waited]"
    by (auto simp: waitForTransaction_def bind_sdk_def record_sdk_def throw_sdk_def return_sdk_def
             split: sum.splits option.splits)
  moreover from k 3 have "trace s' = trace s2" by (rule silentD)
  ultimately show "\<exists>tr. trace s' = trace s @ tr \<and> submits_and_waits tr"
    by simp
qed

lemma records_send_wait_only:
  "records (bind_sdk (send_sdk w c m as) (\<lambda>t. waitForTransaction t)) submits_and_waits"
proof -
  have "bind_sdk (waitForTransaction t) return_sdk = waitForTransaction t" for t
    by (auto simp: bind_sdk_def return_sdk_def split: prod.splits sum.splits)
  with records_send_wait [of return_sdk w c m as] show ?thesis by simp
qed

lemma records_query:
  "records (query_sdk w c m as) queries_only"
  by (auto simp: records_def query_sdk_def bind_sdk_def record_sdk_def lift_sdk_def
                 queries_only_def)

lemma records_query_all:
  "ms \<noteq> [] \<Longrightarrow> records (query_all w c ms) queries_only"
  by (auto simp: records_def query_all_def queries_only_def list_all_iff)

lemma records_query_then:
  "(\<And>v. silent (k v)) \<Longrightarrow> records (bind_sdk (query_sdk w c m as) k) queries_only"
  by (rule records_bind_silent [OF records_query])

lemma records_query_all_then:
  "ms \<noteq> [] \<Longrightarrow> (\<And>vs. silent (k vs)) \<Longrightarrow> records (bind_sdk (query_all w c ms) k) queries_only"
  by (rule records_bind_silent [OF records_query_all])

lemmas records_intros =
  records_send_wait records_send_wait_only records_query_then records_query_all_then
  records_query records_silent_bind

lemma agency_mutations:
  "records (submitProposal w a uri d pk) submits_and_waits"
  "records (reviseProposal w a t uri d reason pk) submits_and_waits"
  "records (amendProposal w a t uri d reason pk) submits_and_waits"
  "records (submitSeparateGAB w a uri d pk) submits_and_waits"
  "records (submitJointGAB w a h sn uri d pk) submits_and_waits"
  "records (addDocumentManager w a m pk) submits_and_waits"
  "records (removeDocumentManager w a m pk) submits_and_waits"
  "records (transferAgencyOwnership w a n pk) submits_and_waits"
  unfolding submitProposal_def reviseProposal_def amendProposal_def submitSeparateGAB_def
    submitJointGAB_def addDocumentManager_def removeDocumentManager_def
    transferAgencyOwnership_def
  by (intro records_intros; simp)+

lemma agency_reads:
  "records (getAgencyInfo w a) queries_only"
  "records (isDocumentManager w a m) queries_only"
  "records (getDocumentManagers w a) queries_only"
  unfolding getAgencyInfo_def isDocumentManager_def getDocumentManagers_def
  by (intro records_intros; simp split: list.splits)+

lemma department_mutations:
  "records (addAgency w d c n ow pk) submits_and_waits"
  "records (setHouseAndSenate w d h sn pk) submits_and_waits"
  unfolding addAgency_def setHouseAndSenate_def
  by (intro records_intros; simp)+

lemma department_reads:
  "records (getDepartmentInfo w d) queries_only"
  "records (getAgency w d c) queries_only"
  "records (isAgencyRegistered w d c) queries_only"
  "records (getAgencyCodes w d) queries_only"
  "records (getMainAgency w d) queries_only"
  "records (getHouseAgency w d) queries_only"
  "records (getSenateAgency w d) queries_only"
  "records (getDepartmentOwner w d) queries_only"
  unfolding getDepartmentInfo_def getAgency_def isAgencyRegistered_def getAgencyCodes_def
    getMainAgency_def getHouseAgency_def getSenateAgency_def getDepartmentOwner_def
  by (intro records_intros; simp split: list.splits)+

lemma dbtc_mutations:
  "records (addDepartment w c n an ao sa ad pk da) submits_and_waits"
  "records (addRegularDepartment w c n an ao pk da) submits_and_waits"
  "records (assignPhaseResponsibility w p c pk da) submits_and_waits"
  "records (startBudgetCall w pk da) submits_and_waits"
  "records (advancePhase w pk da) submits_and_waits"
  unfolding addDepartment_def addRegularDepartment_def assignPhaseResponsibility_def
    startBudgetCall_def advancePhase_def
  by (intro records_intros; simp)+

lemma dbtc_reads:
  "records (getCurrentPhase w da) queries_only"
  "records (getCurrentFiscalYear w da) queries_only"
  "records (getDepartment w c da) queries_only"
  "records (isDepartmentRegistered w c da) queries_only"
  "records (getDepartmentCodes w da) queries_only"
  "records (getDepartmentCount w da) queries_only"
  "records (getPhaseResponsibleDepartment w p da) queries_only"
  "records (getBudgetProposalContract w da) queries_only"
  "records (getDBTCOwner w da) queries_only"
  unfolding getCurrentPhase_def getCurrentFiscalYear_def getDepartment_def
    isDepartmentRegistered_def getDepartmentCodes_def getDepartmentCount_def
    getPhaseResponsibleDepartment_def getBudgetProposalContract_def getDBTCOwner_def
  by (intro records_intros; simp)+

lemma records_weaken: "records m P \<Longrightarrow> (\<And>tr. P tr \<Longrightarrow> Q tr) \<Longrightarrow> records m Q"
  unfolding records_def by blast

lemma run_agency_records:
  "records (run_agency w c) (\<lambda>tr. submits_and_waits tr \<or> queries_only tr)"
  by (cases c)
     (auto intro!: records_discard
           intro: records_weaken [OF agency_mutations(1)] records_weaken [OF agency_mutations(2)]
                  records_weaken [OF agency_mutations(3)] records_weaken [OF agency_mutations(4)]
                  records_weaken [OF agency_mutations(5)] records_weaken [OF agency_mutations(6)]
                  records_weaken [OF agency_mutations(7)] records_weaken [OF agency_mutations(8)]
                  records_weaken [OF agency_reads(1)] records_weaken [OF agency_reads(2)]
                  records_weaken [OF agency_reads(3)])

lemma run_department_records:
  "records (run_department w c) (\<lambda>tr. submits_and_waits tr \<or> queries_only tr)"
  by (cases c)
     (auto intro!: records_discard
           intro: records_weaken [OF department_mutations(1)]
                  records_weaken [OF department_mutations(2)]
                  records_weaken [OF department_reads(1)] records_weaken [OF department_reads(2)]
                  records_weaken [OF department_reads(3)] records_weaken [OF department_reads(4)]
                  records_weaken [OF department_reads(5)] records_weaken [OF department_reads(6)]
                  records_weaken [OF department_reads(7)] records_weaken [OF department_reads(8)])

lemma run_dbtc_records:
  "records (run_dbtc w c) (\<lambda>tr. submits_and_waits tr \<or> queries_only tr)"
  by (cases c)
     (auto intro!: records_discard
           intro: records_weaken [OF dbtc_mutations(1)] records_weaken [OF dbtc_mutations(2)]
                  records_weaken [OF dbtc_mutations(3)] records_weaken [OF dbtc_mutations(4)]
                  records_weaken [OF dbtc_mutations(5)]
                  records_weaken [OF dbtc_reads(1)] records_weaken [OF dbtc_reads(2)]
                  records_weaken [OF dbtc_reads(3)] records_weaken [OF dbtc_reads(4)]
                  records_weaken [OF dbtc_reads(5)] records_weaken [OF dbtc_reads(6)]
                  records_weaken [OF dbtc_reads(7)] records_weaken [OF dbtc_reads(8)]
                  records_weaken [OF dbtc_reads(9)])

lemma records_interactions:
  assumes "records m P" and "fst (m s) = Inr u"
  shows "P (interactions s (snd (m s)))"
proof -
  from assms(2) have "m s = (Inr u, snd (m s))" by (metis prod.collapse)
  with assms(1) obtain tr where "trace (snd (m s)) = trace s @ tr" and "P tr"
    unfolding records_def by blast
  then show ?thesis by (simp add: interactions_def)
qed

lemma example_run_submitProposal:
  "run (example_world quiet_logs)
     (Agency (SubmitProposal (js ''0xA'') (js ''ipfs://x'') example_proposal None)) example_state
   = (Inr (),
      example_state\<lparr>cached_provider := Some example_provider,
        trace := [Sent (Contract (js ''0xA'') AgencyABI (Signer example_signer)) ''submitProposal''
                    [Str (js ''ipfs://x''),
                     Proposal \<lparr>fiscalYear = 0, departmentCode = ZeroHash, agencyCode = ZeroHash,
                        prexcFpapId32 = map (\<lambda>c. of_nat (of_char c)) ''PREXC-001'' @ replicate 23 0,
                        uacsObjCode32 = map (\<lambda>c. of_nat (of_char c)) ''PS-001'' @ replicate 26 0,
                        amountBigInt = 1000000\<rparr>],
                  Waited]\<rparr>)"
proof -
  have "wait \<lparr>wait = Inr (Some (example_receipt quiet_logs))\<rparr>
        = Inr (Some (example_receipt quiet_logs))" by simp
  from submitProposal_run [OF example_getSigner example_prepare_world example_world_fields(1) this]
  show ?thesis
    by (simp add: discard_def bind_sdk_def return_sdk_def example_state_def)
qed

section \<open>Seven-bit strings through the bytes32 codec\<close>

lemma ascii_byte_unat:
  fixes c :: "16 word"
  assumes "c < 0x80"
  shows "unat (ucast c :: 8 word) = unat c" and "unat c < 128"
proof -
  from assms show b: "unat c < 128" by (simp add: word_less_nat_alt)
  then show "unat (ucast c :: 8 word) = unat c"
    by (simp add: unsigned_ucast_eq take_bit_eq_mod)
qed

lemma ascii_byte_high_bit:
  fixes c :: "16 word"
  assumes "c < 0x80"
  shows "drop_bit 7 (ucast c :: 8 word) = 0"
proof -
  have "unat (drop_bit 7 (ucast c :: 8 word)) = 0"
    using ascii_byte_unat [OF assms] by (simp add: drop_bit_eq_div unat_div)
  then show ?thesis by (simp add: unat_eq_0)
qed

lemma unat_byte_to_point: "unat (ucast (b :: 8 word) :: 32 word) = unat b"
proof -
  have "unat b < 2 ^ LENGTH(8)" by (rule unsigned_less)
  then have "unat b < 2 ^ LENGTH(32)" by simp
  then have "take_bit LENGTH(32) (unat b) = unat b" by (rule take_bit_nat_eq_self)
  then show ?thesis by (simp only: unsigned_ucast_eq)
qed

lemma unat_point_to_unit:
  "unat (p :: 32 word) < 65536 \<Longrightarrow> unat (ucast p :: 16 word) = unat p"
proof -
  assume "unat p < 65536"
  then have "unat p < 2 ^ LENGTH(16)" by simp
  then have "take_bit LENGTH(16) (unat p) = unat p" by (rule take_bit_nat_eq_self)
  then show ?thesis by (simp only: unsigned_ucast_eq)
qed

lemma ascii_byte_back:
  fixes c :: "16 word"
  assumes "c < 0x80"
  shows "(ucast (ucast (ucast c :: 8 word) :: 32 word) :: 16 word) = c"
proof -
  have "unat (ucast (ucast c :: 8 word) :: 32 word) = unat c"
    using ascii_byte_unat [OF assms] by (simp only: unat_byte_to_point)
  moreover from this have "unat (ucast (ucast c :: 8 word) :: 32 word) < 65536"
    using ascii_byte_unat(2) [OF assms] by simp
  ultimately have "unat (ucast (ucast (ucast c :: 8 word) :: 32 word) :: 16 word) = unat c"
    by (simp only: unat_point_to_unit)
  then show ?thesis by (simp add: word_unat_eq_iff)
qed

lemma ascii_byte_small:
  fixes c :: "16 word"
  assumes "c < 0x80"
  shows "(ucast (ucast c :: 8 word) :: 32 word) \<le> 0xffff"
proof -
  have "unat (ucast (ucast c :: 8 word) :: 32 word) = unat c"
    using ascii_byte_unat [OF assms] by (simp only: unat_byte_to_point)
  then have "unat (ucast (ucast c :: 8 word) :: 32 word) \<le> 65535"
    using ascii_byte_unat(2) [OF assms] by simp
  then show ?thesis by (simp add: word_le_nat_alt)
qed

lemma ascii_byte_null:
  fixes c :: "16 word"
  assumes "c < 0x80" and "c \<noteq> 0"
  shows "(ucast c :: 8 word) \<noteq> 0"
proof
  assume "(ucast c :: 8 word) = 0"
  then have "unat (ucast c :: 8 word) = 0" by simp
  with ascii_byte_unat(1) [OF assms(1)] have "unat c = 0" by simp
  with assms(2) show False by (simp add: unat_eq_0)
qed

lemma toUtf8Bytes_ascii: "ascii str \<Longrightarrow> toUtf8Bytes str = Inr (map ucast str)"
  by (induction str) (simp_all add: ascii_def)

lemma getUtf8CodePoints_ascii:
  "ascii str \<Longrightarrow>
   getUtf8CodePoints (map ucast str) = Inr (map (\<lambda>c. ucast (ucast c :: 8 word)) str)"
  by (induction str) (simp_all add: ascii_def ascii_byte_high_bit)

lemma fromCodePoints_ascii:
  "ascii str \<Longrightarrow> fromCodePoints (map (\<lambda>c. ucast (ucast c :: 8 word)) str) = str"
  by (induction str) (simp_all add: ascii_def ascii_byte_small ascii_byte_back)

lemma toUtf8String_ascii: "ascii str \<Longrightarrow> toUtf8String (map ucast str) = Inr str"
  by (simp add: toUtf8String_def getUtf8CodePoints_ascii fromCodePoints_ascii)

lemma null_terminator_padding:
  assumes "list_all (\<lambda>b. b \<noteq> 0) bs"
  shows "j \<le> k \<Longrightarrow> null_terminator (bs @ replicate k 0) (length bs + j) = length bs"
proof (induction j)
  case 0
  show ?case
  proof (cases bs rule: rev_cases)
    case Nil
    then show ?thesis by simp
  next
    case (snoc ys y)
    with assms show ?thesis by (simp add: nth_append)
  qed
next
  case (Suc j)
  then show ?case by (simp add: nth_append)
qed

lemma decode_padded:
  assumes "list_all (\<lambda>b. b \<noteq> 0) bs" and "length bs \<le> 31"
  shows "ethers_decodeBytes32String (bs @ replicate (32 - length bs) 0) = toUtf8String bs"
proof -
  let ?d = "bs @ replicate (32 - length bs) 0"
  have "null_terminator ?d (length bs + (31 - length bs)) = length bs"
    using assms by (intro null_terminator_padding) simp_all
  with assms(2) have "null_terminator ?d 31 = length bs" by simp
  moreover have "?d ! 31 = 0" using assms(2) by (simp add: nth_append)
  moreover have "length ?d = 32" using assms(2) by simp
  ultimately show ?thesis by (simp add: ethers_decodeBytes32String_def)
qed

lemma ascii_round_trip:
  assumes "ascii str" and "no_null str" and "length str \<le> 31"
  shows "ethers_encodeBytes32String str = Inr (map ucast str @ replicate (32 - length str) 0)"
    and "ethers_decodeBytes32String (map ucast str @ replicate (32 - length str) 0) = Inr str"
proof -
  show "ethers_encodeBytes32String str = Inr (map ucast str @ replicate (32 - length str) 0)"
    using assms by (simp add: ethers_encodeBytes32String_def toUtf8Bytes_ascii)
  have "list_all (\<lambda>b. b \<noteq> 0) (map ucast str :: bytes)"
    using assms(1,2) by (induction str) (simp_all add: ascii_def no_null_def ascii_byte_null)
  from decode_padded [OF this] assms(3)
  have "ethers_decodeBytes32String (map ucast str @ replicate (32 - length str) 0)
        = toUtf8String (map ucast str)" by simp
  with assms(1) show "ethers_decodeBytes32String (map ucast str @ replicate (32 - length str) 0) = Inr str"
    by (simp add: toUtf8String_ascii)
qed

lemma stringToBytes32_throws:
  assumes "encodeBytes32String l = ethers_encodeBytes32String"
  shows "(\<exists>e. stringToBytes32 l str = Inl e) \<longleftrightarrow>
           length str > 31 \<or> (\<exists>e. toUtf8Bytes str = Inl e)
           \<or> (\<exists>bs. toUtf8Bytes str = Inr bs \<and> length bs > 31)"
  by (auto simp: stringToBytes32_def assms ethers_encodeBytes32String_def split: sum.splits)

lemma example_codec:
  "encodeBytes32String example_library = ethers_encodeBytes32String"
  "decodeBytes32String example_library = ethers_decodeBytes32String"
  by (simp_all add: example_library_def)

section \<open>Well-formed strings through the bytes32 codec\<close>

text \<open>The bits of the lead bytes and of the continuation bytes.\<close>

lemma masks:
  "(0x3f :: 'a::len word) = mask 6" "(0x3ff :: 'a::len word) = mask 10"
  "(0x7 :: 'a::len word) = mask 3" "(0xf :: 'a::len word) = mask 4"  "(0x1f :: 'a::len word) = mask 5"
  "(0x80 :: 'a::len word) = push_bit 7 1"
  "(0xc0 :: 'a::len word) = push_bit 6 (mask 2)"
  "(0xe0 :: 'a::len word) = push_bit 5 (mask 3)"
  "(0xf0 :: 'a::len word) = push_bit 4 (mask 4)"
  "(0xf8 :: 'a::len word) = push_bit 3 (mask 5)"
  by (simp_all add: mask_eq_exp_minus_1 push_bit_eq_mult)

lemma bit_128:
  "bit (128 :: 'a::semiring_bit_operations) n \<longleftrightarrow> possible_bit TYPE('a) n \<and> n = 7"
proof -
  have "(128 :: 'a) = 2 ^ 7" by simp
  then show ?thesis by (simp only: bit_exp_iff)
qed

lemma upper_bits:
  fixes c :: "'a::len word"
  assumes "c < 2 ^ k" and "bit c n"
  shows "n < k"
proof -
  from assms(1) have "c AND mask k = c" by (rule less_mask_eq)
  with assms(2) have "bit (c AND mask k) n" by simp
  then show "n < k" by (simp add: bit_and_iff bit_mask_iff)
qed

lemma two_byte_lead:
  fixes c :: "16 word"
  assumes "c < 0x800"
  shows "(ucast (drop_bit 6 c OR 0xc0) :: 8 word) AND 0xe0 = 0xc0"
proof (rule bit_word_eqI)
  fix n
  assume n: "n < LENGTH(8)"
  have u: "bit c m \<Longrightarrow> m < 11" for m
    using upper_bits [of c 11 m] assms by simp
  show "bit ((ucast (drop_bit 6 c OR 0xc0) :: 8 word) AND 0xe0) n = bit (0xc0 :: 8 word) n"
    unfolding masks using n by (auto simp: bit_simps bit_128 dest: u)
qed

lemma two_byte_high:
  fixes c :: "16 word"
  shows "drop_bit 7 (ucast (drop_bit 6 c OR 0xc0) :: 8 word) \<noteq> 0"
proof
  assume "drop_bit 7 (ucast (drop_bit 6 c OR 0xc0) :: 8 word) = 0"
  then have "\<not> bit (drop_bit 7 (ucast (drop_bit 6 c OR 0xc0) :: 8 word)) 0" by simp
  then show False unfolding masks by (simp add: bit_simps bit_128)
qed

lemma continuation_byte:
  fixes x :: "'a::len word"
  assumes "8 \<le> LENGTH('a)"
  shows "(ucast ((x AND 0x3f) OR 0x80) :: 8 word) AND 0xc0 = 0x80"
proof (rule bit_word_eqI)
  fix n
  assume n: "n < LENGTH(8)"
  show "bit ((ucast ((x AND 0x3f) OR 0x80) :: 8 word) AND 0xc0) n = bit (0x80 :: 8 word) n"
    unfolding masks using n assms by (auto simp: bit_simps bit_128)
qed

lemma two_byte_value:
  fixes c :: "16 word"
  assumes "c < 0x800"
  shows "push_bit 6 ((ucast (ucast (drop_bit 6 c OR 0xc0) :: 8 word) :: 32 word) AND 0x3f)
         OR ucast ((ucast ((c AND 0x3f) OR 0x80) :: 8 word) AND 0x3f) = (ucast c :: 32 word)"
proof (rule bit_word_eqI)
  fix n
  assume n: "n < LENGTH(32)"
  have u: "bit c m \<Longrightarrow> m < 11" for m
    using upper_bits [of c 11 m] assms by simp
  show "bit (push_bit 6 ((ucast (ucast (drop_bit 6 c OR 0xc0) :: 8 word) :: 32 word) AND 0x3f)
         OR ucast ((ucast ((c AND 0x3f) OR 0x80) :: 8 word) AND 0x3f)) n = bit (ucast c :: 32 word) n"
    unfolding masks using n by (auto simp: bit_simps bit_128 dest: u)
qed

lemma three_byte_high:
  fixes c :: "16 word"
  shows "drop_bit 7 (ucast (drop_bit 12 c OR 0xe0) :: 8 word) \<noteq> 0"
proof
  assume "drop_bit 7 (ucast (drop_bit 12 c OR 0xe0) :: 8 word) = 0"
  then have "\<not> bit (drop_bit 7 (ucast (drop_bit 12 c OR 0xe0) :: 8 word)) 0" by simp
  then show False unfolding masks by (simp add: bit_simps bit_128)
qed

lemma three_byte_lead:
  fixes c :: "16 word"
  shows "(ucast (drop_bit 12 c OR 0xe0) :: 8 word) AND 0xe0 \<noteq> 0xc0"
    and "(ucast (drop_bit 12 c OR 0xe0) :: 8 word) AND 0xf0 = 0xe0"
proof -
  show "(ucast (drop_bit 12 c OR 0xe0) :: 8 word) AND 0xe0 \<noteq> 0xc0"
  proof
    assume "(ucast (drop_bit 12 c OR 0xe0) :: 8 word) AND 0xe0 = 0xc0"
    then have "bit ((ucast (drop_bit 12 c OR 0xe0) :: 8 word) AND 0xe0) 5 = bit (0xc0 :: 8 word) 5"
      by simp
    then show False unfolding masks by (simp add: bit_simps bit_128)
  qed
  have u: "bit c m \<Longrightarrow> m < 16" for m
    using bit_imp_le_length [of c m] by simp
  show "(ucast (drop_bit 12 c OR 0xe0) :: 8 word) AND 0xf0 = 0xe0"
  proof (rule bit_word_eqI)
    fix n
    assume n: "n < LENGTH(8)"
    show "bit ((ucast (drop_bit 12 c OR 0xe0) :: 8 word) AND 0xf0) n = bit (0xe0 :: 8 word) n"
      unfolding masks using n by (auto simp: bit_simps bit_128 dest: u)
  qed
qed

lemma three_byte_value:
  fixes c :: "16 word"
  shows "push_bit 6 (push_bit 6 ((ucast (ucast (drop_bit 12 c OR 0xe0) :: 8 word) :: 32 word) AND 0x1f)
                     OR ucast ((ucast ((drop_bit 6 c AND 0x3f) OR 0x80) :: 8 word) AND 0x3f))
         OR ucast ((ucast ((c AND 0x3f) OR 0x80) :: 8 word) AND 0x3f) = (ucast c :: 32 word)"
proof (rule bit_word_eqI)
  fix n
  assume n: "n < LENGTH(32)"
  have u: "bit c m \<Longrightarrow> m < 16" for m
    using bit_imp_le_length [of c m] by simp
  consider "n < 6" | "6 \<le> n" "n < 12" | "12 \<le> n" "n < 16" | "16 \<le> n" by linarith
  then show "bit (push_bit 6 (push_bit 6 ((ucast (ucast (drop_bit 12 c OR 0xe0) :: 8 word) :: 32 word) AND 0x1f)
                     OR ucast ((ucast ((drop_bit 6 c AND 0x3f) OR 0x80) :: 8 word) AND 0x3f))
         OR ucast ((ucast ((c AND 0x3f) OR 0x80) :: 8 word) AND 0x3f)) n = bit (ucast c :: 32 word) n"
  proof cases
    case 1
    then show ?thesis unfolding masks using n by (auto simp add: bit_simps bit_128)
  next
    case 2
    then show ?thesis unfolding masks using n by (auto simp add: bit_simps bit_128)
  next
    case 3
    then show ?thesis unfolding masks using n by (auto simp add: bit_simps bit_128)
  next
    case 4
    then show ?thesis unfolding masks using n u [of n] by (auto simp add: bit_simps bit_128)
  qed
qed

lemma four_byte_high:
  fixes p :: "32 word"
  shows "drop_bit 7 (ucast (drop_bit 18 p OR 0xf0) :: 8 word) \<noteq> 0"
proof
  assume "drop_bit 7 (ucast (drop_bit 18 p OR 0xf0) :: 8 word) = 0"
  then have "\<not> bit (drop_bit 7 (ucast (drop_bit 18 p OR 0xf0) :: 8 word)) 0" by simp
  then show False unfolding masks by (simp add: bit_simps bit_128)
qed

lemma four_byte_lead:
  fixes p :: "32 word"
  assumes "p < 2 ^ 21"
  shows "(ucast (drop_bit 18 p OR 0xf0) :: 8 word) AND 0xe0 \<noteq> 0xc0"
    and "(ucast (drop_bit 18 p OR 0xf0) :: 8 word) AND 0xf0 \<noteq> 0xe0"
    and "(ucast (drop_bit 18 p OR 0xf0) :: 8 word) AND 0xf8 = 0xf0"
proof -
  show "(ucast (drop_bit 18 p OR 0xf0) :: 8 word) AND 0xe0 \<noteq> 0xc0"
  proof
    assume "(ucast (drop_bit 18 p OR 0xf0) :: 8 word) AND 0xe0 = 0xc0"
    then have "bit ((ucast (drop_bit 18 p OR 0xf0) :: 8 word) AND 0xe0) 5 = bit (0xc0 :: 8 word) 5"
      by simp
    then show False unfolding masks by (simp add: bit_simps bit_128)
  qed
  show "(ucast (drop_bit 18 p OR 0xf0) :: 8 word) AND 0xf0 \<noteq> 0xe0"
  proof
    assume "(ucast (drop_bit 18 p OR 0xf0) :: 8 word) AND 0xf0 = 0xe0"
    then have "bit ((ucast (drop_bit 18 p OR 0xf0) :: 8 word) AND 0xf0) 4 = bit (0xe0 :: 8 word) 4"
      by simp
    then show False unfolding masks by (simp add: bit_simps bit_128)
  qed
  have u: "bit p m \<Longrightarrow> m < 21" for m
    using upper_bits [of p 21 m] assms by simp
  show "(ucast (drop_bit 18 p OR 0xf0) :: 8 word) AND 0xf8 = 0xf0"
  proof (rule bit_word_eqI)
    fix n
    assume n: "n < LENGTH(8)"
    show "bit ((ucast (drop_bit 18 p OR 0xf0) :: 8 word) AND 0xf8) n = bit (0xf0 :: 8 word) n"
      unfolding masks using n by (auto simp: bit_simps bit_128 dest: u)
  qed
qed

lemma four_byte_value:
  fixes p :: "32 word"
  assumes "p < 2 ^ 21"
  shows "push_bit 6 (push_bit 6 (push_bit 6
            ((ucast (ucast (drop_bit 18 p OR 0xf0) :: 8 word) :: 32 word) AND 0xf)
            OR ucast ((ucast ((drop_bit 12 p AND 0x3f) OR 0x80) :: 8 word) AND 0x3f))
          OR ucast ((ucast ((drop_bit 6 p AND 0x3f) OR 0x80) :: 8 word) AND 0x3f))
         OR ucast ((ucast ((p AND 0x3f) OR 0x80) :: 8 word) AND 0x3f) = p"
    (is "?d = p")
proof (rule bit_word_eqI)
  fix n
  assume n: "n < LENGTH(32)"
  have u: "bit p m \<Longrightarrow> m < 21" for m
    using upper_bits [of p 21 m] assms by simp
  consider "n < 6" | "6 \<le> n" "n < 12" | "12 \<le> n" "n < 18" | "18 \<le> n" "n < 21" | "21 \<le> n"
    by linarith
  then show "bit ?d n = bit p n"
  proof cases
    case 1
    then show ?thesis unfolding masks using n by (auto simp add: bit_simps bit_128)
  next
    case 2
    then show ?thesis unfolding masks using n by (auto simp add: bit_simps bit_128)
  next
    case 3
    then show ?thesis unfolding masks using n by (auto simp add: bit_simps bit_128)
  next
    case 4
    then show ?thesis unfolding masks using n by (auto simp add: bit_simps bit_128)
  next
    case 5
    then show ?thesis unfolding masks using n u [of n] by (auto simp add: bit_simps bit_128)
  qed
qed

text \<open>Surrogates, as numbers.\<close>

lemma unat_unit_to_point: "unat (ucast (c :: 16 word) :: 32 word) = unat c"
proof -
  have "unat c < 2 ^ LENGTH(16)" by (rule unsigned_less)
  then have "unat c < 2 ^ LENGTH(32)" by simp
  then have "take_bit LENGTH(32) (unat c) = unat c" by (rule take_bit_nat_eq_self)
  then show ?thesis by (simp only: unsigned_ucast_eq)
qed

lemma unat_low10:
  fixes x :: "16 word" and y :: "32 word"
  shows "unat (x AND 0x3ff) = unat x mod 1024" and "unat (y AND 0x3ff) = unat y mod 1024"
proof -
  have "x AND 0x3ff = take_bit 10 x" by (simp only: masks take_bit_eq_mask)
  then show "unat (x AND 0x3ff) = unat x mod 1024"
    by (simp add: take_bit_eq_mod unat_mod)
  have "y AND 0x3ff = take_bit 10 y" by (simp only: masks take_bit_eq_mask)
  then show "unat (y AND 0x3ff) = unat y mod 1024"
    by (simp add: take_bit_eq_mod unat_mod)
qed

lemma unat_unit_less: "unat (c :: 16 word) < 65536"
  using unsigned_less [of c, where ?'a = nat] by simp

lemma high6:
  fixes c :: "16 word"
  shows "c AND 0xfc00 = push_bit 10 (drop_bit 10 c)"
proof (rule bit_word_eqI)
  fix n
  assume n: "n < LENGTH(16)"
  have m: "(0xfc00 :: 16 word) = push_bit 10 (mask 6)"
    by (simp add: mask_eq_exp_minus_1 push_bit_eq_mult)
  show "bit (c AND 0xfc00) n = bit (push_bit 10 (drop_bit 10 c)) n"
    unfolding m using n by (auto simp: bit_simps)
qed

lemma unat_high6:
  fixes c :: "16 word"
  shows "unat (c AND 0xfc00) = 1024 * (unat c div 1024)"
proof -
  have "unat (push_bit 10 (drop_bit 10 c) :: 16 word)
        = take_bit 16 (push_bit 10 (unat c div 1024))"
    by (simp add: unsigned_push_bit_eq drop_bit_eq_div unat_div)
  also have "\<dots> = (1024 * (unat c div 1024)) mod 65536"
    by (simp add: take_bit_eq_mod push_bit_eq_mult mult.commute)
  also have "\<dots> = 1024 * (unat c div 1024)"
    using unat_unit_less [of c] by simp
  finally show ?thesis by (simp only: high6)
qed

lemma high_surrogate: "(c :: 16 word) AND 0xfc00 = 0xd800 \<longleftrightarrow> unat c div 1024 = 54"
proof -
  have "c AND 0xfc00 = 0xd800 \<longleftrightarrow> unat (c AND 0xfc00) = unat (0xd800 :: 16 word)"
    by (simp only: word_unat_eq_iff)
  then show ?thesis by (simp add: unat_high6)
qed

lemma low_surrogate: "(c :: 16 word) AND 0xfc00 = 0xdc00 \<longleftrightarrow> unat c div 1024 = 55"
proof -
  have "c AND 0xfc00 = 0xdc00 \<longleftrightarrow> unat (c AND 0xfc00) = unat (0xdc00 :: 16 word)"
    by (simp only: word_unat_eq_iff)
  then show ?thesis by (simp add: unat_high6)
qed

lemma unat_pair:
  "unat (surrogate_pair c c2) = 65536 + 1024 * (unat c mod 1024) + unat c2 mod 1024"
proof -
  let ?h = "ucast (c AND 0x3ff) :: 32 word"
  let ?l = "ucast (c2 AND 0x3ff) :: 32 word"
  have h: "unat ?h = unat c mod 1024" and l: "unat ?l = unat c2 mod 1024"
    by (simp_all only: unat_unit_to_point unat_low10)
  have "unat (push_bit 10 ?h) = take_bit 32 (push_bit 10 (unat ?h))"
    by (simp add: unsigned_push_bit_eq)
  also have "\<dots> = (1024 * (unat c mod 1024)) mod 4294967296"
    by (simp only: h) (simp add: take_bit_eq_mod push_bit_eq_mult mult.commute)
  also have "\<dots> = 1024 * (unat c mod 1024)"
    by simp
  finally have p: "unat (push_bit 10 ?h) = 1024 * (unat c mod 1024)" .
  have a: "unat ((0x10000 :: 32 word) + push_bit 10 ?h) = 65536 + 1024 * (unat c mod 1024)"
  proof -
    have "unat (0x10000 :: 32 word) + unat (push_bit 10 ?h) < 2 ^ LENGTH(32)"
      by (simp only: p) simp
    then have "unat ((0x10000 :: 32 word) + push_bit 10 ?h)
               = unat (0x10000 :: 32 word) + unat (push_bit 10 ?h)"
      by (simp only: unat_add_lem)
    then show ?thesis by (simp only: p) simp
  qed
  have "unat ((0x10000 :: 32 word) + push_bit 10 ?h) + unat ?l < 2 ^ LENGTH(32)"
    by (simp only: a l) simp
  then have "unat ((0x10000 :: 32 word) + push_bit 10 ?h + ?l)
             = unat ((0x10000 :: 32 word) + push_bit 10 ?h) + unat ?l"
    by (simp only: unat_add_lem)
  then show ?thesis by (simp only: surrogate_pair_def a l)
qed

lemma pair_bounds:
  shows "surrogate_pair c c2 < 2 ^ 21"
    and "\<not> surrogate_pair c c2 > 0x10ffff"
    and "\<not> (0xd800 \<le> surrogate_pair c c2 \<and> surrogate_pair c c2 \<le> 0xdfff)"
    and "\<not> surrogate_pair c c2 \<le> 0xffff"
    and "0x10000 \<le> surrogate_pair c c2"
proof -
  have h: "unat c mod 1024 < 1024" and l: "unat c2 mod 1024 < 1024" by simp_all
  show "surrogate_pair c c2 < 2 ^ 21"
    using h l by (simp add: word_less_nat_alt unat_pair)
  show "\<not> surrogate_pair c c2 > 0x10ffff"
    using h l by (simp add: word_less_nat_alt unat_pair)
  show "\<not> (0xd800 \<le> surrogate_pair c c2 \<and> surrogate_pair c c2 \<le> 0xdfff)"
    by (simp add: word_le_nat_alt unat_pair)
  show "\<not> surrogate_pair c c2 \<le> 0xffff"
    by (simp add: word_le_nat_alt unat_pair)
  show "0x10000 \<le> surrogate_pair c c2"
    by (simp add: word_le_nat_alt unat_pair)
qed

lemma pair_units:
  assumes "c AND 0xfc00 = 0xd800" and "c2 AND 0xfc00 = 0xdc00"
  shows "(ucast ((drop_bit 10 (surrogate_pair c c2 - 0x10000) AND 0x3ff) + 0xd800) :: 16 word) = c"
    and "(ucast (((surrogate_pair c c2 - 0x10000) AND 0x3ff) + 0xdc00) :: 16 word) = c2"
proof -
  let ?p = "surrogate_pair c c2"
  let ?h = "unat c mod 1024" and ?l = "unat c2 mod 1024"
  have hl: "?h < 1024" "?l < 1024" by simp_all
  have dc: "unat c div 1024 = 54" using assms(1) by (simp only: high_surrogate)
  have "unat c = 1024 * (unat c div 1024) + ?h" by (simp only: mult_div_mod_eq)
  then have c: "unat c = 55296 + ?h" by (simp add: dc)
  have dc2: "unat c2 div 1024 = 55" using assms(2) by (simp only: low_surrogate)
  have "unat c2 = 1024 * (unat c2 div 1024) + ?l" by (simp only: mult_div_mod_eq)
  then have c2: "unat c2 = 56320 + ?l" by (simp add: dc2)
  have d: "unat (?p - 0x10000) = 1024 * ?h + ?l"
    by (simp add: unat_sub [OF pair_bounds(5)] unat_pair)
  have hi: "unat (drop_bit 10 (?p - 0x10000) AND 0x3ff) = ?h"
    using hl by (simp add: unat_low10 drop_bit_eq_div unat_div d)
  have lo: "unat ((?p - 0x10000) AND 0x3ff) = ?l"
    using hl by (simp add: unat_low10 d)
  have "unat (drop_bit 10 (?p - 0x10000) AND 0x3ff) + unat (0xd800 :: 32 word) < 2 ^ LENGTH(32)"
    using hl by (simp only: hi) simp
  then have "unat ((drop_bit 10 (?p - 0x10000) AND 0x3ff) + 0xd800)
             = unat (drop_bit 10 (?p - 0x10000) AND 0x3ff) + unat (0xd800 :: 32 word)"
    by (simp only: unat_add_lem)
  then have 1: "unat ((drop_bit 10 (?p - 0x10000) AND 0x3ff) + 0xd800) = 55296 + ?h"
    by (simp only: hi) simp
  then have "unat (ucast ((drop_bit 10 (?p - 0x10000) AND 0x3ff) + 0xd800) :: 16 word) = 55296 + ?h"
    using hl by (simp add: unat_point_to_unit)
  then have "unat (ucast ((drop_bit 10 (?p - 0x10000) AND 0x3ff) + 0xd800) :: 16 word) = unat c"
    by (rule trans [OF _ c [symmetric]])
  then show "(ucast ((drop_bit 10 (?p - 0x10000) AND 0x3ff) + 0xd800) :: 16 word) = c"
    by (simp only: word_unat_eq_iff)
  have "unat ((?p - 0x10000) AND 0x3ff) + unat (0xdc00 :: 32 word) < 2 ^ LENGTH(32)"
    using hl by (simp only: lo) simp
  then have "unat (((?p - 0x10000) AND 0x3ff) + 0xdc00)
             = unat ((?p - 0x10000) AND 0x3ff) + unat (0xdc00 :: 32 word)"
    by (simp only: unat_add_lem)
  then have 2: "unat (((?p - 0x10000) AND 0x3ff) + 0xdc00) = 56320 + ?l"
    by (simp only: lo) simp
  then have "unat (ucast (((?p - 0x10000) AND 0x3ff) + 0xdc00) :: 16 word) = 56320 + ?l"
    using hl by (simp add: unat_point_to_unit)
  then have "unat (ucast (((?p - 0x10000) AND 0x3ff) + 0xdc00) :: 16 word) = unat c2"
    by (rule trans [OF _ c2 [symmetric]])
  then show "(ucast (((?p - 0x10000) AND 0x3ff) + 0xdc00) :: 16 word) = c2"
    by (simp only: word_unat_eq_iff)
qed

text \<open>The checks that the decoder makes on a code point of two or three bytes.\<close>

lemma unit_point_checks:
  fixes c :: "16 word"
  shows "\<not> (ucast c :: 32 word) > 0x10ffff" and "(ucast c :: 32 word) \<le> 0xffff"
    and "(ucast (ucast c :: 32 word) :: 16 word) = c"
proof -
  show "\<not> (ucast c :: 32 word) > 0x10ffff"
    using unat_unit_less [of c] by (simp add: word_less_nat_alt unat_unit_to_point)
  show "(ucast c :: 32 word) \<le> 0xffff"
    using unat_unit_less [of c] by (simp add: word_le_nat_alt unat_unit_to_point)
  have "unat (ucast (ucast c :: 32 word) :: 16 word) = unat c"
    using unat_unit_less [of c] by (simp add: unat_point_to_unit unat_unit_to_point)
  then show "(ucast (ucast c :: 32 word) :: 16 word) = c"
    by (simp only: word_unat_eq_iff)
qed

lemma not_surrogate_point:
  fixes c :: "16 word"
  assumes "c AND 0xfc00 \<noteq> 0xd800" and "c AND 0xfc00 \<noteq> 0xdc00"
  shows "\<not> (0xd800 \<le> (ucast c :: 32 word) \<and> (ucast c :: 32 word) \<le> 0xdfff)"
  using assms by (auto simp add: word_le_nat_alt unat_unit_to_point high_surrogate low_surrogate)

lemma small_surrogate_free:
  fixes c :: "16 word"
  assumes "c < 0x800"
  shows "\<not> (0xd800 \<le> (ucast c :: 32 word) \<and> (ucast c :: 32 word) \<le> 0xdfff)"
  using assms by (simp add: word_le_nat_alt word_less_nat_alt unat_unit_to_point)

lemma overlong_checks:
  fixes c :: "16 word"
  shows "\<not> c < 0x80 \<Longrightarrow> \<not> (ucast c :: 32 word) \<le> 0x7f"
    and "\<not> c < 0x800 \<Longrightarrow> \<not> (ucast c :: 32 word) \<le> 0x7ff"
  by (simp_all add: word_le_nat_alt word_less_nat_alt unat_unit_to_point)

text \<open>What \<open>getUtf8CodePoints\<close> reads back from the bytes of one character.\<close>

lemma lead_masks:
  "(push_bit (8 - 1 - 1) 1 - 1 :: 32 word) = 0x3f"
  "(push_bit (8 - 2 - 1) 1 - 1 :: 32 word) = 0x1f"
  "(push_bit (8 - 3 - 1) 1 - 1 :: 32 word) = 0xf"
  by simp_all

lemma two_byte_step:
  fixes c :: "16 word"
  assumes "\<not> c < 0x80" and "c < 0x800"
  shows "getUtf8CodePoints (ucast (drop_bit 6 c OR 0xc0) # ucast ((c AND 0x3f) OR 0x80) # bs)
         = (case getUtf8CodePoints bs of Inl e \<Rightarrow> Inl e | Inr ps \<Rightarrow> Inr (ucast c # ps))"
proof -
  define b0 :: "8 word" where "b0 = ucast (drop_bit 6 c OR 0xc0)"
  define b1 :: "8 word" where "b1 = ucast ((c AND 0x3f) OR 0x80)"
  have h: "drop_bit 7 b0 \<noteq> 0" unfolding b0_def by (rule two_byte_high)
  have l: "lead_byte b0 = Some (1, 0x7f)"
    unfolding b0_def lead_byte_def by (simp only: two_byte_lead [OF assms(2)] simp_thms if_True)
  have k1: "b1 AND 0xc0 = 0x80" unfolding b1_def by (rule continuation_byte) simp
  have v: "push_bit 6 (ucast b0 AND 0x3f) OR ucast (b1 AND 0x3f) = (ucast c :: 32 word)"
    unfolding b0_def b1_def by (rule two_byte_value [OF assms(2)])
  have k: "continuation (ucast b0 AND 0x3f) [b1] = Some (ucast c)"
    by (simp only: continuation.simps k1 v) simp
  have t: "take 1 (b1 # bs) = [b1]" "drop 1 (b1 # bs) = bs" "\<not> length (b1 # bs) < 1"
    by simp_all
  have "getUtf8CodePoints (b0 # b1 # bs)
        = (case getUtf8CodePoints bs of Inl e \<Rightarrow> Inl e | Inr ps \<Rightarrow> Inr (ucast c # ps))"
    by (simp only: getUtf8CodePoints.simps(2) [of b0] h l t k lead_masks if_False
          option.case prod.case unit_point_checks(1) [of c]
          small_surrogate_free [OF assms(2)] overlong_checks(1) [OF assms(1)])
  then show ?thesis unfolding b0_def b1_def .
qed

lemma three_byte_step:
  fixes c :: "16 word"
  assumes "\<not> c < 0x800" and "c AND 0xfc00 \<noteq> 0xd800" and "c AND 0xfc00 \<noteq> 0xdc00"
  shows "getUtf8CodePoints (ucast (drop_bit 12 c OR 0xe0) # ucast ((drop_bit 6 c AND 0x3f) OR 0x80)
                            # ucast ((c AND 0x3f) OR 0x80) # bs)
         = (case getUtf8CodePoints bs of Inl e \<Rightarrow> Inl e | Inr ps \<Rightarrow> Inr (ucast c # ps))"
proof -
  define b0 :: "8 word" where "b0 = ucast (drop_bit 12 c OR 0xe0)"
  define b1 :: "8 word" where "b1 = ucast ((drop_bit 6 c AND 0x3f) OR 0x80)"
  define b2 :: "8 word" where "b2 = ucast ((c AND 0x3f) OR 0x80)"
  have h: "drop_bit 7 b0 \<noteq> 0" unfolding b0_def by (rule three_byte_high)
  have l: "lead_byte b0 = Some (2, 0x7ff)"
    unfolding b0_def lead_byte_def
    by (simp only: three_byte_lead [of c] simp_thms if_True if_False)
  have k1: "b1 AND 0xc0 = 0x80" unfolding b1_def by (rule continuation_byte) simp
  have k2: "b2 AND 0xc0 = 0x80" unfolding b2_def by (rule continuation_byte) simp
  have v: "push_bit 6 (push_bit 6 (ucast b0 AND 0x1f) OR ucast (b1 AND 0x3f)) OR ucast (b2 AND 0x3f)
           = (ucast c :: 32 word)"
    unfolding b0_def b1_def b2_def by (rule three_byte_value)
  have k: "continuation (ucast b0 AND 0x1f) [b1, b2] = Some (ucast c)"
    by (simp only: continuation.simps k1 k2 v) simp
  have t: "take 2 (b1 # b2 # bs) = [b1, b2]" "drop 2 (b1 # b2 # bs) = bs"
    "\<not> length (b1 # b2 # bs) < 2"
    by simp_all
  have "getUtf8CodePoints (b0 # b1 # b2 # bs)
        = (case getUtf8CodePoints bs of Inl e \<Rightarrow> Inl e | Inr ps \<Rightarrow> Inr (ucast c # ps))"
    by (simp only: getUtf8CodePoints.simps(2) [of b0] h l t k lead_masks if_False
          option.case prod.case unit_point_checks(1) [of c]
          not_surrogate_point [OF assms(2,3)] overlong_checks(2) [OF assms(1)])
  then show ?thesis unfolding b0_def b1_def b2_def .
qed

lemma four_byte_step:
  fixes p :: "32 word"
  assumes "p < 2 ^ 21" and "\<not> p > 0x10ffff" and "\<not> (0xd800 \<le> p \<and> p \<le> 0xdfff)"
    and "\<not> p \<le> 0xffff"
  shows "getUtf8CodePoints (ucast (drop_bit 18 p OR 0xf0) # ucast ((drop_bit 12 p AND 0x3f) OR 0x80)
                            # ucast ((drop_bit 6 p AND 0x3f) OR 0x80)
                            # ucast ((p AND 0x3f) OR 0x80) # bs)
         = (case getUtf8CodePoints bs of Inl e \<Rightarrow> Inl e | Inr ps \<Rightarrow> Inr (p # ps))"
proof -
  define b0 :: "8 word" where "b0 = ucast (drop_bit 18 p OR 0xf0)"
  define b1 :: "8 word" where "b1 = ucast ((drop_bit 12 p AND 0x3f) OR 0x80)"
  define b2 :: "8 word" where "b2 = ucast ((drop_bit 6 p AND 0x3f) OR 0x80)"
  define b3 :: "8 word" where "b3 = ucast ((p AND 0x3f) OR 0x80)"
  have h: "drop_bit 7 b0 \<noteq> 0" unfolding b0_def by (rule four_byte_high)
  have l: "lead_byte b0 = Some (3, 0xffff)"
    unfolding b0_def lead_byte_def
    by (simp only: four_byte_lead [OF assms(1)] simp_thms if_True if_False)
  have k1: "b1 AND 0xc0 = 0x80" unfolding b1_def by (rule continuation_byte) simp
  have k2: "b2 AND 0xc0 = 0x80" unfolding b2_def by (rule continuation_byte) simp
  have k3: "b3 AND 0xc0 = 0x80" unfolding b3_def by (rule continuation_byte) simp
  have v: "push_bit 6 (push_bit 6 (push_bit 6 (ucast b0 AND 0xf) OR ucast (b1 AND 0x3f))
                       OR ucast (b2 AND 0x3f)) OR ucast (b3 AND 0x3f) = p"
    unfolding b0_def b1_def b2_def b3_def by (rule four_byte_value [OF assms(1)])
  have k: "continuation (ucast b0 AND 0xf) [b1, b2, b3] = Some p"
    by (simp only: continuation.simps k1 k2 k3 v) simp
  have t: "take 3 (b1 # b2 # b3 # bs) = [b1, b2, b3]" "drop 3 (b1 # b2 # b3 # bs) = bs"
    "\<not> length (b1 # b2 # b3 # bs) < 3"
    by simp_all
  have "getUtf8CodePoints (b0 # b1 # b2 # b3 # bs)
        = (case getUtf8CodePoints bs of Inl e \<Rightarrow> Inl e | Inr ps \<Rightarrow> Inr (p # ps))"
    by (simp only: getUtf8CodePoints.simps(2) [of b0] h l t k lead_masks if_False
          option.case prod.case assms(2,3,4))
  then show ?thesis unfolding b0_def b1_def b2_def b3_def .
qed

text \<open>Decoding undoes encoding on a string without unpaired surrogates.\<close>

lemma small_not_surrogate:
  fixes c :: "16 word"
  assumes "c < 0x800"
  shows "c AND 0xfc00 \<noteq> 0xd800" and "c AND 0xfc00 \<noteq> 0xdc00"
  using assms by (simp_all add: high_surrogate low_surrogate word_less_nat_alt)

lemma one_byte_step:
  fixes c :: "16 word"
  assumes "c < 0x80"
  shows "getUtf8CodePoints (ucast c # bs)
         = (case getUtf8CodePoints bs of Inl e \<Rightarrow> Inl e | Inr ps \<Rightarrow> Inr (ucast c # ps))"
proof -
  have "unat (ucast (ucast c :: 8 word) :: 32 word) = unat (ucast c :: 32 word)"
    by (simp only: unat_byte_to_point ascii_byte_unat(1) [OF assms] unat_unit_to_point)
  then have "(ucast (ucast c :: 8 word) :: 32 word) = ucast c"
    by (simp only: word_unat_eq_iff)
  then show ?thesis
    by (simp only: getUtf8CodePoints.simps(2) ascii_byte_high_bit [OF assms] simp_thms if_True)
qed

lemma unit_step:
  "fromCodePoints (ucast (c :: 16 word) # ps) = c # fromCodePoints ps"
  by (simp only: fromCodePoints.simps unit_point_checks(2,3) if_True)

lemma pair_step:
  assumes "c AND 0xfc00 = 0xd800" and "c2 AND 0xfc00 = 0xdc00"
  shows "fromCodePoints (surrogate_pair c c2 # ps) = c # c2 # fromCodePoints ps"
  by (simp only: fromCodePoints.simps pair_bounds(4) pair_units [OF assms] if_False)

lemma utf8_points:
  "well_formed s \<Longrightarrow> toUtf8Bytes s = Inr bs \<Longrightarrow>
   \<exists>ps. getUtf8CodePoints bs = Inr ps \<and> fromCodePoints ps = s"
proof (induction s arbitrary: bs rule: toUtf8Bytes.induct)
  case 1
  then show ?case by simp
next
  case (2 c cs)
  consider (one) "c < 0x80" | (two) "\<not> c < 0x80" "c < 0x800"
    | (four) "\<not> c < 0x800" "c AND 0xfc00 = 0xd800"
    | (three) "\<not> c < 0x800" "c AND 0xfc00 \<noteq> 0xd800"
    by blast
  then show ?case
  proof cases
    case one
    then have "c < 0x800" by (simp add: word_less_nat_alt)
    then have n: "c AND 0xfc00 \<noteq> 0xd800" by (simp add: small_not_surrogate)
    from "2.prems"(2) one obtain bs' where e: "toUtf8Bytes cs = Inr bs'" and b: "bs = ucast c # bs'"
      by (auto split: sum.splits)
    from "2.prems"(1) n have "well_formed cs" by simp
    from "2.IH"(1) [OF one this e] obtain ps
      where p: "getUtf8CodePoints bs' = Inr ps" "fromCodePoints ps = cs" by blast
    have "getUtf8CodePoints bs = Inr (ucast c # ps)"
      by (simp only: b one_byte_step [OF one] p sum.case)
    moreover have "fromCodePoints (ucast c # ps) = c # cs"
      by (simp only: unit_step p)
    ultimately show ?thesis by blast
  next
    case two
    then have n: "c AND 0xfc00 \<noteq> 0xd800" by (simp add: small_not_surrogate)
    from "2.prems"(2) two obtain bs' where e: "toUtf8Bytes cs = Inr bs'"
      and b: "bs = ucast (drop_bit 6 c OR 0xc0) # ucast ((c AND 0x3f) OR 0x80) # bs'"
      by (auto split: sum.splits)
    from "2.prems"(1) n have "well_formed cs" by simp
    from "2.IH"(2) [OF two this e] obtain ps
      where p: "getUtf8CodePoints bs' = Inr ps" "fromCodePoints ps = cs" by blast
    have "getUtf8CodePoints bs = Inr (ucast c # ps)"
      by (simp only: b two_byte_step [OF two] p sum.case)
    moreover have "fromCodePoints (ucast c # ps) = c # cs"
      by (simp only: unit_step p)
    ultimately show ?thesis by blast
  next
    case three
    from three(1) have s: "\<not> c < 0x80" by (simp add: word_less_nat_alt)
    from "2.prems"(2) three s obtain bs' where e: "toUtf8Bytes cs = Inr bs'"
      and b: "bs = ucast (drop_bit 12 c OR 0xe0) # ucast ((drop_bit 6 c AND 0x3f) OR 0x80)
                   # ucast ((c AND 0x3f) OR 0x80) # bs'"
      by (auto split: sum.splits)
    from "2.prems"(1) three have w: "c AND 0xfc00 \<noteq> 0xdc00" "well_formed cs" by simp_all
    from "2.IH"(4) [OF s three w(2) e] obtain ps
      where p: "getUtf8CodePoints bs' = Inr ps" "fromCodePoints ps = cs" by blast
    have "getUtf8CodePoints bs = Inr (ucast c # ps)"
      by (simp only: b three_byte_step [OF three w(1)] p sum.case)
    moreover have "fromCodePoints (ucast c # ps) = c # cs"
      by (simp only: unit_step p)
    ultimately show ?thesis by blast
  next
    case four
    from four(1) have s: "\<not> c < 0x80" by (simp add: word_less_nat_alt)
    from "2.prems"(1) four obtain c2 cs' where cs: "cs = c2 # cs'"
      and l: "c2 AND 0xfc00 = 0xdc00" and w: "well_formed cs'"
      by (auto split: list.splits)
    let ?p = "surrogate_pair c c2"
    from "2.prems"(2) four s cs l obtain bs' where e: "toUtf8Bytes cs' = Inr bs'"
      and b: "bs = ucast (drop_bit 18 ?p OR 0xf0) # ucast ((drop_bit 12 ?p AND 0x3f) OR 0x80)
                   # ucast ((drop_bit 6 ?p AND 0x3f) OR 0x80) # ucast ((?p AND 0x3f) OR 0x80) # bs'"
      by (auto split: sum.splits)
    from "2.IH"(3) [OF s four cs l w e] obtain ps
      where p: "getUtf8CodePoints bs' = Inr ps" "fromCodePoints ps = cs'" by blast
    have "getUtf8CodePoints bs = Inr (?p # ps)"
      by (simp only: b four_byte_step [OF pair_bounds(1,2,3,4)] p sum.case)
    moreover have "fromCodePoints (?p # ps) = c # cs"
      by (simp only: pair_step [OF four(2) l] p cs)
    ultimately show ?thesis by blast
  qed
qed

lemma utf8_round_trip:
  "well_formed s \<Longrightarrow> toUtf8Bytes s = Inr bs \<Longrightarrow> toUtf8String bs = Inr s"
  using utf8_points [of s bs] by (auto simp: toUtf8String_def)

text \<open>The bytes of a string without null characters are not null.\<close>

lemma high_bit_not_null: "drop_bit 7 (b :: 8 word) \<noteq> 0 \<Longrightarrow> b \<noteq> 0"
  by auto

lemma continuation_not_null: "(b :: 8 word) AND 0xc0 = 0x80 \<Longrightarrow> b \<noteq> 0"
  by auto

lemma continuation_byte_not_null:
  fixes x :: "'a::len word"
  assumes "8 \<le> LENGTH('a)"
  shows "(ucast ((x AND 0x3f) OR 0x80) :: 8 word) \<noteq> 0"
  by (rule continuation_not_null [OF continuation_byte [OF assms]])

lemma utf8_no_null:
  "no_null s \<Longrightarrow> toUtf8Bytes s = Inr bs \<Longrightarrow> list_all (\<lambda>b. b \<noteq> 0) bs"
proof (induction s arbitrary: bs rule: toUtf8Bytes.induct)
  case 1
  then show ?case by simp
next
  case (2 c cs)
  from "2.prems"(1) have z: "c \<noteq> 0" and ncs: "no_null cs" by (simp_all add: no_null_def)
  consider (one) "c < 0x80" | (two) "\<not> c < 0x80" "c < 0x800"
    | (four) "\<not> c < 0x80" "\<not> c < 0x800" "c AND 0xfc00 = 0xd800"
    | (three) "\<not> c < 0x80" "\<not> c < 0x800" "c AND 0xfc00 \<noteq> 0xd800"
    by blast
  then show ?case
  proof cases
    case one
    from "2.prems"(2) one obtain bs' where e: "toUtf8Bytes cs = Inr bs'" and b: "bs = ucast c # bs'"
      by (auto split: sum.splits)
    from "2.IH"(1) [OF one ncs e] ascii_byte_null [OF one z] show ?thesis
      by (simp only: b list.pred_inject simp_thms)
  next
    case two
    from "2.prems"(2) two obtain bs' where e: "toUtf8Bytes cs = Inr bs'"
      and b: "bs = ucast (drop_bit 6 c OR 0xc0) # ucast ((c AND 0x3f) OR 0x80) # bs'"
      by (auto split: sum.splits)
    have "(ucast (drop_bit 6 c OR 0xc0) :: 8 word) \<noteq> 0"
      by (rule high_bit_not_null [OF two_byte_high])
    moreover have "(ucast ((c AND 0x3f) OR 0x80) :: 8 word) \<noteq> 0"
      by (rule continuation_byte_not_null) simp
    ultimately show ?thesis using "2.IH"(2) [OF two ncs e]
      by (simp only: b list.pred_inject simp_thms)
  next
    case three
    from "2.prems"(2) three obtain bs' where e: "toUtf8Bytes cs = Inr bs'"
      and b: "bs = ucast (drop_bit 12 c OR 0xe0) # ucast ((drop_bit 6 c AND 0x3f) OR 0x80)
                   # ucast ((c AND 0x3f) OR 0x80) # bs'"
      by (auto split: sum.splits)
    have "(ucast (drop_bit 12 c OR 0xe0) :: 8 word) \<noteq> 0"
      by (rule high_bit_not_null [OF three_byte_high])
    moreover have "(ucast ((drop_bit 6 c AND 0x3f) OR 0x80) :: 8 word) \<noteq> 0"
      by (rule continuation_byte_not_null) simp
    moreover have "(ucast ((c AND 0x3f) OR 0x80) :: 8 word) \<noteq> 0"
      by (rule continuation_byte_not_null) simp
    ultimately show ?thesis using "2.IH"(4) [OF three ncs e]
      by (simp only: b list.pred_inject simp_thms)
  next
    case four
    from "2.prems"(2) four obtain c2 cs' where cs: "cs = c2 # cs'"
      and l: "c2 AND 0xfc00 = 0xdc00"
      by (auto split: list.splits if_splits)
    from ncs cs have ncs': "no_null cs'" by (simp add: no_null_def)
    let ?p = "surrogate_pair c c2"
    from "2.prems"(2) four cs l obtain bs' where e: "toUtf8Bytes cs' = Inr bs'"
      and b: "bs = ucast (drop_bit 18 ?p OR 0xf0) # ucast ((drop_bit 12 ?p AND 0x3f) OR 0x80)
                   # ucast ((drop_bit 6 ?p AND 0x3f) OR 0x80) # ucast ((?p AND 0x3f) OR 0x80) # bs'"
      by (auto split: sum.splits)
    have "(ucast (drop_bit 18 ?p OR 0xf0) :: 8 word) \<noteq> 0"
      by (rule high_bit_not_null [OF four_byte_high])
    moreover have "(ucast ((drop_bit 12 ?p AND 0x3f) OR 0x80) :: 8 word) \<noteq> 0"
      by (rule continuation_byte_not_null) simp
    moreover have "(ucast ((drop_bit 6 ?p AND 0x3f) OR 0x80) :: 8 word) \<noteq> 0"
      by (rule continuation_byte_not_null) simp
    moreover have "(ucast ((?p AND 0x3f) OR 0x80) :: 8 word) \<noteq> 0"
      by (rule continuation_byte_not_null) simp
    ultimately show ?thesis using "2.IH"(3) [OF four(1,2,3) cs l ncs' e]
      by (simp only: b list.pred_inject simp_thms)
  qed
qed

lemma codec_round_trip:
  assumes "well_formed s" and "no_null s" and "ethers_encodeBytes32String s = Inr b"
  shows "ethers_decodeBytes32String b = Inr s"
proof -
  from assms(3) obtain bs where e: "toUtf8Bytes s = Inr bs" and n: "length bs \<le> 31"
    and b: "b = bs @ replicate (32 - length bs) 0"
    by (auto simp: ethers_encodeBytes32String_def split: sum.splits if_splits)
  from decode_padded [OF utf8_no_null [OF assms(2) e] n] utf8_round_trip [OF assms(1) e]
  show ?thesis by (simp only: b)
qed

lemma well_formed_ascii: "ascii s \<Longrightarrow> well_formed s"
proof (induction s)
  case Nil
  show ?case by simp
next
  case (Cons c cs)
  then have "c < 0x80" and a: "ascii cs" by (simp_all add: ascii_def)
  then have "c < 0x800" by (simp add: word_less_nat_alt)
  from small_not_surrogate [OF this] Cons.IH [OF a] show ?case by simp
qed

lemma stringToBytes32_encodes:
  assumes "encodeBytes32String l = ethers_encodeBytes32String"
    and "stringToBytes32 l s = Inr b"
  shows "ethers_encodeBytes32String s = Inr b"
  using assms(2) by (simp add: stringToBytes32_def assms(1) split: if_splits)

text \<open>
  An unpaired low surrogate shows what the condition on surrogates is for: the
  encoder writes it as three bytes, which the decoder refuses.
\<close>

lemma lone_low_surrogate_does_not_return:
  "no_null [0xdc00]
   \<and> stringToBytes32 example_library [0xdc00] = Inr ([0xed, 0xb0, 0x80] @ replicate 29 0)
   \<and> bytes32ToString example_library ([0xed, 0xb0, 0x80] @ replicate 29 0)
       = Inl (External ''UTF16_SURROGATE'')"
  by code_simp

section \<open>The claims\<close>

text \<open>
  C1, as stated, fails. The example interface decodes the second entry of these two
  receipts to \<open>DepartmentAdded\<close>, with a single argument: \<open>args.deptContract\<close> is
  undefined and \<open>args[1]\<close> throws, the \<open>catch\<close> takes the exception and the loop
  goes on to the third entry. The receipts differ in that third entry only, which
  comes after the first match, and \<open>addDepartment\<close> returns its argument.
\<close>

theorem unreadable_match_is_passed_over:
  "short_logs ''0xD1'' = [log_entry ''junk'' ''b''] @ log_entry ''DepartmentAdded/1'' ''DPWH''
        # [log_entry ''DepartmentAdded'' ''0xD1'', log_entry ''DepartmentAdded'' ''0xD9'']
   \<and> short_logs ''0xD2'' = [log_entry ''junk'' ''b''] @ log_entry ''DepartmentAdded/1'' ''DPWH''
        # [log_entry ''DepartmentAdded'' ''0xD2'', log_entry ''DepartmentAdded'' ''0xD9'']
   \<and> \<not> decodes_to example_interface (js ''DepartmentAdded'') (log_entry ''junk'' ''b'')
   \<and> decodes_to example_interface (js ''DepartmentAdded'') (log_entry ''DepartmentAdded/1'' ''DPWH'')
   \<and> fst (addDepartment (example_world (short_logs ''0xD1'')) (js ''01'') (js ''Finance'')
            (js ''Office'') (js ''0x0'') False True None (Some (js ''0xDB'')) example_state)
     = Inr (with_departmentAddress (result_of (example_receipt (short_logs ''0xD1'')))
              (String (js ''0xD1'')))
   \<and> fst (addDepartment (example_world (short_logs ''0xD2'')) (js ''01'') (js ''Finance'')
            (js ''Office'') (js ''0x0'') False True None (Some (js ''0xDB'')) example_state)
     = Inr (with_departmentAddress (result_of (example_receipt (short_logs ''0xD2'')))
              (String (js ''0xD2'')))"
  by (simp add: example_addDepartment example_decodes example_parse example_reads
                short_logs_def or_read_def)


text \<open>
  C1, amended. For every list of log entries and every interface, a wrapper that
  returns hands back the argument of the first entry that the interface decodes to
  the target event and whose argument is read without an exception; a matching entry
  whose read throws is passed over like an entry that does not decode.
  \<open>submitProposal\<close> returns the \<open>tokenId\<close> argument of the first such
  \<open>ProposalSubmitted\<close> entry, \<open>addDepartment\<close> the \<open>deptContract\<close> argument (or, when
  that is falsy, argument 1) of the first such \<open>DepartmentAdded\<close> entry, \<open>addAgency\<close>
  the \<open>agencyContract\<close> argument (or argument 1) of the first such \<open>AgencyAdded\<close>
  entry. The entries \<open>post\<close> after it do not occur in the result.
\<close>

theorem first_readable_match_decides:
  "(fst (submitProposal w a uri d pk s) = Inr r1 \<longrightarrow>
    logs r1 = pre1 @ l1 # post1 \<longrightarrow>
    (\<forall>x\<in>set pre1. \<not> yields (interface_of (lib w) AgencyABI) (js ''ProposalSubmitted'')
                        (\<lambda>a. named a (js ''tokenId'')) x) \<longrightarrow>
    parseLog (interface_of (lib w) AgencyABI) (topics l1) (data l1) = Inr (Some parsed1) \<longrightarrow>
    name parsed1 = js ''ProposalSubmitted'' \<longrightarrow>
    named (args parsed1) (js ''tokenId'') = Inr v1 \<longrightarrow>
    tokenId r1 = v1)
   \<and>
   (fst (addDepartment w' c n an ao sa ad pk' da s') = Inr r2 \<longrightarrow>
    logs r2 = pre2 @ l2 # post2 \<longrightarrow>
    (\<forall>x\<in>set pre2. \<not> yields (interface_of (lib w') DBTCABI) (js ''DepartmentAdded'')
                        (read_or (js ''deptContract'')) x) \<longrightarrow>
    parseLog (interface_of (lib w') DBTCABI) (topics l2) (data l2) = Inr (Some parsed2) \<longrightarrow>
    name parsed2 = js ''DepartmentAdded'' \<longrightarrow>
    named (args parsed2) (js ''deptContract'') = Inr v2 \<longrightarrow>
    (\<not> truthy v2 \<longrightarrow> positional (args parsed2) 1 = Inr u2) \<longrightarrow>
    departmentAddress r2 = (if truthy v2 then v2 else u2))
   \<and>
   (fst (addAgency w'' dp ac nm ow pk'' s'') = Inr r3 \<longrightarrow>
    logs r3 = pre3 @ l3 # post3 \<longrightarrow>
    (\<forall>x\<in>set pre3. \<not> yields (interface_of (lib w'') DepartmentABI) (js ''AgencyAdded'')
                        (read_or (js ''agencyContract'')) x) \<longrightarrow>
    parseLog (interface_of (lib w'') DepartmentABI) (topics l3) (data l3) = Inr (Some parsed3) \<longrightarrow>
    name parsed3 = js ''AgencyAdded'' \<longrightarrow>
    named (args parsed3) (js ''agencyContract'') = Inr v3 \<longrightarrow>
    (\<not> truthy v3 \<longrightarrow> positional (args parsed3) 1 = Inr u3) \<longrightarrow>
    agencyAddress r3 = (if truthy v3 then v3 else u3))"
proof (intro conjI impI)
  assume "fst (submitProposal w a uri d pk s) = Inr r1"
  then have "submitProposal w a uri d pk s = (Inr r1, snd (submitProposal w a uri d pk s))"
    by (metis prod.collapse)
  then have "tokenId r1 =
      first_event (interface_of (lib w) AgencyABI) (js ''ProposalSubmitted'')
        (\<lambda>a. named a (js ''tokenId'')) (BigInt 0) (logs r1)"
    by (simp add: submitProposal_tokenId submitProposal_extract_first)
  moreover assume "logs r1 = pre1 @ l1 # post1"
    "\<forall>x\<in>set pre1. \<not> yields (interface_of (lib w) AgencyABI) (js ''ProposalSubmitted'')
                        (\<lambda>a. named a (js ''tokenId'')) x"
    "parseLog (interface_of (lib w) AgencyABI) (topics l1) (data l1) = Inr (Some parsed1)"
    "name parsed1 = js ''ProposalSubmitted''"
    "named (args parsed1) (js ''tokenId'') = Inr v1"
  ultimately show "tokenId r1 = v1"
    by (simp add: first_event_first_match)
next
  assume "fst (addDepartment w' c n an ao sa ad pk' da s') = Inr r2"
  then have "addDepartment w' c n an ao sa ad pk' da s'
             = (Inr r2, snd (addDepartment w' c n an ao sa ad pk' da s'))"
    by (metis prod.collapse)
  then have r: "departmentAddress r2 =
      first_event (interface_of (lib w') DBTCABI) (js ''DepartmentAdded'')
        (read_or (js ''deptContract'')) (String []) (logs r2)"
    by (simp add: addDepartment_departmentAddress addDepartment_extract_first)
  assume "named (args parsed2) (js ''deptContract'') = Inr v2"
    "\<not> truthy v2 \<longrightarrow> positional (args parsed2) 1 = Inr u2"
  then have "read_or (js ''deptContract'') (args parsed2) = Inr (if truthy v2 then v2 else u2)"
    by (simp add: read_or_def or_read_def)
  moreover assume "logs r2 = pre2 @ l2 # post2"
    "\<forall>x\<in>set pre2. \<not> yields (interface_of (lib w') DBTCABI) (js ''DepartmentAdded'')
                        (read_or (js ''deptContract'')) x"
    "parseLog (interface_of (lib w') DBTCABI) (topics l2) (data l2) = Inr (Some parsed2)"
    "name parsed2 = js ''DepartmentAdded''"
  ultimately show "departmentAddress r2 = (if truthy v2 then v2 else u2)"
    using r by (simp only: first_event_first_match)
next
  assume "fst (addAgency w'' dp ac nm ow pk'' s'') = Inr r3"
  then have "addAgency w'' dp ac nm ow pk'' s''
             = (Inr r3, snd (addAgency w'' dp ac nm ow pk'' s''))"
    by (metis prod.collapse)
  then have r: "agencyAddress r3 =
      first_event (interface_of (lib w'') DepartmentABI) (js ''AgencyAdded'')
        (read_or (js ''agencyContract'')) (String []) (logs r3)"
    by (simp add: addAgency_agencyAddress addAgency_extract_first)
  assume "named (args parsed3) (js ''agencyContract'') = Inr v3"
    "\<not> truthy v3 \<longrightarrow> positional (args parsed3) 1 = Inr u3"
  then have "read_or (js ''agencyContract'') (args parsed3) = Inr (if truthy v3 then v3 else u3)"
    by (simp add: read_or_def or_read_def)
  moreover assume "logs r3 = pre3 @ l3 # post3"
    "\<forall>x\<in>set pre3. \<not> yields (interface_of (lib w'') DepartmentABI) (js ''AgencyAdded'')
                        (read_or (js ''agencyContract'')) x"
    "parseLog (interface_of (lib w'') DepartmentABI) (topics l3) (data l3) = Inr (Some parsed3)"
    "name parsed3 = js ''AgencyAdded''"
  ultimately show "agencyAddress r3 = (if truthy v3 then v3 else u3)"
    using r by (simp only: first_event_first_match)
qed

text \<open>
  C1, amended, at three receipts: the second \<open>ProposalSubmitted\<close> entry is ignored;
  the \<open>DepartmentAdded\<close> entry with a single argument is passed over and the entry
  after it decides; the \<open>AgencyAdded\<close> entry has no argument of the expected name and
  is read by position.
\<close>

theorem first_readable_match_decides_witness:
  "fst (submitProposal (example_world proposal_logs) (js ''0xA'') (js ''ipfs://x'')
          example_proposal None example_state)
     = Inr (with_tokenId (result_of (example_receipt proposal_logs)) (BigInt 7))
   \<and> proposal_logs = [log_entry ''Transfer'' ''a'', log_entry ''junk'' ''b'']
        @ log_entry ''ProposalSubmitted'' ''1234567'' # [log_entry ''ProposalSubmitted'' ''12'']
   \<and> \<not> yields example_interface (js ''ProposalSubmitted'') (\<lambda>a. named a (js ''tokenId''))
          (log_entry ''Transfer'' ''a'')
   \<and> \<not> yields example_interface (js ''ProposalSubmitted'') (\<lambda>a. named a (js ''tokenId''))
          (log_entry ''junk'' ''b'')
   \<and> yields example_interface (js ''ProposalSubmitted'') (\<lambda>a. named a (js ''tokenId''))
          (log_entry ''ProposalSubmitted'' ''1234567'')
   \<and> fst (addDepartment (example_world (short_logs ''0xD1'')) (js ''01'') (js ''Finance'')
            (js ''Office'') (js ''0x0'') False True None (Some (js ''0xDB'')) example_state)
     = Inr (with_departmentAddress (result_of (example_receipt (short_logs ''0xD1'')))
              (String (js ''0xD1'')))
   \<and> short_logs ''0xD1'' = [log_entry ''junk'' ''b'', log_entry ''DepartmentAdded/1'' ''DPWH'']
        @ log_entry ''DepartmentAdded'' ''0xD1'' # [log_entry ''DepartmentAdded'' ''0xD9'']
   \<and> \<not> yields example_interface (js ''DepartmentAdded'') (read_or (js ''deptContract''))
          (log_entry ''junk'' ''b'')
   \<and> \<not> yields example_interface (js ''DepartmentAdded'') (read_or (js ''deptContract''))
          (log_entry ''DepartmentAdded/1'' ''DPWH'')
   \<and> fst (addAgency (example_world agency_logs) (js ''0xD1'') (js ''002'') (js ''Treasury'')
            (js ''0x0'') None example_state)
     = Inr (with_agencyAddress (result_of (example_receipt agency_logs)) (String (js ''0xA1'')))
   \<and> agency_logs = [log_entry ''Transfer'' ''a'']
        @ log_entry ''AgencyAdded'' ''0xA1'' # [log_entry ''junk'' ''c'']
   \<and> \<not> yields example_interface (js ''AgencyAdded'') (read_or (js ''agencyContract''))
          (log_entry ''Transfer'' ''a'')"
proof -
  let ?p1 = "\<lparr>name = js ''ProposalSubmitted'', args = example_args (js ''tokenId'') (BigInt 7)\<rparr>"
  let ?p2 = "\<lparr>name = js ''DepartmentAdded'',
              args = example_args (js ''deptContract'') (String (js ''0xD1''))\<rparr>"
  let ?p3 = "\<lparr>name = js ''AgencyAdded'', args = example_args (js ''agency'') (String (js ''0xA1''))\<rparr>"
  let ?r1 = "with_tokenId (result_of (example_receipt proposal_logs))
               (submitProposal_extract example_interface (BigInt 0) proposal_logs)"
  let ?r2 = "with_departmentAddress (result_of (example_receipt (short_logs ''0xD1'')))
               (addDepartment_extract example_interface (String []) (short_logs ''0xD1''))"
  let ?r3 = "with_agencyAddress (result_of (example_receipt agency_logs))
               (addAgency_extract example_interface (String []) agency_logs)"
  have lists: "proposal_logs = [log_entry ''Transfer'' ''a'', log_entry ''junk'' ''b'']
        @ log_entry ''ProposalSubmitted'' ''1234567'' # [log_entry ''ProposalSubmitted'' ''12'']"
    "short_logs ''0xD1'' = [log_entry ''junk'' ''b'', log_entry ''DepartmentAdded/1'' ''DPWH'']
        @ log_entry ''DepartmentAdded'' ''0xD1'' # [log_entry ''DepartmentAdded'' ''0xD9'']"
    "agency_logs = [log_entry ''Transfer'' ''a'']
        @ log_entry ''AgencyAdded'' ''0xA1'' # [log_entry ''junk'' ''c'']"
    by (simp_all add: proposal_logs_def short_logs_def agency_logs_def)
  have no: "\<not> yields example_interface (js ''ProposalSubmitted'') (\<lambda>a. named a (js ''tokenId''))
          (log_entry ''Transfer'' ''a'')"
    "\<not> yields example_interface (js ''ProposalSubmitted'') (\<lambda>a. named a (js ''tokenId''))
          (log_entry ''junk'' ''b'')"
    "\<not> yields example_interface (js ''DepartmentAdded'') (read_or (js ''deptContract''))
          (log_entry ''junk'' ''b'')"
    "\<not> yields example_interface (js ''DepartmentAdded'') (read_or (js ''deptContract''))
          (log_entry ''DepartmentAdded/1'' ''DPWH'')"
    "\<not> yields example_interface (js ''AgencyAdded'') (read_or (js ''agencyContract''))
          (log_entry ''Transfer'' ''a'')"
    by (simp_all add: example_yields)
  have yes: "yields example_interface (js ''ProposalSubmitted'') (\<lambda>a. named a (js ''tokenId''))
          (log_entry ''ProposalSubmitted'' ''1234567'')"
    by (simp add: yields_def example_parse example_reads)
  have run: "fst (submitProposal (example_world proposal_logs) (js ''0xA'') (js ''ipfs://x'')
          example_proposal None example_state) = Inr ?r1"
    "fst (addDepartment (example_world (short_logs ''0xD1'')) (js ''01'') (js ''Finance'')
            (js ''Office'') (js ''0x0'') False True None (Some (js ''0xDB'')) example_state)
      = Inr ?r2"
    "fst (addAgency (example_world agency_logs) (js ''0xD1'') (js ''002'') (js ''Treasury'')
            (js ''0x0'') None example_state) = Inr ?r3"
    by (simp_all add: example_submitProposal example_addDepartment example_addAgency)
  have logs: "logs ?r1 = proposal_logs" "logs ?r2 = short_logs ''0xD1''" "logs ?r3 = agency_logs"
    by (simp_all add: example_logs)
  have parse: "parseLog example_interface (topics (log_entry ''ProposalSubmitted'' ''1234567''))
                 (data (log_entry ''ProposalSubmitted'' ''1234567'')) = Inr (Some ?p1)"
    "parseLog example_interface (topics (log_entry ''DepartmentAdded'' ''0xD1''))
                 (data (log_entry ''DepartmentAdded'' ''0xD1'')) = Inr (Some ?p2)"
    "parseLog example_interface (topics (log_entry ''AgencyAdded'' ''0xA1''))
                 (data (log_entry ''AgencyAdded'' ''0xA1'')) = Inr (Some ?p3)"
    by (simp_all add: example_parse)
  have reads: "name ?p1 = js ''ProposalSubmitted''"
    "named (args ?p1) (js ''tokenId'') = Inr (BigInt 7)"
    "name ?p2 = js ''DepartmentAdded''"
    "named (args ?p2) (js ''deptContract'') = Inr (String (js ''0xD1''))"
    "name ?p3 = js ''AgencyAdded''"
    "named (args ?p3) (js ''agencyContract'') = Inr Undefined"
    "positional (args ?p3) 1 = Inr (String (js ''0xA1''))"
    by (simp_all add: example_reads)
  note t = first_readable_match_decides
    [where w = "example_world proposal_logs" and a = "js ''0xA''" and uri = "js ''ipfs://x''"
       and d = example_proposal and pk = None and s = example_state
       and ?r1.0 = ?r1
       and ?pre1.0 = "[log_entry ''Transfer'' ''a'', log_entry ''junk'' ''b'']"
       and ?l1.0 = "log_entry ''ProposalSubmitted'' ''1234567''"
       and ?post1.0 = "[log_entry ''ProposalSubmitted'' ''12'']"
       and ?parsed1.0 = ?p1 and ?v1.0 = "BigInt 7"
       and w' = "example_world (short_logs ''0xD1'')" and c = "js ''01''" and n = "js ''Finance''"
       and an = "js ''Office''" and ao = "js ''0x0''" and sa = False and ad = True
       and pk' = None and da = "Some (js ''0xDB'')" and s' = example_state
       and ?r2.0 = ?r2
       and ?pre2.0 = "[log_entry ''junk'' ''b'', log_entry ''DepartmentAdded/1'' ''DPWH'']"
       and ?l2.0 = "log_entry ''DepartmentAdded'' ''0xD1''"
       and ?post2.0 = "[log_entry ''DepartmentAdded'' ''0xD9'']"
       and ?parsed2.0 = ?p2 and ?v2.0 = "String (js ''0xD1'')" and ?u2.0 = Undefined
       and w'' = "example_world agency_logs" and dp = "js ''0xD1''" and ac = "js ''002''"
       and nm = "js ''Treasury''" and ow = "js ''0x0''" and pk'' = None and s'' = example_state
       and ?r3.0 = ?r3
       and ?pre3.0 = "[log_entry ''Transfer'' ''a'']"
       and ?l3.0 = "log_entry ''AgencyAdded'' ''0xA1''"
       and ?post3.0 = "[log_entry ''junk'' ''c'']"
       and ?parsed3.0 = ?p3 and ?v3.0 = Undefined and ?u3.0 = "String (js ''0xA1'')"]
  from t run(1) logs(1) lists(1) no(1,2) parse(1) reads(1,2)
  have "tokenId ?r1 = BigInt 7" by (simp add: example_lib)
  then have 1: "?r1 = with_tokenId (result_of (example_receipt proposal_logs)) (BigInt 7)"
    by (simp add: example_fields)
  from t run(2) logs(2) lists(2) no(3,4) parse(2) reads(3,4)
  have "departmentAddress ?r2 = String (js ''0xD1'')" by (simp add: example_lib)
  then have 2: "?r2 = with_departmentAddress (result_of (example_receipt (short_logs ''0xD1'')))
                        (String (js ''0xD1''))"
    by (simp add: example_fields)
  from t run(3) logs(3) lists(3) no(5) parse(3) reads(5,6,7)
  have "agencyAddress ?r3 = String (js ''0xA1'')" by (simp add: example_lib)
  then have 3: "?r3 = with_agencyAddress (result_of (example_receipt agency_logs))
                        (String (js ''0xA1''))"
    by (simp add: example_fields)
  from run(1) 1 have r1: "fst (submitProposal (example_world proposal_logs) (js ''0xA'')
          (js ''ipfs://x'') example_proposal None example_state)
     = Inr (with_tokenId (result_of (example_receipt proposal_logs)) (BigInt 7))"
    by (rule trans [OF _ arg_cong])
  from run(2) 2 have r2: "fst (addDepartment (example_world (short_logs ''0xD1'')) (js ''01'')
            (js ''Finance'') (js ''Office'') (js ''0x0'') False True None (Some (js ''0xDB''))
            example_state)
     = Inr (with_departmentAddress (result_of (example_receipt (short_logs ''0xD1'')))
              (String (js ''0xD1'')))"
    by (rule trans [OF _ arg_cong])
  from run(3) 3 have r3: "fst (addAgency (example_world agency_logs) (js ''0xD1'') (js ''002'')
            (js ''Treasury'') (js ''0x0'') None example_state)
     = Inr (with_agencyAddress (result_of (example_receipt agency_logs)) (String (js ''0xA1'')))"
    by (rule trans [OF _ arg_cong])
  show ?thesis
    by (intro conjI r1 r2 r3 lists no yes)
qed

text \<open>
  C2. An entry on which \<open>parseLog\<close> throws is skipped: inserting any number of such
  entries into the log list leaves the value of the scan unchanged, at every call
  site of the loop.
\<close>

theorem undecodable_entries_are_skipped:
  "(\<forall>x\<in>set junk. undecodable iface x) \<Longrightarrow>
     submitProposal_extract iface d (pre @ junk @ rest) = submitProposal_extract iface d (pre @ rest)
   \<and> addRegularDepartment_extract iface d (pre @ junk @ rest)
       = addRegularDepartment_extract iface d (pre @ rest)
   \<and> addDepartment_extract iface d (pre @ junk @ rest) = addDepartment_extract iface d (pre @ rest)
   \<and> addAgency_extract iface d (pre @ junk @ rest) = addAgency_extract iface d (pre @ rest)
   \<and> reviseProposal_extract iface d (pre @ junk @ rest) = reviseProposal_extract iface d (pre @ rest)
   \<and> amendProposal_extract iface d (pre @ junk @ rest) = amendProposal_extract iface d (pre @ rest)
   \<and> submitSeparateGAB_extract iface d (pre @ junk @ rest)
       = submitSeparateGAB_extract iface d (pre @ rest)
   \<and> submitJointGAB_extract iface d (pre @ junk @ rest)
       = submitJointGAB_extract iface d (pre @ rest)"
  by (simp add: extract_first first_event_insert_undecodable)

text \<open>C2 with two undecodable entries put in front of the matching one.\<close>

theorem undecodable_entries_are_skipped_witness:
  "undecodable example_interface (log_entry ''junk'' ''x'')
   \<and> undecodable example_interface (log_entry ''junk'' ''y'')
   \<and> submitProposal_extract example_interface (BigInt 0)
        ([log_entry ''Transfer'' ''a''] @ [log_entry ''junk'' ''x'', log_entry ''junk'' ''y'']
           @ [log_entry ''ProposalSubmitted'' ''1234567''])
      = submitProposal_extract example_interface (BigInt 0)
          ([log_entry ''Transfer'' ''a''] @ [log_entry ''ProposalSubmitted'' ''1234567''])
   \<and> submitProposal_extract example_interface (BigInt 0)
        ([log_entry ''Transfer'' ''a''] @ [log_entry ''ProposalSubmitted'' ''1234567''])
      = BigInt 7"
  using undecodable_entries_are_skipped
    [where junk = "[log_entry ''junk'' ''x'', log_entry ''junk'' ''y'']"
       and iface = example_interface and d = "BigInt 0"
       and pre = "[log_entry ''Transfer'' ''a'']"
       and rest = "[log_entry ''ProposalSubmitted'' ''1234567'']"]
  by (simp add: example_undecodable example_parse example_reads)

text \<open>
  C5. When the wait yields a receipt, \<open>waitForTransaction\<close> returns its hash, block
  number, gas used and logs, with \<open>success\<close> true exactly when the status is 1; it
  throws exactly when the wait yields no receipt (it resolves to null, which is the
  error \<open>NoReceipt\<close>, or it rejects).
\<close>

theorem waitForTransaction_copies_receipt:
  "(wait t = Inr (Some rc) \<longrightarrow>
      (\<exists>r. fst (waitForTransaction t s) = Inr r
          \<and> txHash r = hash rc
          \<and> blockNumber r = receipt_blockNumber rc
          \<and> gasUsed r = receipt_gasUsed rc
          \<and> logs r = receipt_logs rc
          \<and> (success r \<longleftrightarrow> status rc = Some 1)))
   \<and> ((\<exists>e. fst (waitForTransaction t s) = Inl e) \<longleftrightarrow> (\<forall>rc. wait t \<noteq> Inr (Some rc)))
   \<and> (wait t' = Inr None \<longrightarrow> fst (waitForTransaction t' s') = Inl NoReceipt)"
  by (auto simp: waitForTransaction_def bind_sdk_def record_sdk_def throw_sdk_def return_sdk_def
           split: sum.splits option.splits)

text \<open>C5 at a mined receipt and at a wait that resolves to null.\<close>

theorem waitForTransaction_copies_receipt_witness:
  "wait \<lparr>wait = Inr (Some (example_receipt quiet_logs))\<rparr> = Inr (Some (example_receipt quiet_logs))
   \<and> fst (waitForTransaction \<lparr>wait = Inr (Some (example_receipt quiet_logs))\<rparr> example_state)
       = Inr \<lparr>txHash = js ''0xabc'', blockNumber = 12, gasUsed = 21000, success = True,
              logs = quiet_logs\<rparr>
   \<and> wait \<lparr>wait = Inr None\<rparr> = Inr None
   \<and> fst (waitForTransaction \<lparr>wait = Inr None\<rparr> example_state) = Inl NoReceipt"
  using waitForTransaction_copies_receipt
    [where t = "\<lparr>wait = Inr (Some (example_receipt quiet_logs))\<rparr>"
       and rc = "example_receipt quiet_logs" and s = example_state
       and t' = "\<lparr>wait = Inr None\<rparr>" and s' = example_state]
  by (auto simp: example_receipt_def)

text \<open>
  C6. The loops of \<open>addDepartment\<close> and \<open>addRegularDepartment\<close> are the same
  function: for every interface, initial value and log list they return the same
  department address.
\<close>

theorem department_scans_agree:
  "addDepartment_extract iface d ls = addRegularDepartment_extract iface d ls"
  by (simp add: addDepartment_extract_first addRegularDepartment_extract_first)

text \<open>C6 at the example interface and a receipt with two \<open>DepartmentAdded\<close> entries.\<close>

theorem department_scans_agree_witness:
  "addDepartment_extract example_interface (String []) department_logs
     = addRegularDepartment_extract example_interface (String []) department_logs
   \<and> addRegularDepartment_extract example_interface (String []) department_logs
     = String (js ''0xD1'')"
  using department_scans_agree [of example_interface "String []" department_logs]
  by (simp add: department_logs_def example_parse example_reads or_read_def)

text \<open>
  C8. \<open>configure\<close> validates before it mutates: with a chain mode other than
  \<open>testnet\<close> and \<open>mainnet\<close>, or with an empty API key, it throws and the module
  state is the one it started from; otherwise the stored configuration becomes
  exactly the given chain mode, API key and private key and the cached provider
  becomes null.
\<close>

theorem configure_validates_before_mutating:
  "(chainMode config \<notin> {js ''testnet'', js ''mainnet''} \<or> apiKey config = [] \<longrightarrow>
      (\<exists>e. configure config s = (Inl e, s)))
   \<and> (chainMode config' \<in> {js ''testnet'', js ''mainnet''} \<and> apiKey config' \<noteq> [] \<longrightarrow>
      configure config' s' =
        (Inr (), s'\<lparr>stored_config := Some \<lparr>chainMode = chainMode config', apiKey = apiKey config',
                                             privateKey = privateKey config'\<rparr>,
                    cached_provider := None\<rparr>))"
  by (auto simp: configure_def)

text \<open>C8 at a rejected configuration and at an accepted one that drops a cached provider.\<close>

theorem configure_validates_before_mutating_witness:
  "(chainMode \<lparr>chainMode = js ''devnet'', apiKey = js ''key'', privateKey = None\<rparr>
       \<notin> {js ''testnet'', js ''mainnet''})
   \<and> configure \<lparr>chainMode = js ''devnet'', apiKey = js ''key'', privateKey = None\<rparr> example_state
       = (Inl ChainModeInvalid, example_state)
   \<and> chainMode \<lparr>chainMode = js ''mainnet'', apiKey = js ''k2'', privateKey = None\<rparr>
       \<in> {js ''testnet'', js ''mainnet''}
   \<and> apiKey \<lparr>chainMode = js ''mainnet'', apiKey = js ''k2'', privateKey = None\<rparr> \<noteq> []
   \<and> configure \<lparr>chainMode = js ''mainnet'', apiKey = js ''k2'', privateKey = None\<rparr>
        (example_state\<lparr>cached_provider := Some example_provider\<rparr>)
       = (Inr (), example_state\<lparr>stored_config :=
                     Some \<lparr>chainMode = js ''mainnet'', apiKey = js ''k2'', privateKey = None\<rparr>,
                   cached_provider := None\<rparr>)"
  using configure_validates_before_mutating
    [where config = "\<lparr>chainMode = js ''devnet'', apiKey = js ''key'', privateKey = None\<rparr>"
       and s = example_state
       and config' = "\<lparr>chainMode = js ''mainnet'', apiKey = js ''k2'', privateKey = None\<rparr>"
       and s' = "example_state\<lparr>cached_provider := Some example_provider\<rparr>"]
  by (auto simp: configure_def)

text \<open>
  C9. When the signer, the submission and the wait succeed and no entry of the receipt
  decodes to the target event, the wrapper returns normally with the sentinel:
  \<open>submitProposal\<close> with \<open>tokenId = 0\<close>, \<open>addDepartment\<close> and \<open>addAgency\<close> with the
  empty address. A receipt whose first matching entry carries that same value (a
  token id 0, a falsy named argument and an empty argument 1) gives the loop the
  value it gives an empty log list, so the sentinel does not tell the two apart.
\<close>

theorem absent_event_gives_sentinel:
  "(getSigner w pk s = (Inr sg, s1) \<longrightarrow>
    prepareProposalData (lib w) d = Inr pd \<longrightarrow>
    submit w (Contract a AgencyABI (Signer sg)) ''submitProposal'' [Str uri, Proposal pd] = Inr t \<longrightarrow>
    wait t = Inr (Some rc) \<longrightarrow>
    (\<forall>x\<in>set (receipt_logs rc).
       \<not> decodes_to (interface_of (lib w) AgencyABI) (js ''ProposalSubmitted'') x) \<longrightarrow>
    (\<exists>r. fst (submitProposal w a uri d pk s) = Inr r \<and> tokenId r = BigInt 0
          \<and> logs r = receipt_logs rc))
   \<and>
   (getSigner w pk s = (Inr sg, s1) \<longrightarrow>
    getDBTCContract w da (Some sg) s1 = (Inr c, s2) \<longrightarrow>
    submit w c ''addDepartment'' [Str dc, Str dn, Str an, Str ao, Flag sa, Flag ad] = Inr t \<longrightarrow>
    wait t = Inr (Some rc) \<longrightarrow>
    (\<forall>x\<in>set (receipt_logs rc).
       \<not> decodes_to (interface_of (lib w) DBTCABI) (js ''DepartmentAdded'') x) \<longrightarrow>
    (\<exists>r. fst (addDepartment w dc dn an ao sa ad pk da s) = Inr r
          \<and> departmentAddress r = String [] \<and> logs r = receipt_logs rc))
   \<and>
   (getSigner w pk s = (Inr sg, s1) \<longrightarrow>
    submit w (Contract dp DepartmentABI (Signer sg)) ''addAgency'' [Str ac, Str nm, Str ow] = Inr t \<longrightarrow>
    wait t = Inr (Some rc) \<longrightarrow>
    (\<forall>x\<in>set (receipt_logs rc).
       \<not> decodes_to (interface_of (lib w) DepartmentABI) (js ''AgencyAdded'') x) \<longrightarrow>
    (\<exists>r. fst (addAgency w dp ac nm ow pk s) = Inr r
          \<and> agencyAddress r = String [] \<and> logs r = receipt_logs rc))
   \<and>
   ((\<forall>x\<in>set pre1. \<not> decodes_to iface (js ''ProposalSubmitted'') x) \<longrightarrow>
    parseLog iface (topics l1) (data l1) = Inr (Some parsed1) \<longrightarrow>
    name parsed1 = js ''ProposalSubmitted'' \<longrightarrow>
    named (args parsed1) (js ''tokenId'') = Inr (BigInt 0) \<longrightarrow>
    submitProposal_extract iface (BigInt 0) (pre1 @ l1 # post1)
      = submitProposal_extract iface (BigInt 0) [])
   \<and>
   ((\<forall>x\<in>set pre2. \<not> decodes_to iface (js ''DepartmentAdded'') x) \<longrightarrow>
    parseLog iface (topics l2) (data l2) = Inr (Some parsed2) \<longrightarrow>
    name parsed2 = js ''DepartmentAdded'' \<longrightarrow>
    named (args parsed2) (js ''deptContract'') = Inr v2 \<longrightarrow>
    \<not> truthy v2 \<longrightarrow>
    positional (args parsed2) 1 = Inr (String []) \<longrightarrow>
    addDepartment_extract iface (String []) (pre2 @ l2 # post2)
      = addDepartment_extract iface (String []) [])
   \<and>
   ((\<forall>x\<in>set pre3. \<not> decodes_to iface (js ''AgencyAdded'') x) \<longrightarrow>
    parseLog iface (topics l3) (data l3) = Inr (Some parsed3) \<longrightarrow>
    name parsed3 = js ''AgencyAdded'' \<longrightarrow>
    named (args parsed3) (js ''agencyContract'') = Inr v3 \<longrightarrow>
    \<not> truthy v3 \<longrightarrow>
    positional (args parsed3) 1 = Inr (String []) \<longrightarrow>
    addAgency_extract iface (String []) (pre3 @ l3 # post3)
      = addAgency_extract iface (String []) [])"
proof (intro conjI impI)
  assume "getSigner w pk s = (Inr sg, s1)" "prepareProposalData (lib w) d = Inr pd"
    "submit w (Contract a AgencyABI (Signer sg)) ''submitProposal'' [Str uri, Proposal pd] = Inr t"
    "wait t = Inr (Some rc)"
  then have "fst (submitProposal w a uri d pk s) =
      Inr (with_tokenId (result_of rc)
             (submitProposal_extract (interface_of (lib w) AgencyABI) (BigInt 0) (receipt_logs rc)))"
    by (simp add: submitProposal_run)
  moreover assume "\<forall>x\<in>set (receipt_logs rc).
       \<not> decodes_to (interface_of (lib w) AgencyABI) (js ''ProposalSubmitted'') x"
  ultimately show "\<exists>r. fst (submitProposal w a uri d pk s) = Inr r \<and> tokenId r = BigInt 0
          \<and> logs r = receipt_logs rc"
    by (simp add: submitProposal_extract_first first_event_none with_tokenId_def result_of_def)
next
  assume "getSigner w pk s = (Inr sg, s1)" "getDBTCContract w da (Some sg) s1 = (Inr c, s2)"
    "submit w c ''addDepartment'' [Str dc, Str dn, Str an, Str ao, Flag sa, Flag ad] = Inr t"
    "wait t = Inr (Some rc)"
  then have "fst (addDepartment w dc dn an ao sa ad pk da s) =
      Inr (with_departmentAddress (result_of rc)
             (addDepartment_extract (interface_of (lib w) DBTCABI) (String []) (receipt_logs rc)))"
    by (simp add: addDepartment_run)
  moreover assume "\<forall>x\<in>set (receipt_logs rc).
       \<not> decodes_to (interface_of (lib w) DBTCABI) (js ''DepartmentAdded'') x"
  ultimately show "\<exists>r. fst (addDepartment w dc dn an ao sa ad pk da s) = Inr r
          \<and> departmentAddress r = String [] \<and> logs r = receipt_logs rc"
    by (simp add: addDepartment_extract_first first_event_none with_departmentAddress_def
                  result_of_def)
next
  assume "getSigner w pk s = (Inr sg, s1)"
    "submit w (Contract dp DepartmentABI (Signer sg)) ''addAgency'' [Str ac, Str nm, Str ow] = Inr t"
    "wait t = Inr (Some rc)"
  then have "fst (addAgency w dp ac nm ow pk s) =
      Inr (with_agencyAddress (result_of rc)
             (addAgency_extract (interface_of (lib w) DepartmentABI) (String []) (receipt_logs rc)))"
    by (simp add: addAgency_run)
  moreover assume "\<forall>x\<in>set (receipt_logs rc).
       \<not> decodes_to (interface_of (lib w) DepartmentABI) (js ''AgencyAdded'') x"
  ultimately show "\<exists>r. fst (addAgency w dp ac nm ow pk s) = Inr r
          \<and> agencyAddress r = String [] \<and> logs r = receipt_logs rc"
    by (simp add: addAgency_extract_first first_event_none with_agencyAddress_def result_of_def)
next
  assume "\<forall>x\<in>set pre1. \<not> decodes_to iface (js ''ProposalSubmitted'') x"
    "parseLog iface (topics l1) (data l1) = Inr (Some parsed1)"
    "name parsed1 = js ''ProposalSubmitted''"
    "named (args parsed1) (js ''tokenId'') = Inr (BigInt 0)"
  then show "submitProposal_extract iface (BigInt 0) (pre1 @ l1 # post1)
      = submitProposal_extract iface (BigInt 0) []"
    by (simp add: submitProposal_extract_first first_event_first_decoded)
next
  assume "\<forall>x\<in>set pre2. \<not> decodes_to iface (js ''DepartmentAdded'') x"
    "parseLog iface (topics l2) (data l2) = Inr (Some parsed2)"
    "name parsed2 = js ''DepartmentAdded''"
    "named (args parsed2) (js ''deptContract'') = Inr v2"
    "\<not> truthy v2"
    "positional (args parsed2) 1 = Inr (String [])"
  then show "addDepartment_extract iface (String []) (pre2 @ l2 # post2)
      = addDepartment_extract iface (String []) []"
    by (simp add: addDepartment_extract_first first_event_first_decoded read_or_def or_read_def)
next
  assume "\<forall>x\<in>set pre3. \<not> decodes_to iface (js ''AgencyAdded'') x"
    "parseLog iface (topics l3) (data l3) = Inr (Some parsed3)"
    "name parsed3 = js ''AgencyAdded''"
    "named (args parsed3) (js ''agencyContract'') = Inr v3"
    "\<not> truthy v3"
    "positional (args parsed3) 1 = Inr (String [])"
  then show "addAgency_extract iface (String []) (pre3 @ l3 # post3)
      = addAgency_extract iface (String []) []"
    by (simp add: addAgency_extract_first first_event_first_decoded read_or_def or_read_def)
qed

text \<open>
  C9 at a receipt with two unrelated entries, and at log lists whose matching entry
  carries the sentinel value.
\<close>

theorem absent_event_gives_sentinel_witness:
  "getSigner (example_world quiet_logs) None example_state
     = (Inr example_signer, example_state\<lparr>cached_provider := Some example_provider\<rparr>)
   \<and> quiet_logs = [log_entry ''Transfer'' ''a'', log_entry ''junk'' ''b'']
   \<and> \<not> decodes_to example_interface (js ''ProposalSubmitted'') (log_entry ''Transfer'' ''a'')
   \<and> \<not> decodes_to example_interface (js ''ProposalSubmitted'') (log_entry ''junk'' ''b'')
   \<and> \<not> decodes_to example_interface (js ''DepartmentAdded'') (log_entry ''Transfer'' ''a'')
   \<and> \<not> decodes_to example_interface (js ''DepartmentAdded'') (log_entry ''junk'' ''b'')
   \<and> \<not> decodes_to example_interface (js ''AgencyAdded'') (log_entry ''Transfer'' ''a'')
   \<and> \<not> decodes_to example_interface (js ''AgencyAdded'') (log_entry ''junk'' ''b'')
   \<and> (\<exists>r. fst (submitProposal (example_world quiet_logs) (js ''0xA'') (js ''ipfs://x'')
                 example_proposal None example_state) = Inr r
          \<and> tokenId r = BigInt 0 \<and> logs r = quiet_logs)
   \<and> (\<exists>r. fst (addDepartment (example_world quiet_logs) (js ''01'') (js ''Finance'')
                 (js ''Office'') (js ''0x0'') False True None (Some (js ''0xDB'')) example_state)
             = Inr r
          \<and> departmentAddress r = String [] \<and> logs r = quiet_logs)
   \<and> (\<exists>r. fst (addAgency (example_world quiet_logs) (js ''0xD1'') (js ''002'') (js ''Treasury'')
                 (js ''0x0'') None example_state) = Inr r
          \<and> agencyAddress r = String [] \<and> logs r = quiet_logs)
   \<and> submitProposal_extract example_interface (BigInt 0)
        ([log_entry ''Transfer'' ''a''] @ log_entry ''ProposalSubmitted'' [] # [])
       = submitProposal_extract example_interface (BigInt 0) []
   \<and> addDepartment_extract example_interface (String [])
        ([log_entry ''Transfer'' ''a''] @ log_entry ''DepartmentAdded'' [] # [])
       = addDepartment_extract example_interface (String []) []
   \<and> addAgency_extract example_interface (String [])
        ([log_entry ''Transfer'' ''a''] @ log_entry ''AgencyAdded'' [] # [])
       = addAgency_extract example_interface (String []) []"
proof -
  let ?w = "example_world quiet_logs"
  let ?s1 = "example_state\<lparr>cached_provider := Some example_provider\<rparr>"
  let ?pd = "\<lparr>fiscalYear = 0, departmentCode = ZeroHash, agencyCode = ZeroHash,
              prexcFpapId32 = map (\<lambda>c. of_nat (of_char c)) ''PREXC-001'' @ replicate 23 0,
              uacsObjCode32 = map (\<lambda>c. of_nat (of_char c)) ''PS-001'' @ replicate 26 0,
              amountBigInt = 1000000\<rparr>"
  let ?t = "\<lparr>wait = Inr (Some (example_receipt quiet_logs))\<rparr>"
  let ?c = "Contract (js ''0xDB'') DBTCABI (Signer example_signer)"
  let ?p1 = "\<lparr>name = js ''ProposalSubmitted'', args = example_args (js ''tokenId'') (BigInt 0)\<rparr>"
  let ?p2 = "\<lparr>name = js ''DepartmentAdded'',
              args = example_args (js ''deptContract'') (String [])\<rparr>"
  let ?p3 = "\<lparr>name = js ''AgencyAdded'', args = example_args (js ''agency'') (String [])\<rparr>"
  have signer: "getSigner ?w None example_state = (Inr example_signer, ?s1)"
    by (rule example_getSigner)
  have prepared: "prepareProposalData (lib ?w) example_proposal = Inr ?pd"
    by (rule example_prepare_world)
  have dbtc: "getDBTCContract ?w (Some (js ''0xDB'')) (Some example_signer) ?s1 = (Inr ?c, ?s1)"
    by (rule example_getDBTCContract)
  have sent: "submit ?w cc m as = Inr ?t" for cc m as
    by (rule example_world_fields)
  have mined: "wait ?t = Inr (Some (example_receipt quiet_logs))"
    by simp
  have quiet: "\<forall>x\<in>set (receipt_logs (example_receipt quiet_logs)).
                 \<not> decodes_to (interface_of (lib ?w) abi) (js ev) x"
    if "ev \<noteq> ''Transfer''" for abi ev
    using that by (simp add: example_receipt_def quiet_logs_def example_lib example_decodes)
  have none: "\<forall>x\<in>set [log_entry ''Transfer'' ''a'']. \<not> decodes_to example_interface (js ev) x"
    if "ev \<noteq> ''Transfer''" for ev
    using that by (simp add: example_decodes)
  have parse1: "parseLog example_interface (topics (log_entry ''ProposalSubmitted'' []))
                  (data (log_entry ''ProposalSubmitted'' [])) = Inr (Some ?p1)"
    and parse2: "parseLog example_interface (topics (log_entry ''DepartmentAdded'' []))
                  (data (log_entry ''DepartmentAdded'' [])) = Inr (Some ?p2)"
    and parse3: "parseLog example_interface (topics (log_entry ''AgencyAdded'' []))
                  (data (log_entry ''AgencyAdded'' [])) = Inr (Some ?p3)"
    by (simp_all add: example_parse)
  have reads: "name ?p1 = js ''ProposalSubmitted''"
    "named (args ?p1) (js ''tokenId'') = Inr (BigInt 0)"
    "name ?p2 = js ''DepartmentAdded''" "named (args ?p2) (js ''deptContract'') = Inr (String [])"
    "\<not> truthy (String [])" "positional (args ?p2) 1 = Inr (String [])"
    "name ?p3 = js ''AgencyAdded''" "named (args ?p3) (js ''agencyContract'') = Inr Undefined"
    "\<not> truthy Undefined" "positional (args ?p3) 1 = Inr (String [])"
    by (simp_all add: example_reads)
  note t = absent_event_gives_sentinel
    [where w = ?w and pk = None and s = example_state and sg = example_signer and ?s1.0 = ?s1
       and d = example_proposal and pd = ?pd and a = "js ''0xA''" and uri = "js ''ipfs://x''"
       and t = ?t and rc = "example_receipt quiet_logs"
       and da = "Some (js ''0xDB'')" and c = ?c and ?s2.0 = ?s1
       and dc = "js ''01''" and dn = "js ''Finance''" and an = "js ''Office''"
       and ao = "js ''0x0''" and sa = False and ad = True
       and dp = "js ''0xD1''" and ac = "js ''002''" and nm = "js ''Treasury''" and ow = "js ''0x0''"
       and iface = example_interface
       and ?pre1.0 = "[log_entry ''Transfer'' ''a'']"
       and ?l1.0 = "log_entry ''ProposalSubmitted'' []" and ?post1.0 = "[]" and ?parsed1.0 = ?p1
       and ?pre2.0 = "[log_entry ''Transfer'' ''a'']"
       and ?l2.0 = "log_entry ''DepartmentAdded'' []" and ?post2.0 = "[]" and ?parsed2.0 = ?p2
       and ?v2.0 = "String []" and ?v3.0 = Undefined
       and ?pre3.0 = "[log_entry ''Transfer'' ''a'']"
       and ?l3.0 = "log_entry ''AgencyAdded'' []" and ?post3.0 = "[]" and ?parsed3.0 = ?p3]
  have logs: "receipt_logs (example_receipt quiet_logs) = quiet_logs"
    by (simp add: example_receipt_def)
  have a: "quiet_logs = [log_entry ''Transfer'' ''a'', log_entry ''junk'' ''b'']"
    "\<not> decodes_to example_interface (js ''ProposalSubmitted'') (log_entry ''Transfer'' ''a'')"
    "\<not> decodes_to example_interface (js ''ProposalSubmitted'') (log_entry ''junk'' ''b'')"
    "\<not> decodes_to example_interface (js ''DepartmentAdded'') (log_entry ''Transfer'' ''a'')"
    "\<not> decodes_to example_interface (js ''DepartmentAdded'') (log_entry ''junk'' ''b'')"
    "\<not> decodes_to example_interface (js ''AgencyAdded'') (log_entry ''Transfer'' ''a'')"
    "\<not> decodes_to example_interface (js ''AgencyAdded'') (log_entry ''junk'' ''b'')"
    by (simp_all add: quiet_logs_def example_decodes)
  from t signer prepared dbtc sent mined quiet [of "''ProposalSubmitted''" AgencyABI]
    quiet [of "''DepartmentAdded''" DBTCABI] quiet [of "''AgencyAdded''" DepartmentABI]
    none [of "''ProposalSubmitted''"] none [of "''DepartmentAdded''"] none [of "''AgencyAdded''"]
    parse1 parse2 parse3 reads
  show ?thesis
    unfolding logs by (intro conjI signer a) simp_all
qed


text \<open>
  C3, as stated, fails: \<open>getPhaseName\<close> is exported, returns a name, and touches no
  contract, so its run is neither a submitted transaction with its wait nor a read.
\<close>

theorem getPhaseName_touches_no_contract:
  "run (example_world quiet_logs) (Types (GetPhaseName PRE_BUDGET)) example_state
     = (Inr (), example_state)
   \<and> getPhaseName PRE_BUDGET = js ''Pre-Budget''
   \<and> interactions example_state example_state = []
   \<and> \<not> submits_and_waits (interactions example_state example_state)
   \<and> \<not> queries_only (interactions example_state example_state)"
  by (simp add: discard_def bind_sdk_def return_sdk_def interactions_def queries_only_def
                PRE_BUDGET_def)


text \<open>
  C3, amended. A call of a function exported from the agency, department or dbtc
  module that returns has either (a) submitted one transaction through a signer-bound
  contract and waited for its receipt, or (b) made one or more reads through a
  provider-bound contract and nothing else. A call of a function exported from the
  config, types or utils module (\<open>configure\<close>, \<open>getConfig\<close>, \<open>getChainMode\<close>,
  \<open>isTestnet\<close>, \<open>isMainnet\<close>, \<open>setContractAddresses\<close>, \<open>getPhaseName\<close>,
  \<open>getStatusName\<close>, \<open>stringToBytes32\<close>, \<open>bytes32ToString\<close>) touches no contract.
\<close>

theorem exports_by_module:
  "fst (run w call s) = Inr u \<Longrightarrow>
     (case call of
        Agency c \<Rightarrow>
          submits_and_waits (interactions s (snd (run w call s)))
          \<or> queries_only (interactions s (snd (run w call s)))
      | Department c \<Rightarrow>
          submits_and_waits (interactions s (snd (run w call s)))
          \<or> queries_only (interactions s (snd (run w call s)))
      | DBTC c \<Rightarrow>
          submits_and_waits (interactions s (snd (run w call s)))
          \<or> queries_only (interactions s (snd (run w call s)))
      | Config c \<Rightarrow> interactions s (snd (run w call s)) = []
      | Types c \<Rightarrow> interactions s (snd (run w call s)) = []
      | Utils c \<Rightarrow> interactions s (snd (run w call s)) = [])"
proof (cases call)
  case (Config c)
  then show ?thesis by (simp add: silent_interactions [OF silent_run_config])
next
  case (Types c)
  then show ?thesis by (simp add: silent_interactions [OF silent_run_types])
next
  case (Agency c)
  assume "fst (run w call s) = Inr u"
  with Agency have "fst (run_agency w c s) = Inr u" by simp
  from records_interactions [OF run_agency_records this] Agency show ?thesis by simp
next
  case (Department c)
  assume "fst (run w call s) = Inr u"
  with Department have "fst (run_department w c s) = Inr u" by simp
  from records_interactions [OF run_department_records this] Department show ?thesis by simp
next
  case (DBTC c)
  assume "fst (run w call s) = Inr u"
  with DBTC have "fst (run_dbtc w c s) = Inr u" by simp
  from records_interactions [OF run_dbtc_records this] DBTC show ?thesis by simp
next
  case (Utils c)
  then show ?thesis by (simp add: silent_interactions [OF silent_run_utils])
qed


text \<open>C3, amended, at a call of \<open>submitProposal\<close>.\<close>

theorem exports_by_module_witness:
  "fst (run (example_world quiet_logs)
          (Agency (SubmitProposal (js ''0xA'') (js ''ipfs://x'') example_proposal None))
          example_state) = Inr ()
   \<and> submits_and_waits
        (interactions example_state
           (snd (run (example_world quiet_logs)
                   (Agency (SubmitProposal (js ''0xA'') (js ''ipfs://x'') example_proposal None))
                   example_state)))"
proof -
  let ?call = "Agency (SubmitProposal (js ''0xA'') (js ''ipfs://x'') example_proposal None)"
  let ?run = "run (example_world quiet_logs) ?call example_state"
  have f: "fst ?run = Inr ()"
    unfolding example_run_submitProposal by simp
  have "\<not> queries_only (interactions example_state (snd ?run))"
    unfolding example_run_submitProposal
    by (simp add: interactions_def example_state_def queries_only_def)
  moreover from exports_by_module [OF f]
  have "submits_and_waits (interactions example_state (snd ?run))
        \<or> queries_only (interactions example_state (snd ?run))"
    by (simp only: export_call.case)
  ultimately have "submits_and_waits (interactions example_state (snd ?run))" by blast
  with f show ?thesis by blast
qed


text \<open>
  C4, as stated, fails: a \<open>prexcFpapId\<close> of 32 characters makes \<open>submitProposal\<close>
  throw \<open>StringTooLong\<close> with nothing sent to the contract, where the same call with a
  short field goes through.
\<close>

theorem long_field_is_rejected_before_the_call:
  "fst (submitProposal (example_world quiet_logs) (js ''0xA'') (js ''ipfs://x'')
          long_proposal None example_state) = Inl StringTooLong
   \<and> trace (snd (submitProposal (example_world quiet_logs) (js ''0xA'') (js ''ipfs://x'')
                   long_proposal None example_state)) = []
   \<and> (\<exists>r. fst (submitProposal (example_world quiet_logs) (js ''0xA'') (js ''ipfs://x'')
                 example_proposal None example_state) = Inr r)"
proof -
  have "prepareProposalData (lib (example_world quiet_logs)) long_proposal = Inl StringTooLong"
    by (simp add: prepareProposalData_def stringToBytes32_def long_proposal_def)
  from submitProposal_not_prepared [OF example_getSigner this]
  have "submitProposal (example_world quiet_logs) (js ''0xA'') (js ''ipfs://x'')
          long_proposal None example_state
        = (Inl StringTooLong, example_state\<lparr>cached_provider := Some example_provider\<rparr>)" .
  moreover have "trace (example_state\<lparr>cached_provider := Some example_provider\<rparr>) = []"
    by (simp add: example_state_def)
  ultimately show ?thesis
    by (simp add: example_submitProposal)
qed


text \<open>
  C4, amended. The one client-side restriction on the proposal data is that it
  converts: \<open>prepareProposalData\<close> returns exactly when both strings have at most 31
  characters and are accepted by the bytes32 encoder and the amount is accepted by
  \<open>BigInt\<close>, and it passes on the converted values unchanged. With a signer,
  \<open>submitProposal\<close> then submits the contract call with exactly those values; when the
  conversion throws (as it does on a field of more than 31 characters) it throws that
  error and submits nothing.
\<close>

theorem conversion_is_the_only_client_check:
  "(prepareProposalData (lib w) d = Inr pd \<longleftrightarrow>
      length (prexcFpapId d) \<le> 31 \<and> length (uacsObjCode d) \<le> 31 \<and>
      (\<exists>p u n. encodeBytes32String (lib w) (prexcFpapId d) = Inr p
             \<and> encodeBytes32String (lib w) (uacsObjCode d) = Inr u
             \<and> BigInt_of (lib w) (amount d) = Inr n
             \<and> pd = \<lparr>fiscalYear = 0, departmentCode = ZeroHash, agencyCode = ZeroHash,
                      prexcFpapId32 = p, uacsObjCode32 = u, amountBigInt = n\<rparr>))
   \<and> (getSigner w pk s = (Inr sg, s1) \<longrightarrow> prepareProposalData (lib w) d = Inr pd \<longrightarrow>
        (\<exists>rest. trace (snd (submitProposal w a uri d pk s)) =
           trace s1 @ Sent (Contract a AgencyABI (Signer sg)) ''submitProposal''
                        [Str uri, Proposal pd] # rest))
   \<and> (getSigner w pk s = (Inr sg, s1) \<longrightarrow> prepareProposalData (lib w) d' = Inl e \<longrightarrow>
        submitProposal w a uri d' pk s = (Inl e, s1))
   \<and> (length (prexcFpapId d') > 31 \<longrightarrow> prepareProposalData (lib w) d' = Inl StringTooLong)"
proof (intro conjI impI)
  show "prepareProposalData (lib w) d = Inr pd \<longleftrightarrow>
      length (prexcFpapId d) \<le> 31 \<and> length (uacsObjCode d) \<le> 31 \<and>
      (\<exists>p u n. encodeBytes32String (lib w) (prexcFpapId d) = Inr p
             \<and> encodeBytes32String (lib w) (uacsObjCode d) = Inr u
             \<and> BigInt_of (lib w) (amount d) = Inr n
             \<and> pd = \<lparr>fiscalYear = 0, departmentCode = ZeroHash, agencyCode = ZeroHash,
                      prexcFpapId32 = p, uacsObjCode32 = u, amountBigInt = n\<rparr>)"
    unfolding prepareProposalData_Inr stringToBytes32_Inr by blast
next
  assume "getSigner w pk s = (Inr sg, s1)" "prepareProposalData (lib w) d = Inr pd"
  then show "\<exists>rest. trace (snd (submitProposal w a uri d pk s)) =
           trace s1 @ Sent (Contract a AgencyABI (Signer sg)) ''submitProposal''
                        [Str uri, Proposal pd] # rest"
    by (rule submitProposal_prepared)
next
  assume "getSigner w pk s = (Inr sg, s1)" "prepareProposalData (lib w) d' = Inl e"
  then show "submitProposal w a uri d' pk s = (Inl e, s1)"
    by (rule submitProposal_not_prepared)
next
  assume "length (prexcFpapId d') > 31"
  then show "prepareProposalData (lib w) d' = Inl StringTooLong"
    by (simp add: prepareProposalData_def stringToBytes32_def)
qed


text \<open>C4, amended, at a proposal that converts and at one whose first field is too long.\<close>

theorem conversion_is_the_only_client_check_witness:
  "prepareProposalData (lib (example_world quiet_logs)) example_proposal =
     Inr \<lparr>fiscalYear = 0, departmentCode = ZeroHash, agencyCode = ZeroHash,
          prexcFpapId32 = map (\<lambda>c. of_nat (of_char c)) ''PREXC-001'' @ replicate 23 0,
          uacsObjCode32 = map (\<lambda>c. of_nat (of_char c)) ''PS-001'' @ replicate 26 0,
          amountBigInt = 1000000\<rparr>
   \<and> length (prexcFpapId example_proposal) = 9
   \<and> length (uacsObjCode example_proposal) = 6
   \<and> getSigner (example_world quiet_logs) None example_state
       = (Inr example_signer, example_state\<lparr>cached_provider := Some example_provider\<rparr>)
   \<and> (\<exists>rest. trace (snd (submitProposal (example_world quiet_logs) (js ''0xA'') (js ''ipfs://x'')
                          example_proposal None example_state)) =
         trace (example_state\<lparr>cached_provider := Some example_provider\<rparr>)
         @ Sent (Contract (js ''0xA'') AgencyABI (Signer example_signer)) ''submitProposal''
             [Str (js ''ipfs://x''),
              Proposal \<lparr>fiscalYear = 0, departmentCode = ZeroHash, agencyCode = ZeroHash,
                 prexcFpapId32 = map (\<lambda>c. of_nat (of_char c)) ''PREXC-001'' @ replicate 23 0,
                 uacsObjCode32 = map (\<lambda>c. of_nat (of_char c)) ''PS-001'' @ replicate 26 0,
                 amountBigInt = 1000000\<rparr>] # rest)
   \<and> length (prexcFpapId long_proposal) = 32
   \<and> prepareProposalData (lib (example_world quiet_logs)) long_proposal = Inl StringTooLong
   \<and> submitProposal (example_world quiet_logs) (js ''0xA'') (js ''ipfs://x'') long_proposal None
        example_state
       = (Inl StringTooLong, example_state\<lparr>cached_provider := Some example_provider\<rparr>)"
proof -
  let ?pd = "\<lparr>fiscalYear = 0, departmentCode = ZeroHash, agencyCode = ZeroHash,
          prexcFpapId32 = map (\<lambda>c. of_nat (of_char c)) ''PREXC-001'' @ replicate 23 0,
          uacsObjCode32 = map (\<lambda>c. of_nat (of_char c)) ''PS-001'' @ replicate 26 0,
          amountBigInt = 1000000\<rparr>"
  have long: "length (prexcFpapId long_proposal) = 32" "31 < length (prexcFpapId long_proposal)"
    by (simp_all add: long_proposal_def)
  have short: "length (prexcFpapId example_proposal) = 9" "length (uacsObjCode example_proposal) = 6"
    by (simp_all add: example_proposal_def)
  note t = conversion_is_the_only_client_check
    [where w = "example_world quiet_logs" and d = example_proposal and pd = ?pd and pk = None
       and s = example_state and sg = example_signer
       and ?s1.0 = "example_state\<lparr>cached_provider := Some example_provider\<rparr>"
       and a = "js ''0xA''" and uri = "js ''ipfs://x''" and d' = long_proposal
       and e = StringTooLong]
  from t example_getSigner [of quiet_logs] example_prepare_world [of quiet_logs] long
  have "prepareProposalData (lib (example_world quiet_logs)) long_proposal = Inl StringTooLong"
    by blast
  with t example_getSigner [of quiet_logs] example_prepare_world [of quiet_logs] long short
  show ?thesis by (intro conjI) blast+
qed


text \<open>
  C7, as stated, fails: sixteen copies of U+00E9 are a string of length 16 without
  null characters, and \<open>stringToBytes32\<close> throws on it, because its UTF-8 encoding has
  32 bytes.
\<close>

theorem multibyte_string_is_rejected:
  "length (replicate 16 (0xe9 :: 16 word)) = 16
   \<and> no_null (replicate 16 0xe9)
   \<and> stringToBytes32 example_library (replicate 16 0xe9)
       = Inl (External ''bytes32 string must be less than 32 bytes'')"
  by code_simp


text \<open>
  C7, amended. With the bytes32 codec of ethers, \<open>stringToBytes32\<close> throws on every
  string of more than 31 code units, and otherwise exactly when the UTF-8 encoding of
  the string fails or has more than 31 bytes; on a string of 7-bit characters it
  throws exactly when the length exceeds 31. For every string \<open>s\<close> without null
  characters and without unpaired surrogates on which \<open>stringToBytes32\<close> returns,
  \<open>bytes32ToString (stringToBytes32 s) = s\<close>; and it returns on every string of 7-bit
  characters of length at most 31.
\<close>

theorem stringToBytes32_round_trip:
  assumes "encodeBytes32String l = ethers_encodeBytes32String"
    and "decodeBytes32String l = ethers_decodeBytes32String"
  shows "(length str > 31 \<longrightarrow> stringToBytes32 l str = Inl StringTooLong)
       \<and> ((\<exists>e. stringToBytes32 l str = Inl e) \<longleftrightarrow>
            length str > 31 \<or> (\<exists>e. toUtf8Bytes str = Inl e)
            \<or> (\<exists>bs. toUtf8Bytes str = Inr bs \<and> length bs > 31))
       \<and> (ascii str \<longrightarrow> ((\<exists>e. stringToBytes32 l str = Inl e) \<longleftrightarrow> length str > 31))
       \<and> (well_formed s \<and> no_null s \<and> stringToBytes32 l s = Inr b \<longrightarrow>
            bytes32ToString l b = Inr s)
       \<and> (ascii str' \<and> no_null str' \<and> length str' \<le> 31 \<longrightarrow>
            (\<exists>b'. stringToBytes32 l str' = Inr b' \<and> bytes32ToString l b' = Inr str'))"
proof (intro conjI impI)
  assume "length str > 31"
  then show "stringToBytes32 l str = Inl StringTooLong"
    by (simp add: stringToBytes32_def)
next
  show "(\<exists>e. stringToBytes32 l str = Inl e) \<longleftrightarrow>
            length str > 31 \<or> (\<exists>e. toUtf8Bytes str = Inl e)
            \<or> (\<exists>bs. toUtf8Bytes str = Inr bs \<and> length bs > 31)"
    by (rule stringToBytes32_throws [OF assms(1)])
next
  assume "ascii str"
  then show "(\<exists>e. stringToBytes32 l str = Inl e) \<longleftrightarrow> length str > 31"
    by (simp add: stringToBytes32_throws [OF assms(1)] toUtf8Bytes_ascii)
next
  assume a: "well_formed s \<and> no_null s \<and> stringToBytes32 l s = Inr b"
  then have "ethers_encodeBytes32String s = Inr b"
    using stringToBytes32_encodes [OF assms(1)] by blast
  with a have "ethers_decodeBytes32String b = Inr s"
    using codec_round_trip by blast
  then show "bytes32ToString l b = Inr s"
    by (simp add: bytes32ToString_def assms(2))
next
  assume a: "ascii str' \<and> no_null str' \<and> length str' \<le> 31"
  then have "stringToBytes32 l str' = Inr (map ucast str' @ replicate (32 - length str') 0)"
    by (simp add: stringToBytes32_def assms(1) ascii_round_trip(1))
  moreover from a
  have "bytes32ToString l (map ucast str' @ replicate (32 - length str') 0) = Inr str'"
    by (simp add: bytes32ToString_def assms(2) ascii_round_trip(2))
  ultimately show "\<exists>b'. stringToBytes32 l str' = Inr b' \<and> bytes32ToString l b' = Inr str'"
    by blast
qed


text \<open>
  C7, amended, at a string of 32 characters, at the four code units of U+00E9,
  U+1F600 and U+20AC, and at \<open>PREXC-001\<close>.
\<close>

theorem stringToBytes32_round_trip_witness:
  "length (replicate 32 (0x41 :: 16 word)) = 32
   \<and> ascii (replicate 32 0x41)
   \<and> stringToBytes32 example_library (replicate 32 0x41) = Inl StringTooLong
   \<and> well_formed [0xe9, 0xd83d, 0xde00, 0x20ac]
   \<and> no_null [0xe9, 0xd83d, 0xde00, 0x20ac]
   \<and> stringToBytes32 example_library [0xe9, 0xd83d, 0xde00, 0x20ac]
       = Inr ([0xc3, 0xa9, 0xf0, 0x9f, 0x98, 0x80, 0xe2, 0x82, 0xac] @ replicate 23 0)
   \<and> bytes32ToString example_library
         ([0xc3, 0xa9, 0xf0, 0x9f, 0x98, 0x80, 0xe2, 0x82, 0xac] @ replicate 23 0)
       = Inr [0xe9, 0xd83d, 0xde00, 0x20ac]
   \<and> ascii (js ''PREXC-001'') \<and> no_null (js ''PREXC-001'') \<and> length (js ''PREXC-001'') = 9
   \<and> (\<exists>b. stringToBytes32 example_library (js ''PREXC-001'') = Inr b
          \<and> bytes32ToString example_library b = Inr (js ''PREXC-001''))"
proof -
  have 1: "length (replicate 32 (0x41 :: 16 word)) = 32" "31 < length (replicate 32 (0x41 :: 16 word))"
    by simp_all
  have 2: "ascii (replicate 32 0x41)"
    by (simp add: ascii_def list_all_iff)
  have 3: "ascii (js ''PREXC-001'')" "no_null (js ''PREXC-001'')"
    "length (js ''PREXC-001'') = 9" "length (js ''PREXC-001'') \<le> 31"
    by (simp_all add: ascii_def no_null_def js_def)
  have 4: "well_formed [0xe9, 0xd83d, 0xde00, 0x20ac]"
    by code_simp
  have 5: "no_null [0xe9, 0xd83d, 0xde00, 0x20ac]"
    by (simp add: no_null_def)
  have 6: "stringToBytes32 example_library [0xe9, 0xd83d, 0xde00, 0x20ac]
           = Inr ([0xc3, 0xa9, 0xf0, 0x9f, 0x98, 0x80, 0xe2, 0x82, 0xac] @ replicate 23 0)"
    by code_simp
  note t = stringToBytes32_round_trip
    [OF example_codec, where str = "replicate 32 0x41" and str' = "js ''PREXC-001''"
      and s = "[0xe9, 0xd83d, 0xde00, 0x20ac]"
      and b = "[0xc3, 0xa9, 0xf0, 0x9f, 0x98, 0x80, 0xe2, 0x82, 0xac] @ replicate 23 0"]
  from t 1 have "stringToBytes32 example_library (replicate 32 0x41) = Inl StringTooLong"
    by blast
  moreover from t 4 5 6
  have "bytes32ToString example_library
         ([0xc3, 0xa9, 0xf0, 0x9f, 0x98, 0x80, 0xe2, 0x82, 0xac] @ replicate 23 0)
       = Inr [0xe9, 0xd83d, 0xde00, 0x20ac]"
    by blast
  moreover from t 3
  have "\<exists>b. stringToBytes32 example_library (js ''PREXC-001'') = Inr b
          \<and> bytes32ToString example_library b = Inr (js ''PREXC-001'')"
    by blast
  ultimately show ?thesis using 1 2 3 4 5 6 by blast
qed

end
